theory Spec2Isabelle
  imports Complex_Main
begin

section \<open>The multicomponent fluid model (CFluidCantera.cpp)\<close>

text \<open>
  \<^verbatim>\<open>su2double\<close> is modelled as \<^typ>\<open>real\<close>: the arithmetic of the mixing rules is
  read as exact arithmetic, rounding and the IEEE special values are not part of the
  model. The per-species arrays are \<^verbatim>\<open>std::array<su2double, ARRAYSIZE>\<close> members and are
  modelled as lists of that length; every loop of the source only touches the first
  \<^verbatim>\<open>n_species_mixture\<close> entries. \<^verbatim>\<open>n_species_mixture\<close> is an \<^verbatim>\<open>int\<close> that the
  constructor sets to \<^verbatim>\<open>GetnSpecies() + 1\<close> (an \<^verbatim>\<open>unsigned short\<close> plus one, so it is
  at least 1 and cannot overflow); it is a \<^typ>\<open>nat\<close> here.

  The species models behind \<^verbatim>\<open>LaminarViscosityPointers\<close>,
  \<^verbatim>\<open>ThermalConductivityPointers\<close> and \<^verbatim>\<open>MassDiffusivityPointers\<close> are classes that are
  not part of these sources. Each one is used as \<^verbatim>\<open>Set...(args)\<close> followed at once by
  \<^verbatim>\<open>Get...()\<close>, so a model is a function from the arguments of the setter to the
  value the getter returns, and the pointer tables are functions from the species index.

  \<^verbatim>\<open>setState_TPX_calls\<close> records the calls made to the chemistry backend
  (\<^verbatim>\<open>gas->setState_TPX(T, P, X)\<close>), latest first.
\<close>

datatype error = SU2_MPI_Error string | OutOfRange nat nat | NonFinite

text \<open>
  The enumerations are declared outside these sources. The code names the enumerators
  \<^verbatim>\<open>WILKE\<close>, \<^verbatim>\<open>DAVIDSON\<close>, \<^verbatim>\<open>RESIDUALS\<close>, \<^verbatim>\<open>FIXED_POINT\<close> and \<^verbatim>\<open>COMPRESSIBLE\<close>;
  \<open>OTHER_MIXING_MODEL\<close> and \<open>OTHER_REGIME\<close> stand for any enumerator the code does not
  name.
\<close>

datatype MIXINGVISCOSITYMODEL = WILKE | DAVIDSON | OTHER_MIXING_MODEL

datatype ENUM_DISCRETE_ADJOINT = RESIDUALS | FIXED_POINT

datatype ENUM_REGIME = COMPRESSIBLE | OTHER_REGIME

text \<open>The getters of \<^verbatim>\<open>CConfig\<close> that the two files call, as the fields of a record.\<close>

record CConfig =
  GetnSpecies :: nat
  GetGamma :: real
  GetGas_Constant_Ref :: real
  GetPrandtl_Turb :: real
  GetKind_MixingViscosityModel :: MIXINGVISCOSITYMODEL
  GetMolecular_Weight :: "nat \<Rightarrow> real"
  GetSpecific_Heat_CpND :: "nat \<Rightarrow> real"
  GetFluidProblem :: bool
  GetDiscrete_Adjoint :: bool
  GetKind_DiscreteAdjoint :: ENUM_DISCRETE_ADJOINT
  GetKind_Regime :: ENUM_REGIME
  GetPrandtl_Lam :: real
  GetGas_ConstantND :: real

text \<open>
  What \<^verbatim>\<open>CFluidCantera.cpp\<close> takes from headers that are not part of these sources, as
  parameters: the constants \<^verbatim>\<open>ARRAYSIZE\<close> and \<^verbatim>\<open>UNIVERSAL_GAS_CONSTANT\<close> and the
  factories of the base class \<^verbatim>\<open>CFluidModel\<close> that build the species models.
\<close>

record CFluidModel_base =
  ARRAYSIZE :: nat
  UNIVERSAL_GAS_CONSTANT :: real
  MakeLaminarViscosityModel :: "CConfig \<Rightarrow> nat \<Rightarrow> real \<Rightarrow> real \<Rightarrow> real"
  MakeThermalConductivityModel ::
    "CConfig \<Rightarrow> nat \<Rightarrow> real \<Rightarrow> real \<Rightarrow> real \<Rightarrow> real \<Rightarrow> real \<Rightarrow> real \<Rightarrow> real \<Rightarrow> real"
  MakeMassDiffusivityModel :: "CConfig \<Rightarrow> nat \<Rightarrow> real \<Rightarrow> real \<Rightarrow> real \<Rightarrow> real \<Rightarrow> real"

record CFluidCantera =
  n_species_mixture :: nat
  Gas_Constant :: real
  Gamma :: real
  Pressure_Thermodynamic :: real
  GasConstant_Ref :: real
  Prandtl_Number :: real
  wilke :: bool
  davidson :: bool
  molarMasses :: "real list"
  specificHeat :: "real list"
  massFractions :: "real list"
  moleFractions :: "real list"
  laminarViscosity :: "real list"
  laminarThermalConductivity :: "real list"
  massDiffusivity :: "real list"
  LaminarViscosityPointers :: "nat \<Rightarrow> real \<Rightarrow> real \<Rightarrow> real"
  ThermalConductivityPointers ::
    "nat \<Rightarrow> real \<Rightarrow> real \<Rightarrow> real \<Rightarrow> real \<Rightarrow> real \<Rightarrow> real \<Rightarrow> real \<Rightarrow> real"
  MassDiffusivityPointers :: "nat \<Rightarrow> real \<Rightarrow> real \<Rightarrow> real \<Rightarrow> real \<Rightarrow> real"
  Temperature :: real
  Density :: real
  Cp :: real
  Cv :: real
  Mu :: real
  Kt :: real
  setState_TPX_calls :: "(real \<times> real \<times> string) list"

text \<open>
  The constructor. \<open>raw\<close> is the object before the constructor's own initialisers run:
  the members the constructor does not assign keep the contents they have there.
  \<^verbatim>\<open>SU2_MPI::Error\<close> ends the program, so the loop is not reached after it.
\<close>

definition CFluidCantera_ctor ::
  "CFluidModel_base \<Rightarrow> CFluidCantera \<Rightarrow> real \<Rightarrow> real \<Rightarrow> real \<Rightarrow> CConfig \<Rightarrow> error + CFluidCantera"
where
  "CFluidCantera_ctor base raw val_Cp val_gas_constant value_pressure_operating config =
     (let n = GetnSpecies config + 1 in
      if n > ARRAYSIZE base
      then Inl (SU2_MPI_Error ''Too many species, increase ARRAYSIZE'')
      else
        let (mm, sh) =
              fold (\<lambda>iVar (a, b).
                      (a[iVar := GetMolecular_Weight config iVar],
                       b[iVar := GetSpecific_Heat_CpND config iVar]))
                   [0..<n] (molarMasses raw, specificHeat raw)
        in Inr (raw\<lparr>n_species_mixture := n,
                     Gas_Constant := val_gas_constant,
                     Gamma := GetGamma config,
                     Pressure_Thermodynamic := value_pressure_operating,
                     GasConstant_Ref := GetGas_Constant_Ref config,
                     Prandtl_Number := GetPrandtl_Turb config,
                     wilke := (GetKind_MixingViscosityModel config = WILKE),
                     davidson := (GetKind_MixingViscosityModel config = DAVIDSON),
                     molarMasses := mm,
                     specificHeat := sh,
                     LaminarViscosityPointers := MakeLaminarViscosityModel base config,
                     ThermalConductivityPointers := MakeThermalConductivityModel base config,
                     MassDiffusivityPointers := MakeMassDiffusivityModel base config\<rparr>))"

definition ComputeMassDiffusivity :: "CFluidCantera \<Rightarrow> CFluidCantera" where
  "ComputeMassDiffusivity s =
     s\<lparr>massDiffusivity :=
         fold (\<lambda>iVar a. a[iVar := MassDiffusivityPointers s iVar (Density s) (Mu s) (Cp s) (Kt s)])
              [0..<n_species_mixture s] (massDiffusivity s)\<rparr>"

text \<open>
  The first loop of \<^verbatim>\<open>MassToMoleFractions\<close> copies the scalars into
  \<^verbatim>\<open>massFractions\<close> and accumulates their sum; the state of the loop is the pair of
  the array and the running sum.
\<close>

definition copy_scalars :: "nat \<Rightarrow> real list \<Rightarrow> real list \<Rightarrow> real list \<times> real" where
  "copy_scalars m val_scalars mf =
     fold (\<lambda>i_scalar (a, val_scalars_sum).
             (a[i_scalar := val_scalars ! i_scalar], val_scalars_sum + val_scalars ! i_scalar))
          [0..<m] (mf, 0)"

definition MassToMoleFractions :: "CFluidCantera \<Rightarrow> real list \<Rightarrow> CFluidCantera" where
  "MassToMoleFractions s val_scalars =
     (let n = n_species_mixture s;
          (mf0, val_scalars_sum) = copy_scalars (n - 1) val_scalars (massFractions s);
          mf = mf0[n - 1 := 1 - val_scalars_sum];
          mixtureMolarMass =
            fold (\<lambda>iVar acc. acc + mf ! iVar / molarMasses s ! iVar) [0..<n] 0;
          xf = fold (\<lambda>iVar a. a[iVar := (mf ! iVar / molarMasses s ! iVar) / mixtureMolarMass])
                 [0..<n] (moleFractions s)
      in s\<lparr>massFractions := mf, moleFractions := xf\<rparr>)"

text \<open>
  The Wilke interaction factor \<^verbatim>\<open>phi\<close> and the inner loop over \<^verbatim>\<open>j\<close>, which
  \<^verbatim>\<open>WilkeViscosity\<close> and \<^verbatim>\<open>WilkeConductivity\<close> both contain word for word. \<open>lv\<close> is
  the array \<^verbatim>\<open>laminarViscosity\<close>, \<open>M\<close> is \<^verbatim>\<open>molarMasses\<close> and \<open>X\<close> is
  \<^verbatim>\<open>moleFractions\<close>. \<^verbatim>\<open>pow(x, 0.25)\<close> is \<open>x powr (1/4)\<close> and \<^verbatim>\<open>pow(x, 2)\<close> is the square.
\<close>

definition phi :: "real list \<Rightarrow> real list \<Rightarrow> nat \<Rightarrow> nat \<Rightarrow> real" where
  "phi lv M i j =
     (1 + sqrt (lv ! i / lv ! j) * (M ! j / M ! i) powr (1 / 4)) ^ 2 /
     sqrt (8 * (1 + M ! i / M ! j))"

definition wilkeDenumerator :: "nat \<Rightarrow> real list \<Rightarrow> real list \<Rightarrow> real list \<Rightarrow> nat \<Rightarrow> real" where
  "wilkeDenumerator n lv M X i =
     fold (\<lambda>j acc. if j \<noteq> i then acc + X ! j * phi lv M i j else acc + X ! j) [0..<n] 0"

definition WilkeViscosity :: "CFluidCantera \<Rightarrow> real list \<Rightarrow> real \<times> CFluidCantera" where
  "WilkeViscosity s val_scalars =
     (let n = n_species_mixture s;
          lv = fold (\<lambda>iVar a. a[iVar := LaminarViscosityPointers s iVar (Temperature s) (Density s)])
                 [0..<n] (laminarViscosity s);
          viscosityMixture =
            fold (\<lambda>i acc. acc + (moleFractions s ! i * lv ! i) /
                                 wilkeDenumerator n lv (molarMasses s) (moleFractions s) i)
                 [0..<n] 0
      in (viscosityMixture, s\<lparr>laminarViscosity := lv\<rparr>))"

text \<open>
  \<^verbatim>\<open>DavidsonViscosity\<close>. The local array \<^verbatim>\<open>mixtureFractions\<close> is written at the
  indices below \<^verbatim>\<open>n_species_mixture\<close> before it is read there; it is the list of these
  entries.
\<close>

definition DavidsonViscosity :: "CFluidCantera \<Rightarrow> real list \<Rightarrow> real \<times> CFluidCantera" where
  "DavidsonViscosity s val_scalars =
     (let A = 0.375;
          n = n_species_mixture s;
          M = molarMasses s;
          X = moleFractions s;
          lv = fold (\<lambda>iVar a. a[iVar := LaminarViscosityPointers s iVar (Temperature s) (Density s)])
                 [0..<n] (laminarViscosity s);
          mixtureFractionDenumerator = fold (\<lambda>i acc. acc + X ! i * sqrt (M ! i)) [0..<n] 0;
          mixtureFractions = map (\<lambda>j. (X ! j * sqrt (M ! j)) / mixtureFractionDenumerator) [0..<n];
          fluidity =
            fold (\<lambda>i acc0.
                    fold (\<lambda>j acc.
                            let E = (2 * sqrt (M ! i) * sqrt (M ! j)) / (M ! i + M ! j)
                            in acc + ((mixtureFractions ! i * mixtureFractions ! j) /
                                      (sqrt (lv ! i) * sqrt (lv ! j))) * E powr A)
                         [0..<n] acc0)
                 [0..<n] 0
      in (1 / fluidity, s\<lparr>laminarViscosity := lv\<rparr>))"

definition WilkeConductivity :: "CFluidCantera \<Rightarrow> real list \<Rightarrow> real \<times> CFluidCantera" where
  "WilkeConductivity s val_scalars =
     (let n = n_species_mixture s;
          ltc = fold (\<lambda>iVar a. a[iVar := ThermalConductivityPointers s iVar
                                          (Temperature s) (Density s) (Mu s) 0 0 0 0])
                  [0..<n] (laminarThermalConductivity s);
          conductivityMixture =
            fold (\<lambda>i acc. acc + (moleFractions s ! i * ltc ! i) /
                                 wilkeDenumerator n (laminarViscosity s) (molarMasses s)
                                   (moleFractions s) i)
                 [0..<n] 0
      in (conductivityMixture, s\<lparr>laminarThermalConductivity := ltc\<rparr>))"

definition ComputeGasConstant :: "CFluidModel_base \<Rightarrow> CFluidCantera \<Rightarrow> real \<times> CFluidCantera" where
  "ComputeGasConstant base s =
     (let MeanMolecularWeight =
            fold (\<lambda>i acc. acc + moleFractions s ! i * molarMasses s ! i / 1000)
                 [0..<n_species_mixture s] 0;
          R = UNIVERSAL_GAS_CONSTANT base / (GasConstant_Ref s * MeanMolecularWeight)
      in (R, s\<lparr>Gas_Constant := R\<rparr>))"

definition ComputeMeanSpecificHeatCp :: "CFluidCantera \<Rightarrow> real list \<Rightarrow> real" where
  "ComputeMeanSpecificHeatCp s val_scalars =
     fold (\<lambda>i_scalar mean_cp. mean_cp + specificHeat s ! i_scalar * massFractions s ! i_scalar)
          [0..<n_species_mixture s] 0"

text \<open>
  \<^verbatim>\<open>SetTDState_T\<close>, in the three blocks of its body. \<open>SetTDState_T_thermo\<close> is the
  call of the chemistry backend and the assignments up to \<^verbatim>\<open>Cv\<close>:
  \<^verbatim>\<open>setState_TPX\<close> is called first, with the member \<^verbatim>\<open>Temperature\<close> as it is at that
  moment, the member \<^verbatim>\<open>Pressure_Thermodynamic\<close> and a string literal
  (\<^verbatim>\<open>GetValue\<close> is the identity on the values modelled here); the object \<^verbatim>\<open>gas\<close> is
  local and is not read afterwards. \<open>SetTDState_T_viscosity\<close> is the
  \<^verbatim>\<open>if (wilke) ... else if (davidson) ...\<close>, which has no final \<^verbatim>\<open>else\<close>. The last block
  is the conductivity and the mass diffusivities.
\<close>

definition SetTDState_T_thermo ::
  "CFluidModel_base \<Rightarrow> CFluidCantera \<Rightarrow> real \<Rightarrow> real list \<Rightarrow> CFluidCantera"
where
  "SetTDState_T_thermo base s val_temperature val_scalars =
     (let s0 = s\<lparr>setState_TPX_calls :=
                   (Temperature s, Pressure_Thermodynamic s, ''H2O:1.0, H2:8.0, AR:1.0'')
                   # setState_TPX_calls s\<rparr>;
          s1 = MassToMoleFractions s0 val_scalars;
          s2 = snd (ComputeGasConstant base s1);
          s3 = s2\<lparr>Temperature := val_temperature\<rparr>;
          s4 = s3\<lparr>Density := Pressure_Thermodynamic s3 / (Temperature s3 * Gas_Constant s3)\<rparr>;
          s5 = s4\<lparr>Cp := ComputeMeanSpecificHeatCp s4 val_scalars\<rparr>
      in s5\<lparr>Cv := Cp s5 - Gas_Constant s5\<rparr>)"

definition SetTDState_T_viscosity :: "CFluidCantera \<Rightarrow> real list \<Rightarrow> CFluidCantera" where
  "SetTDState_T_viscosity s val_scalars =
     (if wilke s then (let (mu, t) = WilkeViscosity s val_scalars in t\<lparr>Mu := mu\<rparr>)
      else if davidson s then (let (mu, t) = DavidsonViscosity s val_scalars in t\<lparr>Mu := mu\<rparr>)
      else s)"

definition SetTDState_T ::
  "CFluidModel_base \<Rightarrow> CFluidCantera \<Rightarrow> real \<Rightarrow> real list \<Rightarrow> CFluidCantera"
where
  "SetTDState_T base s val_temperature val_scalars =
     (let s6 = SetTDState_T_thermo base s val_temperature val_scalars;
          s7 = SetTDState_T_viscosity s6 val_scalars;
          (k, s8) = WilkeConductivity s7 val_scalars
      in ComputeMassDiffusivity (s8\<lparr>Kt := k\<rparr>))"

section \<open>The mixing-rule routines with every array access and division written out\<close>

text \<open>
  The routines above read arrays with \<open>!\<close> and divide with \<open>/\<close>, which are total
  in HOL. In the source an index at or beyond the size of a \<^verbatim>\<open>std::array\<close> or of the
  scalar array has no defined result, and a division by zero, the square root of a
  negative number and \<^verbatim>\<open>pow\<close> of a negative base with a fractional exponent give an
  infinity or a NaN. The definitions of this section are the same routines, statement by
  statement, with these cases as results: \<open>OutOfRange\<close> for the index and \<open>NonFinite\<close>
  for the arithmetic. \<^verbatim>\<open>pow(x, 2)\<close> is a square and cannot fail.
\<close>

definition and_then :: "error + 'a \<Rightarrow> ('a \<Rightarrow> error + 'b) \<Rightarrow> error + 'b" where
  "and_then r f = (case r of Inl e \<Rightarrow> Inl e | Inr a \<Rightarrow> f a)"

primrec for_each :: "nat list \<Rightarrow> (nat \<Rightarrow> 'a \<Rightarrow> error + 'a) \<Rightarrow> 'a \<Rightarrow> error + 'a" where
  "for_each [] body a = Inr a"
| "for_each (i # rest) body a = and_then (body i a) (for_each rest body)"

definition read_at :: "real list \<Rightarrow> nat \<Rightarrow> error + real" where
  "read_at xs i = (if i < length xs then Inr (xs ! i) else Inl (OutOfRange i (length xs)))"

definition write_at :: "real list \<Rightarrow> nat \<Rightarrow> real \<Rightarrow> error + real list" where
  "write_at xs i v = (if i < length xs then Inr (xs[i := v]) else Inl (OutOfRange i (length xs)))"

definition checked_div :: "real \<Rightarrow> real \<Rightarrow> error + real" where
  "checked_div a b = (if b = 0 then Inl NonFinite else Inr (a / b))"

definition checked_sqrt :: "real \<Rightarrow> error + real" where
  "checked_sqrt a = (if a < 0 then Inl NonFinite else Inr (sqrt a))"

definition checked_pow :: "real \<Rightarrow> real \<Rightarrow> error + real" where
  "checked_pow a b = (if a < 0 then Inl NonFinite else Inr (a powr b))"

definition MassToMoleFractions_checked :: "CFluidCantera \<Rightarrow> real list \<Rightarrow> error + CFluidCantera" where
  "MassToMoleFractions_checked s val_scalars =
     (let n = n_species_mixture s in
      and_then
        (for_each [0..<n - 1]
           (\<lambda>i_scalar (a, val_scalars_sum).
              and_then (read_at val_scalars i_scalar) (\<lambda>v.
              and_then (write_at a i_scalar v) (\<lambda>a'.
              Inr (a', val_scalars_sum + v))))
           (massFractions s, 0))
        (\<lambda>(mf0, val_scalars_sum).
      and_then (write_at mf0 (n - 1) (1 - val_scalars_sum)) (\<lambda>mf.
      and_then
        (for_each [0..<n]
           (\<lambda>iVar acc.
              and_then (read_at mf iVar) (\<lambda>y.
              and_then (read_at (molarMasses s) iVar) (\<lambda>m.
              and_then (checked_div y m) (\<lambda>q.
              Inr (acc + q)))))
           0)
        (\<lambda>mixtureMolarMass.
      and_then
        (for_each [0..<n]
           (\<lambda>iVar a.
              and_then (read_at mf iVar) (\<lambda>y.
              and_then (read_at (molarMasses s) iVar) (\<lambda>m.
              and_then (checked_div y m) (\<lambda>q.
              and_then (checked_div q mixtureMolarMass) (\<lambda>x.
              write_at a iVar x)))))
           (moleFractions s))
        (\<lambda>xf.
      Inr (s\<lparr>massFractions := mf, moleFractions := xf\<rparr>))))))"

definition phi_checked :: "real list \<Rightarrow> real list \<Rightarrow> nat \<Rightarrow> nat \<Rightarrow> error + real" where
  "phi_checked lv M i j =
     and_then (read_at lv i) (\<lambda>mu_i.
     and_then (read_at lv j) (\<lambda>mu_j.
     and_then (checked_div mu_i mu_j) (\<lambda>r.
     and_then (checked_sqrt r) (\<lambda>sr.
     and_then (read_at M j) (\<lambda>M_j.
     and_then (read_at M i) (\<lambda>M_i.
     and_then (checked_div M_j M_i) (\<lambda>q.
     and_then (checked_pow q (1 / 4)) (\<lambda>p.
     and_then (checked_div M_i M_j) (\<lambda>q'.
     and_then (checked_sqrt (8 * (1 + q'))) (\<lambda>d.
     checked_div ((1 + sr * p) ^ 2) d))))))))))"

definition wilkeDenumerator_checked ::
  "nat \<Rightarrow> real list \<Rightarrow> real list \<Rightarrow> real list \<Rightarrow> nat \<Rightarrow> error + real"
where
  "wilkeDenumerator_checked n lv M X i =
     for_each [0..<n]
       (\<lambda>j acc.
          if j \<noteq> i
          then and_then (phi_checked lv M i j) (\<lambda>p.
               and_then (read_at X j) (\<lambda>x.
               Inr (acc + x * p)))
          else and_then (read_at X j) (\<lambda>x. Inr (acc + x)))
       0"

definition WilkeViscosity_checked ::
  "CFluidCantera \<Rightarrow> real list \<Rightarrow> error + (real \<times> CFluidCantera)"
where
  "WilkeViscosity_checked s val_scalars =
     (let n = n_species_mixture s in
      and_then
        (for_each [0..<n]
           (\<lambda>iVar a. write_at a iVar (LaminarViscosityPointers s iVar (Temperature s) (Density s)))
           (laminarViscosity s))
        (\<lambda>lv.
      and_then
        (for_each [0..<n]
           (\<lambda>i acc.
              and_then (wilkeDenumerator_checked n lv (molarMasses s) (moleFractions s) i) (\<lambda>den.
              and_then (read_at (moleFractions s) i) (\<lambda>x.
              and_then (read_at lv i) (\<lambda>m.
              and_then (checked_div (x * m) den) (\<lambda>q.
              Inr (acc + q))))))
           0)
        (\<lambda>viscosityMixture.
      Inr (viscosityMixture, s\<lparr>laminarViscosity := lv\<rparr>))))"

definition WilkeConductivity_checked ::
  "CFluidCantera \<Rightarrow> real list \<Rightarrow> error + (real \<times> CFluidCantera)"
where
  "WilkeConductivity_checked s val_scalars =
     (let n = n_species_mixture s in
      and_then
        (for_each [0..<n]
           (\<lambda>iVar a. write_at a iVar
                        (ThermalConductivityPointers s iVar (Temperature s) (Density s) (Mu s)
                           0 0 0 0))
           (laminarThermalConductivity s))
        (\<lambda>ltc.
      and_then
        (for_each [0..<n]
           (\<lambda>i acc.
              and_then (wilkeDenumerator_checked n (laminarViscosity s) (molarMasses s)
                          (moleFractions s) i) (\<lambda>den.
              and_then (read_at (moleFractions s) i) (\<lambda>x.
              and_then (read_at ltc i) (\<lambda>c.
              and_then (checked_div (x * c) den) (\<lambda>q.
              Inr (acc + q))))))
           0)
        (\<lambda>conductivityMixture.
      Inr (conductivityMixture, s\<lparr>laminarThermalConductivity := ltc\<rparr>))))"

text \<open>
  In \<open>DavidsonViscosity_checked\<close> the local array \<^verbatim>\<open>mixtureFractions\<close> has
  \<^verbatim>\<open>ARRAYSIZE\<close> entries, as in the source; its contents before the loop that fills it
  are indeterminate there and zero here, and no entry is read before it is written.
\<close>

definition DavidsonViscosity_checked ::
  "CFluidModel_base \<Rightarrow> CFluidCantera \<Rightarrow> real list \<Rightarrow> error + (real \<times> CFluidCantera)"
where
  "DavidsonViscosity_checked base s val_scalars =
     (let A = 0.375;
          n = n_species_mixture s;
          M = molarMasses s;
          X = moleFractions s
      in
      and_then
        (for_each [0..<n]
           (\<lambda>iVar a. write_at a iVar (LaminarViscosityPointers s iVar (Temperature s) (Density s)))
           (laminarViscosity s))
        (\<lambda>lv.
      and_then
        (for_each [0..<n]
           (\<lambda>i acc.
              and_then (read_at X i) (\<lambda>x.
              and_then (read_at M i) (\<lambda>m.
              and_then (checked_sqrt m) (\<lambda>r.
              Inr (acc + x * r)))))
           0)
        (\<lambda>mixtureFractionDenumerator.
      and_then
        (for_each [0..<n]
           (\<lambda>j a.
              and_then (read_at X j) (\<lambda>x.
              and_then (read_at M j) (\<lambda>m.
              and_then (checked_sqrt m) (\<lambda>r.
              and_then (checked_div (x * r) mixtureFractionDenumerator) (\<lambda>f.
              write_at a j f)))))
           (replicate (ARRAYSIZE base) 0))
        (\<lambda>mixtureFractions.
      and_then
        (for_each [0..<n]
           (\<lambda>i acc0.
              for_each [0..<n]
                (\<lambda>j acc.
                   and_then (read_at M i) (\<lambda>M_i.
                   and_then (read_at M j) (\<lambda>M_j.
                   and_then (checked_sqrt M_i) (\<lambda>r_i.
                   and_then (checked_sqrt M_j) (\<lambda>r_j.
                   and_then (checked_div (2 * r_i * r_j) (M_i + M_j)) (\<lambda>E.
                   and_then (read_at mixtureFractions i) (\<lambda>f_i.
                   and_then (read_at mixtureFractions j) (\<lambda>f_j.
                   and_then (read_at lv i) (\<lambda>mu_i.
                   and_then (read_at lv j) (\<lambda>mu_j.
                   and_then (checked_sqrt mu_i) (\<lambda>s_i.
                   and_then (checked_sqrt mu_j) (\<lambda>s_j.
                   and_then (checked_div (f_i * f_j) (s_i * s_j)) (\<lambda>t.
                   and_then (checked_pow E A) (\<lambda>p.
                   Inr (acc + t * p)))))))))))))))
                acc0)
           0)
        (\<lambda>fluidity.
      and_then (checked_div 1 fluidity) (\<lambda>mu.
      Inr (mu, s\<lparr>laminarViscosity := lv\<rparr>)))))))"

section \<open>The accessors of the scripting interface (python_wrapper_structure.cpp)\<close>

text \<open>
  The driver reads the configuration, the geometry and two solvers. Of these only what the
  modelled accessors call is kept: the counts and index maps of the base class
  (\<^verbatim>\<open>GetNumberVertices\<close>, \<^verbatim>\<open>GetNumberMarkerVertices\<close>, \<^verbatim>\<open>GetMarkerVertexIndices\<close>),
  the getters of the flow solver (\<^verbatim>\<open>FLOW_SOL\<close>) and those of the adjoint flow solver
  (\<^verbatim>\<open>ADJFLOW_SOL\<close>). None of them is defined in these sources, so they are fields of the
  record, total functions of their indices. Indices and counts are unsigned machine
  integers in the source and natural numbers here; nothing modelled can overflow them.
  \<^verbatim>\<open>passivedouble\<close> is \<^typ>\<open>real\<close> and \<^verbatim>\<open>SU2_TYPE::GetValue\<close> is the identity.

  The C++ overloads share a name. Here the overload that takes a point index has the
  suffix \<open>_point\<close>, the overload that takes a marker and a vertex index has the suffix
  \<open>_vertex\<close>, and the overload that returns the whole list keeps the plain name.
\<close>

record CDriver =
  main_config :: CConfig
  nDim :: nat
  GetNumberVertices :: nat
  GetNumberMarkerVertices :: "nat \<Rightarrow> nat"
  GetMarkerVertexIndices :: "nat \<Rightarrow> nat \<Rightarrow> nat"
  GetnVar :: nat
  GetSoundSpeed :: "nat \<Rightarrow> real"
  GetLaminarViscosity :: "nat \<Rightarrow> real"
  GetEddyViscosity :: "nat \<Rightarrow> real"
  GetGradient_Primitive :: "nat \<Rightarrow> nat \<Rightarrow> nat \<Rightarrow> real"
  GetAdjointVertexTractions :: "nat \<Rightarrow> nat \<Rightarrow> nat \<Rightarrow> real"
  GetProd_dCoordinates_dCoordinates :: "nat \<Rightarrow> nat \<Rightarrow> real"
  GetSens_dObjective_dStates :: "nat \<Rightarrow> nat \<Rightarrow> real"
  GetProd_dResiduals_dStates :: "nat \<Rightarrow> nat \<Rightarrow> real"
  GetProd_dTractions_dStates :: "nat \<Rightarrow> nat \<Rightarrow> real"
  GetSens_dObjective_dCoordinates :: "nat \<Rightarrow> nat \<Rightarrow> real"
  GetProd_dResiduals_dCoordinates :: "nat \<Rightarrow> nat \<Rightarrow> real"
  GetProd_dTractions_dCoordinates :: "nat \<Rightarrow> nat \<Rightarrow> real"

text \<open>
  A loop \<^verbatim>\<open>for (i = 0; i < n; i++) values.push_back(f(i))\<close>: an error raised by
  \<^verbatim>\<open>f\<close> ends the program, so the first error is the result.
\<close>

primrec push_back_each :: "(nat \<Rightarrow> error + 'a) \<Rightarrow> nat list \<Rightarrow> 'a list \<Rightarrow> error + 'a list" where
  "push_back_each f [] values = Inr values"
| "push_back_each f (i # rest) values =
     (case f i of Inl e \<Rightarrow> Inl e | Inr v \<Rightarrow> push_back_each f rest (values @ [v]))"

text \<open>
  \<^verbatim>\<open>vector<passivedouble> values(n, 0.0)\<close> followed by the loop that assigns
  \<^verbatim>\<open>values[i] = f(i)\<close> for every \<^verbatim>\<open>i < n\<close>.
\<close>

definition fill_values :: "nat \<Rightarrow> (nat \<Rightarrow> real) \<Rightarrow> real list" where
  "fill_values n f = fold (\<lambda>i a. a[i := f i]) [0..<n] (replicate n 0)"

definition GetNumberStateVariables :: "CDriver \<Rightarrow> error + nat" where
  "GetNumberStateVariables d =
     (if \<not> GetFluidProblem (main_config d)
      then Inl (SU2_MPI_Error ''Flow solver is not defined!'')
      else Inr (GetnVar d))"

subsection \<open>Speed of sound\<close>

definition GetSpeedOfSound_point :: "CDriver \<Rightarrow> nat \<Rightarrow> error + real" where
  "GetSpeedOfSound_point d iPoint =
     (if GetFluidProblem (main_config d)
      then Inl (SU2_MPI_Error ''Flow solver is not defined!'')
      else if iPoint \<ge> GetNumberVertices d
      then Inl (SU2_MPI_Error ''Vertex index exceeds mesh size.'')
      else Inr (GetSoundSpeed d iPoint))"

definition GetSpeedOfSound :: "CDriver \<Rightarrow> error + real list" where
  "GetSpeedOfSound d =
     push_back_each (\<lambda>iPoint. GetSpeedOfSound_point d iPoint) [0..<GetNumberVertices d] []"

definition GetMarkerSpeedOfSound_vertex :: "CDriver \<Rightarrow> nat \<Rightarrow> nat \<Rightarrow> error + real" where
  "GetMarkerSpeedOfSound_vertex d iMarker iVertex =
     (if GetFluidProblem (main_config d)
      then Inl (SU2_MPI_Error ''Flow solver is not defined!'')
      else let iPoint = GetMarkerVertexIndices d iMarker iVertex
           in Inr (GetSoundSpeed d iPoint))"

definition GetMarkerSpeedOfSound :: "CDriver \<Rightarrow> nat \<Rightarrow> error + real list" where
  "GetMarkerSpeedOfSound d iMarker =
     push_back_each (\<lambda>iVertex. GetSpeedOfSound_point d iVertex)
       [0..<GetNumberMarkerVertices d iMarker] []"

subsection \<open>Laminar and eddy viscosities, thermal conductivities, heat fluxes\<close>

definition GetLaminarViscosities_point :: "CDriver \<Rightarrow> nat \<Rightarrow> error + real" where
  "GetLaminarViscosities_point d iPoint =
     (if \<not> GetFluidProblem (main_config d)
      then Inl (SU2_MPI_Error ''Flow solver is not defined!'')
      else if iPoint \<ge> GetNumberVertices d
      then Inl (SU2_MPI_Error ''Vertex index exceeds mesh size.'')
      else Inr (GetLaminarViscosity d iPoint))"

definition GetLaminarViscosities :: "CDriver \<Rightarrow> error + real list" where
  "GetLaminarViscosities d =
     push_back_each (\<lambda>iPoint. GetLaminarViscosities_point d iPoint) [0..<GetNumberVertices d] []"

definition GetMarkerLaminarViscosities_vertex :: "CDriver \<Rightarrow> nat \<Rightarrow> nat \<Rightarrow> error + real" where
  "GetMarkerLaminarViscosities_vertex d iMarker iVertex =
     (if \<not> GetFluidProblem (main_config d)
      then Inl (SU2_MPI_Error ''Flow solver is not defined!'')
      else let iPoint = GetMarkerVertexIndices d iMarker iVertex
           in Inr (GetLaminarViscosity d iPoint))"

definition GetMarkerLaminarViscosities :: "CDriver \<Rightarrow> nat \<Rightarrow> error + real list" where
  "GetMarkerLaminarViscosities d iMarker =
     push_back_each (\<lambda>iVertex. GetMarkerLaminarViscosities_vertex d iMarker iVertex)
       [0..<GetNumberMarkerVertices d iMarker] []"

definition GetEddyViscosities_point :: "CDriver \<Rightarrow> nat \<Rightarrow> error + real" where
  "GetEddyViscosities_point d iPoint =
     (if \<not> GetFluidProblem (main_config d)
      then Inl (SU2_MPI_Error ''Flow solver is not defined!'')
      else if iPoint \<ge> GetNumberVertices d
      then Inl (SU2_MPI_Error ''Vertex index exceeds mesh size.'')
      else Inr (GetEddyViscosity d iPoint))"

definition GetEddyViscosities :: "CDriver \<Rightarrow> error + real list" where
  "GetEddyViscosities d =
     push_back_each (\<lambda>iPoint. GetEddyViscosities_point d iPoint) [0..<GetNumberVertices d] []"

definition GetMarkerEddyViscosities_vertex :: "CDriver \<Rightarrow> nat \<Rightarrow> nat \<Rightarrow> error + real" where
  "GetMarkerEddyViscosities_vertex d iMarker iVertex =
     (if \<not> GetFluidProblem (main_config d)
      then Inl (SU2_MPI_Error ''Flow solver is not defined!'')
      else let iPoint = GetMarkerVertexIndices d iMarker iVertex
           in Inr (GetEddyViscosity d iPoint))"

definition GetMarkerEddyViscosities :: "CDriver \<Rightarrow> nat \<Rightarrow> error + real list" where
  "GetMarkerEddyViscosities d iMarker =
     push_back_each (\<lambda>iVertex. GetMarkerLaminarViscosities_vertex d iMarker iVertex)
       [0..<GetNumberMarkerVertices d iMarker] []"

definition GetThermalConductivities_point :: "CDriver \<Rightarrow> nat \<Rightarrow> error + real" where
  "GetThermalConductivities_point d iPoint =
     (if \<not> GetFluidProblem (main_config d)
      then Inl (SU2_MPI_Error ''Flow solver is not defined!'')
      else if iPoint \<ge> GetNumberVertices d
      then Inl (SU2_MPI_Error ''Vertex index exceeds mesh size.'')
      else
        let Prandtl_Lam = GetPrandtl_Lam (main_config d);
            Gas_Constant = GetGas_ConstantND (main_config d);
            Gamma = GetGamma (main_config d);
            Cp = (Gamma / (Gamma - 1)) * Gas_Constant;
            laminar_viscosity = GetLaminarViscosity d iPoint
        in Inr (Cp * (laminar_viscosity / Prandtl_Lam)))"

definition GetHeatFluxes_point :: "CDriver \<Rightarrow> nat \<Rightarrow> error + real list" where
  "GetHeatFluxes_point d iPoint =
     (if \<not> GetFluidProblem (main_config d)
      then Inl (SU2_MPI_Error ''Flow solver is not defined!'')
      else if iPoint \<ge> GetNumberVertices d
      then Inl (SU2_MPI_Error ''Vertex index exceeds mesh size.'')
      else if GetKind_Regime (main_config d) \<noteq> COMPRESSIBLE
      then Inr (replicate (nDim d) 0)
      else
        let Prandtl_Lam = GetPrandtl_Lam (main_config d);
            Gas_Constant = GetGas_ConstantND (main_config d);
            Gamma = GetGamma (main_config d);
            Cp = (Gamma / (Gamma - 1)) * Gas_Constant;
            laminar_viscosity = GetLaminarViscosity d iPoint;
            thermal_conductivity = Cp * (laminar_viscosity / Prandtl_Lam)
        in Inr (fill_values (nDim d)
                  (\<lambda>iDim. - thermal_conductivity * GetGradient_Primitive d iPoint 0 iDim)))"

subsection \<open>Sensitivities of the discrete adjoint, by point\<close>

definition GetCoordinatesCoordinatesSensitivities_point :: "CDriver \<Rightarrow> nat \<Rightarrow> error + real list" where
  "GetCoordinatesCoordinatesSensitivities_point d iPoint =
     (if \<not> GetFluidProblem (main_config d) \<or> \<not> GetDiscrete_Adjoint (main_config d)
      then Inl (SU2_MPI_Error ''Discrete adjoint flow solver is not defined!'')
      else if GetKind_DiscreteAdjoint (main_config d) \<noteq> RESIDUALS
      then Inl (SU2_MPI_Error
                  ''Discrete adjoint flow solver does not use residual-based formulation!'')
      else if iPoint \<ge> GetNumberVertices d
      then Inl (SU2_MPI_Error ''Vertex index exceeds mesh size.'')
      else Inr (fill_values (nDim d) (\<lambda>iDim. GetProd_dCoordinates_dCoordinates d iPoint iDim)))"

definition GetObjectiveStatesSensitivities_point :: "CDriver \<Rightarrow> nat \<Rightarrow> error + real list" where
  "GetObjectiveStatesSensitivities_point d iPoint =
     (if \<not> GetFluidProblem (main_config d) \<or> \<not> GetDiscrete_Adjoint (main_config d)
      then Inl (SU2_MPI_Error ''Discrete adjoint flow solver is not defined!'')
      else if GetKind_DiscreteAdjoint (main_config d) \<noteq> RESIDUALS
      then Inl (SU2_MPI_Error
                  ''Discrete adjoint flow solver does not use residual-based formulation!'')
      else if iPoint \<ge> GetNumberVertices d
      then Inl (SU2_MPI_Error ''Vertex index exceeds mesh size.'')
      else case GetNumberStateVariables d of
             Inl e \<Rightarrow> Inl e
           | Inr nVar \<Rightarrow> Inr (fill_values nVar (\<lambda>iVar. GetSens_dObjective_dStates d iPoint iVar)))"

definition GetResidualsStatesSensitivities_point :: "CDriver \<Rightarrow> nat \<Rightarrow> error + real list" where
  "GetResidualsStatesSensitivities_point d iPoint =
     (if \<not> GetFluidProblem (main_config d) \<or> \<not> GetDiscrete_Adjoint (main_config d)
      then Inl (SU2_MPI_Error ''Discrete adjoint flow solver is not defined!'')
      else if GetKind_DiscreteAdjoint (main_config d) \<noteq> RESIDUALS
      then Inl (SU2_MPI_Error
                  ''Discrete adjoint flow solver does not use residual-based formulation!'')
      else if iPoint \<ge> GetNumberVertices d
      then Inl (SU2_MPI_Error ''Vertex index exceeds mesh size.'')
      else case GetNumberStateVariables d of
             Inl e \<Rightarrow> Inl e
           | Inr nVar \<Rightarrow> Inr (fill_values nVar (\<lambda>iVar. GetProd_dResiduals_dStates d iPoint iVar)))"

definition GetForcesStatesSensitivities_point :: "CDriver \<Rightarrow> nat \<Rightarrow> error + real list" where
  "GetForcesStatesSensitivities_point d iPoint =
     (if \<not> GetFluidProblem (main_config d) \<or> \<not> GetDiscrete_Adjoint (main_config d)
      then Inl (SU2_MPI_Error ''Discrete adjoint flow solver is not defined!'')
      else if GetKind_DiscreteAdjoint (main_config d) \<noteq> RESIDUALS
      then Inl (SU2_MPI_Error
                  ''Discrete adjoint flow solver does not use residual-based formulation!'')
      else if iPoint \<ge> GetNumberVertices d
      then Inl (SU2_MPI_Error ''Vertex index exceeds mesh size.'')
      else case GetNumberStateVariables d of
             Inl e \<Rightarrow> Inl e
           | Inr nVar \<Rightarrow> Inr (fill_values nVar (\<lambda>iVar. GetProd_dTractions_dStates d iPoint iVar)))"

definition GetObjectiveCoordinatesSensitivities_point :: "CDriver \<Rightarrow> nat \<Rightarrow> error + real list" where
  "GetObjectiveCoordinatesSensitivities_point d iPoint =
     (if \<not> GetFluidProblem (main_config d) \<or> \<not> GetDiscrete_Adjoint (main_config d)
      then Inl (SU2_MPI_Error ''Discrete adjoint flow solver is not defined!'')
      else if GetKind_DiscreteAdjoint (main_config d) \<noteq> RESIDUALS
      then Inl (SU2_MPI_Error
                  ''Discrete adjoint flow solver does not use residual-based formulation!'')
      else if iPoint \<ge> GetNumberVertices d
      then Inl (SU2_MPI_Error ''Vertex index exceeds mesh size.'')
      else Inr (fill_values (nDim d) (\<lambda>iDim. GetSens_dObjective_dCoordinates d iPoint iDim)))"

definition GetResidualsCoordinatesSensitivities_point :: "CDriver \<Rightarrow> nat \<Rightarrow> error + real list" where
  "GetResidualsCoordinatesSensitivities_point d iPoint =
     (if \<not> GetFluidProblem (main_config d) \<or> \<not> GetDiscrete_Adjoint (main_config d)
      then Inl (SU2_MPI_Error ''Discrete adjoint flow solver is not defined!'')
      else if GetKind_DiscreteAdjoint (main_config d) \<noteq> RESIDUALS
      then Inl (SU2_MPI_Error
                  ''Discrete adjoint flow solver does not use residual-based formulation!'')
      else if iPoint \<ge> GetNumberVertices d
      then Inl (SU2_MPI_Error ''Vertex index exceeds mesh size.'')
      else Inr (fill_values (nDim d) (\<lambda>iDim. GetProd_dResiduals_dCoordinates d iPoint iDim)))"

definition GetForcesCoordinatesSensitivities_point :: "CDriver \<Rightarrow> nat \<Rightarrow> error + real list" where
  "GetForcesCoordinatesSensitivities_point d iPoint =
     (if \<not> GetFluidProblem (main_config d) \<or> \<not> GetDiscrete_Adjoint (main_config d)
      then Inl (SU2_MPI_Error ''Discrete adjoint flow solver is not defined!'')
      else if GetKind_DiscreteAdjoint (main_config d) \<noteq> RESIDUALS
      then Inl (SU2_MPI_Error
                  ''Discrete adjoint flow solver does not use residual-based formulation!'')
      else if iPoint \<ge> GetNumberVertices d
      then Inl (SU2_MPI_Error ''Vertex index exceeds mesh size.'')
      else Inr (fill_values (nDim d) (\<lambda>iDim. GetProd_dTractions_dCoordinates d iPoint iDim)))"

subsection \<open>Adjoint forces on a marker\<close>

text \<open>
  Modelled from the spec: the solver's \<^verbatim>\<open>StoreVertexTractionsAdjoint\<close> is not part of
  these sources. It stores the traction of one marker vertex and dimension, the entry that
  \<^verbatim>\<open>GetAdjointVertexTractions\<close> reads.
\<close>

definition StoreVertexTractionsAdjoint :: "CDriver \<Rightarrow> nat \<Rightarrow> nat \<Rightarrow> nat \<Rightarrow> real \<Rightarrow> CDriver" where
  "StoreVertexTractionsAdjoint d iMarker iVertex iDim val =
     d\<lparr>GetAdjointVertexTractions :=
         (\<lambda>m v k. if m = iMarker \<and> v = iVertex \<and> k = iDim then val
                   else GetAdjointVertexTractions d m v k)\<rparr>"

definition GetMarkerAdjointForces_vertex :: "CDriver \<Rightarrow> nat \<Rightarrow> nat \<Rightarrow> error + real list" where
  "GetMarkerAdjointForces_vertex d iMarker iVertex =
     (if \<not> GetFluidProblem (main_config d) \<or> \<not> GetDiscrete_Adjoint (main_config d)
      then Inl (SU2_MPI_Error ''Discrete adjoint flow solver is not defined!'')
      else if iVertex \<ge> GetNumberMarkerVertices d iMarker
      then Inl (SU2_MPI_Error ''Vertex index exceeds marker size.'')
      else Inr (fill_values (nDim d) (\<lambda>iDim. GetAdjointVertexTractions d iMarker iVertex iDim)))"

text \<open>
  The loop of the element-wise \<^verbatim>\<open>SetMarkerAdjointForces\<close>. It reads
  \<^verbatim>\<open>values[iVertex * nDim + iDim]\<close>; \<^verbatim>\<open>values\<close> is a \<^verbatim>\<open>std::vector\<close>, and reading it at
  or beyond its size has no defined result in C++, which the model reports as
  \<open>OutOfRange\<close> with the index and the size.
\<close>

primrec store_tractions :: "nat \<Rightarrow> nat \<Rightarrow> real list \<Rightarrow> nat list \<Rightarrow> CDriver \<Rightarrow> error + CDriver" where
  "store_tractions iMarker iVertex values [] d = Inr d"
| "store_tractions iMarker iVertex values (iDim # rest) d =
     (let k = iVertex * nDim d + iDim in
      if k < length values
      then store_tractions iMarker iVertex values rest
             (StoreVertexTractionsAdjoint d iMarker iVertex iDim (values ! k))
      else Inl (OutOfRange k (length values)))"

definition SetMarkerAdjointForces_vertex ::
  "CDriver \<Rightarrow> nat \<Rightarrow> nat \<Rightarrow> real list \<Rightarrow> error + CDriver"
where
  "SetMarkerAdjointForces_vertex d iMarker iVertex values =
     (if \<not> GetFluidProblem (main_config d) \<or> \<not> GetDiscrete_Adjoint (main_config d)
      then Inl (SU2_MPI_Error ''Discrete adjoint flow solver is not defined!'')
      else if iVertex \<ge> GetNumberMarkerVertices d iMarker
      then Inl (SU2_MPI_Error ''Vertex index exceeds marker size.'')
      else if length values \<noteq> nDim d
      then Inl (SU2_MPI_Error ''Invalid number of dimensions!'')
      else store_tractions iMarker iVertex values [0..<nDim d] d)"

primrec set_each_vertex :: "nat \<Rightarrow> real list list \<Rightarrow> nat list \<Rightarrow> CDriver \<Rightarrow> error + CDriver" where
  "set_each_vertex iMarker values [] d = Inr d"
| "set_each_vertex iMarker values (iVertex # rest) d =
     (case SetMarkerAdjointForces_vertex d iMarker iVertex (values ! iVertex) of
        Inl e \<Rightarrow> Inl e
      | Inr d' \<Rightarrow> set_each_vertex iMarker values rest d')"

definition SetMarkerAdjointForces :: "CDriver \<Rightarrow> nat \<Rightarrow> real list list \<Rightarrow> error + CDriver" where
  "SetMarkerAdjointForces d iMarker values =
     (let nVertex = GetNumberMarkerVertices d iMarker in
      if length values \<noteq> nVertex
      then Inl (SU2_MPI_Error ''Invalid number of marker vertices!'')
      else set_each_vertex iMarker values [0..<nVertex] d)"

subsection \<open>The whole-marker getters as the claim words them\<close>

text \<open>
  The list of the values of the getter's own element-wise overload over the vertices of
  the marker, in order. These two definitions follow the specification, not the source;
  they are what \<open>GetMarkerEddyViscosities\<close> and \<open>GetMarkerSpeedOfSound\<close> are compared
  with.
\<close>

definition GetMarkerEddyViscosities_spec :: "CDriver \<Rightarrow> nat \<Rightarrow> error + real list" where
  "GetMarkerEddyViscosities_spec d iMarker =
     push_back_each (\<lambda>iVertex. GetMarkerEddyViscosities_vertex d iMarker iVertex)
       [0..<GetNumberMarkerVertices d iMarker] []"

definition GetMarkerSpeedOfSound_spec :: "CDriver \<Rightarrow> nat \<Rightarrow> error + real list" where
  "GetMarkerSpeedOfSound_spec d iMarker =
     push_back_each (\<lambda>iVertex. GetMarkerSpeedOfSound_vertex d iMarker iVertex)
       [0..<GetNumberMarkerVertices d iMarker] []"

section \<open>Concrete configurations, objects and drivers\<close>

text \<open>
  A configuration with one transported species (two species in the mixture), a base with
  constant species models, and objects with \<^verbatim>\<open>ARRAYSIZE\<close> entries per array. They are
  the inputs at which the theorems below are evaluated.
\<close>

definition example_config :: "MIXINGVISCOSITYMODEL \<Rightarrow> bool \<Rightarrow> CConfig" where
  "example_config kind fluid =
     \<lparr>GetnSpecies = 1, GetGamma = 7 / 5, GetGas_Constant_Ref = 1, GetPrandtl_Turb = 9 / 10,
      GetKind_MixingViscosityModel = kind,
      GetMolecular_Weight = (\<lambda>iVar. if iVar = 0 then 2 else 4),
      GetSpecific_Heat_CpND = (\<lambda>iVar. if iVar = 0 then 1 else 3),
      GetFluidProblem = fluid, GetDiscrete_Adjoint = True,
      GetKind_DiscreteAdjoint = RESIDUALS, GetKind_Regime = COMPRESSIBLE,
      GetPrandtl_Lam = 7 / 10, GetGas_ConstantND = 2\<rparr>"

definition example_base :: "nat \<Rightarrow> CFluidModel_base" where
  "example_base N =
     \<lparr>ARRAYSIZE = N, UNIVERSAL_GAS_CONSTANT = 8,
      MakeLaminarViscosityModel = (\<lambda>config iVar T rho. 3),
      MakeThermalConductivityModel = (\<lambda>config iVar T rho mu_lam mu_turb cp a b. 5),
      MakeMassDiffusivityModel = (\<lambda>config iVar rho mu_lam cp kt. 7)\<rparr>"

definition example_fluid :: "bool \<Rightarrow> bool \<Rightarrow> real list \<Rightarrow> CFluidCantera" where
  "example_fluid w dv M =
     \<lparr>n_species_mixture = 2, Gas_Constant = 1, Gamma = 7 / 5, Pressure_Thermodynamic = 100,
      GasConstant_Ref = 1, Prandtl_Number = 9 / 10, wilke = w, davidson = dv,
      molarMasses = M, specificHeat = [1, 3, 0],
      massFractions = [0, 0, 0], moleFractions = [1 / 4, 3 / 4, 0],
      laminarViscosity = [0, 0, 0], laminarThermalConductivity = [0, 0, 0],
      massDiffusivity = [0, 0, 0],
      LaminarViscosityPointers = (\<lambda>iVar T rho. 3),
      ThermalConductivityPointers = (\<lambda>iVar T rho mu_lam mu_turb cp a b. 5),
      MassDiffusivityPointers = (\<lambda>iVar rho mu_lam cp kt. 7),
      Temperature = 300, Density = 1, Cp = 1, Cv = 1, Mu = 1, Kt = 1,
      setState_TPX_calls = []\<rparr>"

definition raw_object :: "nat \<Rightarrow> CFluidCantera" where
  "raw_object N =
     (example_fluid False False (replicate N 0))
       \<lparr>n_species_mixture := 0, specificHeat := replicate N 0, massFractions := replicate N 0,
        moleFractions := replicate N 0, laminarViscosity := replicate N 0,
        laminarThermalConductivity := replicate N 0, massDiffusivity := replicate N 0\<rparr>"

text \<open>
  A mesh of three points with one marker of two vertices, which are the points 1 and 2.
\<close>

definition example_driver :: "bool \<Rightarrow> CDriver" where
  "example_driver fluid =
     \<lparr>main_config = example_config WILKE fluid, nDim = 2, GetNumberVertices = 3,
      GetNumberMarkerVertices = (\<lambda>iMarker. if iMarker = 0 then 2 else 0),
      GetMarkerVertexIndices = (\<lambda>iMarker iVertex. iVertex + 1),
      GetnVar = 4,
      GetSoundSpeed = (\<lambda>iPoint. 340 + real iPoint),
      GetLaminarViscosity = (\<lambda>iPoint. 1 + real iPoint),
      GetEddyViscosity = (\<lambda>iPoint. 10 + real iPoint),
      GetGradient_Primitive = (\<lambda>iPoint iVar iDim. real iDim + 1),
      GetAdjointVertexTractions = (\<lambda>iMarker iVertex iDim. 0),
      GetProd_dCoordinates_dCoordinates = (\<lambda>iPoint iDim. real (10 * iPoint + iDim)),
      GetSens_dObjective_dStates = (\<lambda>iPoint iVar. real (10 * iPoint + iVar)),
      GetProd_dResiduals_dStates = (\<lambda>iPoint iVar. real (10 * iPoint + iVar)),
      GetProd_dTractions_dStates = (\<lambda>iPoint iVar. real (10 * iPoint + iVar)),
      GetSens_dObjective_dCoordinates = (\<lambda>iPoint iDim. real (10 * iPoint + iDim)),
      GetProd_dResiduals_dCoordinates = (\<lambda>iPoint iDim. real (10 * iPoint + iDim)),
      GetProd_dTractions_dCoordinates = (\<lambda>iPoint iDim. real (10 * iPoint + iDim))\<rparr>"

section \<open>Lemmas about a loop over an index range\<close>

lemma fold_add_upt:
  "fold (\<lambda>i acc. acc + f i) [0..<n] (a::real) = a + (\<Sum>i<n. f i)"
  by (induction n arbitrary: a) (simp_all add: add.assoc)

lemma fold_update_length:
  "length (fold (\<lambda>i a. a[i := f i]) [0..<n] xs) = length xs"
  by (induction n) simp_all

lemma fold_update_nth:
  "n \<le> length xs \<Longrightarrow>
   fold (\<lambda>i a. a[i := f i]) [0..<n] xs ! j = (if j < n then f j else xs ! j)"
  by (induction n) (auto simp: fold_update_length nth_list_update less_Suc_eq)

lemma copy_scalars_eq:
  "copy_scalars m vs mf =
     (fold (\<lambda>i a. a[i := vs ! i]) [0..<m] mf, \<Sum>i<m. vs ! i)"
  unfolding copy_scalars_def by (induction m) simp_all

section \<open>Mass and mole fractions\<close>

lemma MassToMoleFractions_massFractions:
  "massFractions (MassToMoleFractions s vs) =
     (fold (\<lambda>i a. a[i := vs ! i]) [0..<n_species_mixture s - 1] (massFractions s))
       [n_species_mixture s - 1 := 1 - (\<Sum>i<n_species_mixture s - 1. vs ! i)]"
  by (simp add: MassToMoleFractions_def Let_def copy_scalars_eq)

lemma MassToMoleFractions_moleFractions:
  "moleFractions (MassToMoleFractions s vs) =
     (let n = n_species_mixture s; mf = massFractions (MassToMoleFractions s vs) in
      fold (\<lambda>iVar a. a[iVar := (mf ! iVar / molarMasses s ! iVar) /
                                 (\<Sum>j<n. mf ! j / molarMasses s ! j)])
           [0..<n] (moleFractions s))"
  by (simp add: MassToMoleFractions_def Let_def copy_scalars_eq fold_add_upt)

lemma massFractions_nth_copied:
  assumes "n_species_mixture s \<le> length (massFractions s)" "i < n_species_mixture s - 1"
  shows "massFractions (MassToMoleFractions s vs) ! i = vs ! i"
  using assms by (simp add: MassToMoleFractions_massFractions fold_update_nth)

lemma massFractions_nth_last:
  assumes "1 \<le> n_species_mixture s" "n_species_mixture s \<le> length (massFractions s)"
  shows "massFractions (MassToMoleFractions s vs) ! (n_species_mixture s - 1) =
         1 - (\<Sum>i<n_species_mixture s - 1. vs ! i)"
  using assms by (simp add: MassToMoleFractions_massFractions fold_update_length)

lemma massFractions_sum_one:
  assumes "1 \<le> n_species_mixture s" "n_species_mixture s \<le> length (massFractions s)"
  shows "(\<Sum>i<n_species_mixture s. massFractions (MassToMoleFractions s vs) ! i) = 1"
proof -
  define m where "m = n_species_mixture s - 1"
  have n: "n_species_mixture s = Suc m" using assms(1) by (simp add: m_def)
  have "(\<Sum>i<m. massFractions (MassToMoleFractions s vs) ! i) = (\<Sum>i<m. vs ! i)"
    using assms(2) by (intro sum.cong refl) (simp add: massFractions_nth_copied m_def)
  moreover have "massFractions (MassToMoleFractions s vs) ! m = 1 - (\<Sum>i<m. vs ! i)"
    using massFractions_nth_last[OF assms] by (simp add: m_def)
  ultimately show ?thesis by (simp add: n)
qed

lemma moleFractions_nth:
  assumes "n_species_mixture s \<le> length (moleFractions s)" "i < n_species_mixture s"
  shows "moleFractions (MassToMoleFractions s vs) ! i =
         (massFractions (MassToMoleFractions s vs) ! i / molarMasses s ! i) /
         (\<Sum>j<n_species_mixture s. massFractions (MassToMoleFractions s vs) ! j / molarMasses s ! j)"
  using assms by (simp add: MassToMoleFractions_moleFractions Let_def fold_update_nth)

lemma weighted_sum_pos:
  fixes y :: "nat \<Rightarrow> real"
  assumes "\<forall>i<n. 0 \<le> y i" "(\<Sum>i<n. y i) = 1" "\<forall>i<n. 0 < M i"
  shows "0 < (\<Sum>i<n. y i / M i)"
proof -
  have nonneg: "\<And>i. i \<in> {..<n} \<Longrightarrow> 0 \<le> y i / M i"
    using assms(1,3) by (simp add: less_imp_le)
  have "(\<Sum>i<n. y i / M i) \<noteq> 0"
  proof
    assume "(\<Sum>i<n. y i / M i) = 0"
    then have "\<forall>i\<in>{..<n}. y i / M i = 0"
      using nonneg sum_nonneg_eq_0_iff[of "{..<n}" "\<lambda>i. y i / M i"] by simp
    then have "\<forall>i\<in>{..<n}. y i = 0" using assms(3) by fastforce
    then have "(\<Sum>i<n. y i) = 0" by simp
    with assms(2) show False by simp
  qed
  moreover have "0 \<le> (\<Sum>i<n. y i / M i)" using nonneg by (rule sum_nonneg)
  ultimately show ?thesis by simp
qed

text \<open>
  Claim C1. Let the \<open>n - 1\<close> scalars passed to \<^verbatim>\<open>MassToMoleFractions\<close> be non-negative
  with a sum of at most 1 and let the molar masses of the \<open>n\<close> species be positive. Then
  the stored mass fractions are the scalars followed by 1 minus their sum, and they sum
  to 1; every stored mole fraction is its mass fraction over its molar mass, divided by
  the sum of these quotients over all species, and the mole fractions sum to 1 too.
  The object is one the constructor can build: it has at least one species and its
  arrays hold at least \<open>n\<close> entries.
\<close>

theorem MassToMoleFractions_normalised:
  assumes n1: "1 \<le> n_species_mixture s"
    and lmf: "n_species_mixture s \<le> length (massFractions s)"
    and lxf: "n_species_mixture s \<le> length (moleFractions s)"
    and lvs: "length val_scalars = n_species_mixture s - 1"
    and nonneg: "\<forall>y \<in> set val_scalars. 0 \<le> y"
    and le1: "sum_list val_scalars \<le> 1"
    and Mpos: "\<forall>i < n_species_mixture s. 0 < molarMasses s ! i"
  shows "let n = n_species_mixture s;
             Y = massFractions (MassToMoleFractions s val_scalars);
             X = moleFractions (MassToMoleFractions s val_scalars)
         in (\<forall>i < n - 1. Y ! i = val_scalars ! i) \<and>
            Y ! (n - 1) = 1 - sum_list val_scalars \<and>
            (\<Sum>i<n. Y ! i) = 1 \<and>
            (\<forall>i < n. X ! i = (Y ! i / molarMasses s ! i) / (\<Sum>j<n. Y ! j / molarMasses s ! j)) \<and>
            (\<Sum>i<n. X ! i) = 1"
proof -
  define n where "n = n_species_mixture s"
  define Y where "Y = massFractions (MassToMoleFractions s val_scalars)"
  define X where "X = moleFractions (MassToMoleFractions s val_scalars)"
  define mm where "mm = (\<Sum>j<n. Y ! j / molarMasses s ! j)"
  have S: "(\<Sum>i<n - 1. val_scalars ! i) = sum_list val_scalars"
    using lvs by (simp add: sum_list_sum_nth n_def atLeast0LessThan)
  have copied: "\<forall>i < n - 1. Y ! i = val_scalars ! i"
    using lmf by (simp add: Y_def n_def massFractions_nth_copied)
  have last: "Y ! (n - 1) = 1 - sum_list val_scalars"
    using massFractions_nth_last[OF n1 lmf, of val_scalars] S by (simp add: Y_def n_def)
  have sumY: "(\<Sum>i<n. Y ! i) = 1"
    using massFractions_sum_one[OF n1 lmf] by (simp add: Y_def n_def)
  have Xnth: "\<forall>i < n. X ! i = (Y ! i / molarMasses s ! i) / mm"
    using lxf by (simp add: X_def Y_def n_def mm_def moleFractions_nth)
  have Ynonneg: "\<forall>i<n. 0 \<le> Y ! i"
  proof (intro allI impI)
    fix i assume "i < n"
    show "0 \<le> Y ! i"
    proof (cases "i < n - 1")
      case True
      then have "val_scalars ! i \<in> set val_scalars" using lvs by (simp add: n_def)
      then show ?thesis using copied True nonneg by simp
    next
      case False
      with \<open>i < n\<close> have "i = n - 1" by simp
      then show ?thesis using last le1 by simp
    qed
  qed
  have "0 < mm"
    unfolding mm_def using Ynonneg sumY Mpos by (intro weighted_sum_pos) (simp_all add: n_def)
  have "(\<Sum>i<n. X ! i) = (\<Sum>i<n. (Y ! i / molarMasses s ! i) / mm)"
    using Xnth by (intro sum.cong refl) simp
  also have "\<dots> = (\<Sum>i<n. Y ! i / molarMasses s ! i) / mm"
    by (simp add: sum_divide_distrib)
  also have "\<dots> = 1" using \<open>0 < mm\<close> by (simp add: mm_def)
  finally have sumX: "(\<Sum>i<n. X ! i) = 1" .
  show ?thesis
    using copied last sumY Xnth sumX
    unfolding Let_def n_def[symmetric] Y_def[symmetric] X_def[symmetric] mm_def[symmetric]
    by simp
qed

theorem MassToMoleFractions_normalised_witness:
  "massFractions (MassToMoleFractions (example_fluid True False [2, 4, 0]) [1 / 4]) ! 0 = 1 / 4 \<and>
   massFractions (MassToMoleFractions (example_fluid True False [2, 4, 0]) [1 / 4]) ! 1 = 3 / 4 \<and>
   (\<Sum>i<2. massFractions (MassToMoleFractions (example_fluid True False [2, 4, 0]) [1 / 4]) ! i) = 1 \<and>
   (\<Sum>i<2. moleFractions (MassToMoleFractions (example_fluid True False [2, 4, 0]) [1 / 4]) ! i) = 1"
proof -
  let ?s = "example_fluid True False [2, 4, 0]"
  have n: "n_species_mixture ?s = 2" by (simp add: example_fluid_def)
  have M: "\<forall>i < n_species_mixture ?s. 0 < molarMasses ?s ! i"
    by (simp add: example_fluid_def less_Suc_eq numeral_2_eq_2)
  have T: "let n = n_species_mixture ?s;
            Y = massFractions (MassToMoleFractions ?s [1 / 4]);
            X = moleFractions (MassToMoleFractions ?s [1 / 4])
        in (\<forall>i < n - 1. Y ! i = [1 / 4] ! i) \<and>
           Y ! (n - 1) = 1 - sum_list [1 / 4] \<and>
           (\<Sum>i<n. Y ! i) = 1 \<and>
           (\<forall>i < n. X ! i = (Y ! i / molarMasses ?s ! i) / (\<Sum>j<n. Y ! j / molarMasses ?s ! j)) \<and>
           (\<Sum>i<n. X ! i) = 1"
    by (rule MassToMoleFractions_normalised [OF _ _ _ _ _ _ M])
       (simp_all add: example_fluid_def)
  note T' = T[unfolded Let_def n]
  have "massFractions (MassToMoleFractions ?s [1 / 4]) ! 0 = 1 / 4"
    using conjunct1[OF T'] by simp
  moreover have "massFractions (MassToMoleFractions ?s [1 / 4]) ! 1 = 3 / 4"
    using conjunct1[OF conjunct2[OF T']] by simp
  moreover note conjunct1[OF conjunct2[OF conjunct2[OF T']]]
  moreover note conjunct2[OF conjunct2[OF conjunct2[OF conjunct2[OF T']]]]
  ultimately show ?thesis by blast
qed

section \<open>The constructor\<close>

lemma ctor_loop:
  "fold (\<lambda>iVar (a, b). (a[iVar := f iVar], b[iVar := g iVar])) [0..<n] (xs, ys) =
     (fold (\<lambda>i a. a[i := f i]) [0..<n] xs, fold (\<lambda>i b. b[i := g i]) [0..<n] ys)"
  by (induction n) simp_all

lemma CFluidCantera_ctor_fails:
  "ARRAYSIZE base < GetnSpecies config + 1 \<Longrightarrow>
   CFluidCantera_ctor base raw val_Cp R p config =
     Inl (SU2_MPI_Error ''Too many species, increase ARRAYSIZE'')"
  by (simp add: CFluidCantera_ctor_def Let_def)

lemma CFluidCantera_ctor_succeeds:
  assumes "GetnSpecies config + 1 \<le> ARRAYSIZE base"
  shows "\<exists>s. CFluidCantera_ctor base raw val_Cp R p config = Inr s \<and>
             n_species_mixture s = GetnSpecies config + 1 \<and>
             wilke s = (GetKind_MixingViscosityModel config = WILKE) \<and>
             davidson s = (GetKind_MixingViscosityModel config = DAVIDSON) \<and>
             molarMasses s =
               fold (\<lambda>i a. a[i := GetMolecular_Weight config i]) [0..<GetnSpecies config + 1]
                 (molarMasses raw) \<and>
             specificHeat s =
               fold (\<lambda>i a. a[i := GetSpecific_Heat_CpND config i]) [0..<GetnSpecies config + 1]
                 (specificHeat raw)"
  using assms by (simp add: CFluidCantera_ctor_def Let_def ctor_loop del: upt_Suc)

section \<open>The Wilke mixing rule for identical species\<close>

lemma fold_cong_upt:
  "(\<And>i. i < n \<Longrightarrow> f i = g i) \<Longrightarrow> fold f [0..<n] a = fold g [0..<n] a"
  by (rule fold_cong) simp_all

lemma wilkeDenumerator_sum:
  "wilkeDenumerator n lv M X i = (\<Sum>j<n. X ! j * (if j \<noteq> i then phi lv M i j else 1))"
proof -
  have "wilkeDenumerator n lv M X i =
        fold (\<lambda>j acc. acc + X ! j * (if j \<noteq> i then phi lv M i j else 1)) [0..<n] 0"
    unfolding wilkeDenumerator_def by (rule fold_cong_upt) (simp add: fun_eq_iff)
  then show ?thesis by (simp add: fold_add_upt)
qed

lemma sqrt_16: "sqrt 16 = 4"
  using real_sqrt_abs [of 4] by simp

lemma phi_identical:
  assumes "lv ! i = mu" "lv ! j = mu" "mu \<noteq> 0" "M ! i = m" "M ! j = m" "m \<noteq> 0"
  shows "phi lv M i j = 1"
  using assms by (simp add: phi_def sqrt_16 power2_eq_square)

lemma wilkeDenumerator_identical:
  assumes "\<forall>j<n. lv ! j = mu" "mu \<noteq> 0" "\<forall>j<n. M ! j = m" "m \<noteq> 0" "i < n"
  shows "wilkeDenumerator n lv M X i = (\<Sum>j<n. X ! j)"
  unfolding wilkeDenumerator_sum
  using assms by (intro sum.cong refl) (simp add: phi_identical)

lemma WilkeViscosity_value:
  "fst (WilkeViscosity s vs) =
     (let n = n_species_mixture s; lv = laminarViscosity (snd (WilkeViscosity s vs)) in
      \<Sum>i<n. (moleFractions s ! i * lv ! i) /
              wilkeDenumerator n lv (molarMasses s) (moleFractions s) i)"
  by (simp add: WilkeViscosity_def Let_def fold_add_upt)

lemma WilkeViscosity_laminarViscosity:
  assumes "n_species_mixture s \<le> length (laminarViscosity s)" "i < n_species_mixture s"
  shows "laminarViscosity (snd (WilkeViscosity s vs)) ! i =
         LaminarViscosityPointers s i (Temperature s) (Density s)"
  using assms by (simp add: WilkeViscosity_def Let_def fold_update_nth)

lemma WilkeViscosity_frame:
  "n_species_mixture (snd (WilkeViscosity s vs)) = n_species_mixture s"
  "molarMasses (snd (WilkeViscosity s vs)) = molarMasses s"
  "moleFractions (snd (WilkeViscosity s vs)) = moleFractions s"
  "laminarThermalConductivity (snd (WilkeViscosity s vs)) = laminarThermalConductivity s"
  "ThermalConductivityPointers (snd (WilkeViscosity s vs)) = ThermalConductivityPointers s"
  "Temperature (snd (WilkeViscosity s vs)) = Temperature s"
  "Density (snd (WilkeViscosity s vs)) = Density s"
  "Mu (snd (WilkeViscosity s vs)) = Mu s"
  by (simp_all add: WilkeViscosity_def Let_def)

lemma WilkeConductivity_value:
  "fst (WilkeConductivity s vs) =
     (let n = n_species_mixture s; ltc = laminarThermalConductivity (snd (WilkeConductivity s vs)) in
      \<Sum>i<n. (moleFractions s ! i * ltc ! i) /
              wilkeDenumerator n (laminarViscosity s) (molarMasses s) (moleFractions s) i)"
  by (simp add: WilkeConductivity_def Let_def fold_add_upt)

lemma WilkeConductivity_laminarThermalConductivity:
  assumes "n_species_mixture s \<le> length (laminarThermalConductivity s)" "i < n_species_mixture s"
  shows "laminarThermalConductivity (snd (WilkeConductivity s vs)) ! i =
         ThermalConductivityPointers s i (Temperature s) (Density s) (Mu s) 0 0 0 0"
  using assms by (simp add: WilkeConductivity_def Let_def fold_update_nth)

lemma wilke_average_identical:
  fixes X :: "real list"
  assumes "\<forall>i<n. v ! i = c" "\<forall>i<n. lv ! i = mu" "mu \<noteq> 0" "\<forall>i<n. M ! i = m" "m \<noteq> 0"
    and "(\<Sum>i<n. X ! i) = 1"
  shows "(\<Sum>i<n. (X ! i * v ! i) / wilkeDenumerator n lv M X i) = c"
proof -
  have D: "wilkeDenumerator n lv M X i = 1" if "i < n" for i
    using wilkeDenumerator_identical [OF assms(2-5) that, of X] assms(6) by simp
  have "(\<Sum>i<n. (X ! i * v ! i) / wilkeDenumerator n lv M X i) = (\<Sum>i<n. X ! i * c)"
    using assms(1) by (intro sum.cong refl) (simp add: D)
  also have "\<dots> = (\<Sum>i<n. X ! i) * c" by (simp add: sum_distrib_right)
  finally show ?thesis using assms(6) by simp
qed

lemma WilkeViscosity_identical:
  assumes "n_species_mixture s \<le> length (laminarViscosity s)"
    and "\<forall>i < n_species_mixture s. molarMasses s ! i = m" "m \<noteq> 0"
    and "\<forall>i < n_species_mixture s. LaminarViscosityPointers s i (Temperature s) (Density s) = mu"
        "mu \<noteq> 0"
    and "(\<Sum>i < n_species_mixture s. moleFractions s ! i) = 1"
  shows "fst (WilkeViscosity s vs) = mu"
  unfolding WilkeViscosity_value Let_def
  using assms
  by (intro wilke_average_identical [where mu = mu and m = m])
     (simp_all add: WilkeViscosity_laminarViscosity)

lemma WilkeConductivity_identical:
  assumes "n_species_mixture s \<le> length (laminarThermalConductivity s)"
    and "\<forall>i < n_species_mixture s. molarMasses s ! i = m" "m \<noteq> 0"
    and "\<forall>i < n_species_mixture s. laminarViscosity s ! i = mu" "mu \<noteq> 0"
    and "\<forall>i < n_species_mixture s.
           ThermalConductivityPointers s i (Temperature s) (Density s) (Mu s) 0 0 0 0 = k"
    and "(\<Sum>i < n_species_mixture s. moleFractions s ! i) = 1"
  shows "fst (WilkeConductivity s vs) = k"
  unfolding WilkeConductivity_value Let_def
  using assms
  by (intro wilke_average_identical [where mu = mu and m = m])
     (simp_all add: WilkeConductivity_laminarThermalConductivity)

lemma fold_fold_add_upt:
  "fold (\<lambda>i acc0. fold (\<lambda>j acc. acc + g i j) [0..<m] acc0) [0..<n] (a::real) =
     a + (\<Sum>i<n. \<Sum>j<m. g i j)"
proof -
  have "fold (\<lambda>i acc0. fold (\<lambda>j acc. acc + g i j) [0..<m] acc0) [0..<n] a =
        fold (\<lambda>i acc0. acc0 + (\<Sum>j<m. g i j)) [0..<n] a"
    by (simp add: fold_add_upt)
  then show ?thesis by (simp add: fold_add_upt)
qed

lemma WilkeViscosity_closed:
  assumes "n_species_mixture t \<le> length (laminarViscosity t)"
  shows "fst (WilkeViscosity t vs) =
     (let n = n_species_mixture t;
          M = (\<lambda>i. molarMasses t ! i);
          X = (\<lambda>i. moleFractions t ! i);
          mu = (\<lambda>i. LaminarViscosityPointers t i (Temperature t) (Density t))
      in \<Sum>i<n. (X i * mu i) /
           (\<Sum>j<n. X j * (if j \<noteq> i
                           then (1 + sqrt (mu i / mu j) * (M j / M i) powr (1 / 4)) ^ 2 /
                                sqrt (8 * (1 + M i / M j))
                           else 1)))"
proof -
  define n where "n = n_species_mixture t"
  define lv where "lv = laminarViscosity (snd (WilkeViscosity t vs))"
  have lv: "lv ! i = LaminarViscosityPointers t i (Temperature t) (Density t)" if "i < n" for i
    using that assms by (simp add: lv_def n_def WilkeViscosity_laminarViscosity)
  have "fst (WilkeViscosity t vs) =
        (\<Sum>i<n. (moleFractions t ! i * lv ! i) /
           (\<Sum>j<n. moleFractions t ! j * (if j \<noteq> i then phi lv (molarMasses t) i j else 1)))"
    unfolding n_def lv_def by (simp add: WilkeViscosity_value Let_def wilkeDenumerator_sum)
  also have "\<dots> = (\<Sum>i<n. (moleFractions t ! i * LaminarViscosityPointers t i (Temperature t) (Density t)) /
           (\<Sum>j<n. moleFractions t ! j *
              (if j \<noteq> i
               then (1 + sqrt (LaminarViscosityPointers t i (Temperature t) (Density t) /
                               LaminarViscosityPointers t j (Temperature t) (Density t)) *
                         (molarMasses t ! j / molarMasses t ! i) powr (1 / 4)) ^ 2 /
                    sqrt (8 * (1 + molarMasses t ! i / molarMasses t ! j))
               else 1)))"
    by (intro sum.cong refl arg_cong2 [where f = "(/)"]) (simp_all add: lv phi_def cong: if_cong)
  finally show ?thesis by (simp add: Let_def n_def)
qed

lemma WilkeConductivity_closed:
  assumes "n_species_mixture t \<le> length (laminarThermalConductivity t)"
  shows "fst (WilkeConductivity t vs) =
     (let n = n_species_mixture t;
          M = (\<lambda>i. molarMasses t ! i);
          X = (\<lambda>i. moleFractions t ! i);
          mu = (\<lambda>i. laminarViscosity t ! i);
          k = (\<lambda>i. ThermalConductivityPointers t i (Temperature t) (Density t) (Mu t) 0 0 0 0)
      in \<Sum>i<n. (X i * k i) /
           (\<Sum>j<n. X j * (if j \<noteq> i
                           then (1 + sqrt (mu i / mu j) * (M j / M i) powr (1 / 4)) ^ 2 /
                                sqrt (8 * (1 + M i / M j))
                           else 1)))"
proof -
  define n where "n = n_species_mixture t"
  define ltc where "ltc = laminarThermalConductivity (snd (WilkeConductivity t vs))"
  have ltc: "ltc ! i = ThermalConductivityPointers t i (Temperature t) (Density t) (Mu t) 0 0 0 0"
    if "i < n" for i
    using that assms by (simp add: ltc_def n_def WilkeConductivity_laminarThermalConductivity)
  have "fst (WilkeConductivity t vs) =
        (\<Sum>i<n. (moleFractions t ! i * ltc ! i) /
           (\<Sum>j<n. moleFractions t ! j *
              (if j \<noteq> i then phi (laminarViscosity t) (molarMasses t) i j else 1)))"
    by (simp add: WilkeConductivity_value Let_def wilkeDenumerator_sum n_def ltc_def)
  also have "\<dots> = (\<Sum>i<n. (moleFractions t ! i *
                ThermalConductivityPointers t i (Temperature t) (Density t) (Mu t) 0 0 0 0) /
           (\<Sum>j<n. moleFractions t ! j *
              (if j \<noteq> i then phi (laminarViscosity t) (molarMasses t) i j else 1)))"
    by (intro sum.cong refl) (simp add: ltc)
  finally show ?thesis by (simp add: Let_def n_def phi_def cong: if_cong)
qed

lemma DavidsonViscosity_closed:
  assumes "n_species_mixture t \<le> length (laminarViscosity t)"
  shows "fst (DavidsonViscosity t vs) =
     (let n = n_species_mixture t;
          M = (\<lambda>i. molarMasses t ! i);
          X = (\<lambda>i. moleFractions t ! i);
          mu = (\<lambda>i. LaminarViscosityPointers t i (Temperature t) (Density t));
          S = (\<Sum>i<n. X i * sqrt (M i));
          f = (\<lambda>j. (X j * sqrt (M j)) / S)
      in 1 / (\<Sum>i<n. \<Sum>j<n. ((f i * f j) / (sqrt (mu i) * sqrt (mu j))) *
                               ((2 * sqrt (M i) * sqrt (M j)) / (M i + M j)) powr 0.375))"
proof -
  define n where "n = n_species_mixture t"
  define lv where "lv = fold (\<lambda>iVar a. a[iVar := LaminarViscosityPointers t iVar (Temperature t) (Density t)])
                 [0..<n] (laminarViscosity t)"
  define S where "S = (\<Sum>i<n. moleFractions t ! i * sqrt (molarMasses t ! i))"
  define mf where "mf = map (\<lambda>j. (moleFractions t ! j * sqrt (molarMasses t ! j)) / S) [0..<n]"
  have lv: "lv ! i = LaminarViscosityPointers t i (Temperature t) (Density t)" if "i < n" for i
    using that assms by (simp add: lv_def n_def fold_update_nth)
  have mf: "mf ! i = (moleFractions t ! i * sqrt (molarMasses t ! i)) / S" if "i < n" for i
    using that by (simp add: mf_def)
  have "fst (DavidsonViscosity t vs) =
        1 / (\<Sum>i<n. \<Sum>j<n. ((mf ! i * mf ! j) / (sqrt (lv ! i) * sqrt (lv ! j))) *
               ((2 * sqrt (molarMasses t ! i) * sqrt (molarMasses t ! j)) /
                (molarMasses t ! i + molarMasses t ! j)) powr 0.375)"
    by (simp add: DavidsonViscosity_def Let_def fold_add_upt fold_fold_add_upt
          n_def lv_def mf_def S_def)
  also have "(\<Sum>i<n. \<Sum>j<n. ((mf ! i * mf ! j) / (sqrt (lv ! i) * sqrt (lv ! j))) *
               ((2 * sqrt (molarMasses t ! i) * sqrt (molarMasses t ! j)) /
                (molarMasses t ! i + molarMasses t ! j)) powr 0.375) =
        (\<Sum>i<n. \<Sum>j<n.
            (((moleFractions t ! i * sqrt (molarMasses t ! i)) / S *
              ((moleFractions t ! j * sqrt (molarMasses t ! j)) / S)) /
             (sqrt (LaminarViscosityPointers t i (Temperature t) (Density t)) *
              sqrt (LaminarViscosityPointers t j (Temperature t) (Density t)))) *
            ((2 * sqrt (molarMasses t ! i) * sqrt (molarMasses t ! j)) /
             (molarMasses t ! i + molarMasses t ! j)) powr 0.375)"
    by (intro sum.cong refl) (simp add: lv mf)
  finally show ?thesis by (simp add: Let_def n_def S_def)
qed

lemma sum_upto_2: "(\<Sum>i<(2::nat). f i) = f 0 + (f 1 :: real)"
  by (simp add: numeral_2_eq_2)

text \<open>
  Claim C8, as amended. Let all species have the same molar mass \<open>m\<close>, not zero, let
  every species viscosity model yield the same viscosity \<open>mu\<close>, not zero, and every
  species conductivity model the same conductivity \<open>k\<close> at the state of the object,
  and let the stored mole fractions sum to 1. Then \<open>WilkeViscosity\<close> returns \<open>mu\<close>;
  \<open>WilkeConductivity\<close>, called on the object as \<open>WilkeViscosity\<close> leaves it (the
  order in which \<^verbatim>\<open>SetTDState_T\<close> calls them), returns \<open>k\<close>; and the interaction
  factor \<open>phi\<close> is 1 for every pair of species.

  \<open>phi\<close> divides a viscosity by a viscosity and a molar mass by a molar mass, and
  \<open>WilkeConductivity\<close> takes the viscosities from the array \<^verbatim>\<open>laminarViscosity\<close>,
  which it does not fill itself. \<open>WilkeConductivity_identical\<close> above is the same fact
  for any object whose stored viscosities are equal and nonzero.
\<close>

theorem Wilke_identical_species:
  assumes "n_species_mixture s \<le> length (laminarViscosity s)"
    and "n_species_mixture s \<le> length (laminarThermalConductivity s)"
    and "\<forall>i < n_species_mixture s. molarMasses s ! i = m" and "m \<noteq> 0"
    and "\<forall>i < n_species_mixture s. LaminarViscosityPointers s i (Temperature s) (Density s) = mu"
    and "mu \<noteq> 0"
    and "\<forall>i < n_species_mixture s.
           ThermalConductivityPointers s i (Temperature s) (Density s) (Mu s) 0 0 0 0 = k"
    and "(\<Sum>i < n_species_mixture s. moleFractions s ! i) = 1"
  shows "fst (WilkeViscosity s val_scalars) = mu \<and>
         fst (WilkeConductivity (snd (WilkeViscosity s val_scalars)) val_scalars) = k \<and>
         (\<forall>i < n_species_mixture s. \<forall>j < n_species_mixture s.
            phi (laminarViscosity (snd (WilkeViscosity s val_scalars))) (molarMasses s) i j = 1)"
proof -
  let ?t = "snd (WilkeViscosity s val_scalars)"
  have lv: "\<forall>i < n_species_mixture s. laminarViscosity ?t ! i = mu"
    using assms(1,5) by (simp add: WilkeViscosity_laminarViscosity)
  have 1: "fst (WilkeViscosity s val_scalars) = mu"
    using assms by (intro WilkeViscosity_identical [where m = m]) simp_all
  have 2: "fst (WilkeConductivity ?t val_scalars) = k"
    using assms lv
    by (intro WilkeConductivity_identical [where m = m and mu = mu])
       (simp_all add: WilkeViscosity_frame)
  have 3: "phi (laminarViscosity ?t) (molarMasses s) i j = 1"
    if "i < n_species_mixture s" "j < n_species_mixture s" for i j
    using that lv assms(3,4,6) by (intro phi_identical [where mu = mu and m = m]) simp_all
  show ?thesis using 1 2 3 by simp
qed

theorem Wilke_identical_species_witness:
  "fst (WilkeViscosity (example_fluid True False [2, 2, 0]) [1 / 4]) = 3 \<and>
   fst (WilkeConductivity (snd (WilkeViscosity (example_fluid True False [2, 2, 0]) [1 / 4])) [1 / 4]) = 5 \<and>
   phi (laminarViscosity (snd (WilkeViscosity (example_fluid True False [2, 2, 0]) [1 / 4]))) [2, 2, 0] 0 1 = 1"
proof -
  let ?s = "example_fluid True False [2, 2, 0]"
  have n: "n_species_mixture ?s = 2" by (simp add: example_fluid_def)
  have M: "\<forall>i < n_species_mixture ?s. molarMasses ?s ! i = 2"
    by (simp add: example_fluid_def less_Suc_eq numeral_2_eq_2)
  have X: "(\<Sum>i < n_species_mixture ?s. moleFractions ?s ! i) = 1"
    by (simp add: example_fluid_def numeral_2_eq_2)
  have mm: "molarMasses ?s = [2, 2, 0]" by (simp add: example_fluid_def)
  have T: "fst (WilkeViscosity ?s [1 / 4]) = 3 \<and>
         fst (WilkeConductivity (snd (WilkeViscosity ?s [1 / 4])) [1 / 4]) = 5 \<and>
         (\<forall>i < n_species_mixture ?s. \<forall>j < n_species_mixture ?s.
            phi (laminarViscosity (snd (WilkeViscosity ?s [1 / 4]))) (molarMasses ?s) i j = 1)"
    by (rule Wilke_identical_species [OF _ _ M _ _ _ _ X]) (simp_all add: example_fluid_def)
  then have "phi (laminarViscosity (snd (WilkeViscosity ?s [1 / 4]))) (molarMasses ?s) 0 1 = 1"
    by (simp add: n)
  with T show ?thesis by (simp add: mm)
qed

text \<open>
  The claim as it was stated fails in two ways. When every viscosity model yields 0, all
  its hypotheses hold, \<open>phi\<close> is 1/4 and \<open>WilkeConductivity\<close> returns 680/91 where
  the common conductivity is 5 (the source divides zero by zero there). When the array
  \<^verbatim>\<open>laminarViscosity\<close> holds 3 and 12 while every viscosity model yields 3,
  \<open>WilkeConductivity\<close> called by itself returns 1420/301.
\<close>

theorem Wilke_identical_species_counterexample:
  "fst (WilkeConductivity
          ((example_fluid True False [2, 2, 0])\<lparr>LaminarViscosityPointers := (\<lambda>iVar T rho. 0)\<rparr>)
          [1 / 4]) = 680 / 91 \<and>
   fst (WilkeConductivity
          (snd (WilkeViscosity
                  ((example_fluid True False [2, 2, 0])
                     \<lparr>LaminarViscosityPointers := (\<lambda>iVar T rho. 0)\<rparr>) [1 / 4]))
          [1 / 4]) = 680 / 91 \<and>
   fst (WilkeConductivity
          ((example_fluid True False [2, 2, 0])\<lparr>laminarViscosity := [3, 12, 0]\<rparr>)
          [1 / 4]) = 1420 / 301 \<and>
   (680 / 91 :: real) \<noteq> 5 \<and> (1420 / 301 :: real) \<noteq> 5"
proof -
  let ?z = "(example_fluid True False [2, 2, 0])\<lparr>LaminarViscosityPointers := (\<lambda>iVar T rho. 0)\<rparr>"
  let ?t = "(example_fluid True False [2, 2, 0])\<lparr>laminarViscosity := [3, 12, 0]\<rparr>"
  have lz: "laminarViscosity (snd (WilkeViscosity ?z [1 / 4])) = [0, 0, 0]"
    by (simp add: WilkeViscosity_def Let_def example_fluid_def numeral_2_eq_2)
  have 1: "fst (WilkeConductivity ?z [1 / 4]) = 680 / 91"
    by (simp add: WilkeConductivity_closed Let_def example_fluid_def sum_upto_2 sqrt_16)
  have 2: "fst (WilkeConductivity (snd (WilkeViscosity ?z [1 / 4])) [1 / 4]) = 680 / 91"
  proof -
    have c: "n_species_mixture (snd (WilkeViscosity ?z [1 / 4]))
             \<le> length (laminarThermalConductivity (snd (WilkeViscosity ?z [1 / 4])))"
      by (simp add: WilkeViscosity_frame example_fluid_def)
    show ?thesis
      unfolding WilkeConductivity_closed [OF c] Let_def WilkeViscosity_frame lz
      by (simp add: example_fluid_def sum_upto_2 sqrt_16)
  qed
  have 3: "fst (WilkeConductivity ?t [1 / 4]) = 1420 / 301"
    by (simp add: WilkeConductivity_closed Let_def example_fluid_def sum_upto_2 sqrt_16
          real_sqrt_divide power2_eq_square)
  show ?thesis using 1 2 3 by simp
qed

section \<open>Setting the thermodynamic state\<close>

lemma MassToMoleFractions_frame:
  "wilke (MassToMoleFractions s vs) = wilke s"
  "davidson (MassToMoleFractions s vs) = davidson s"
  "Mu (MassToMoleFractions s vs) = Mu s"
  "n_species_mixture (MassToMoleFractions s vs) = n_species_mixture s"
  "Pressure_Thermodynamic (MassToMoleFractions s vs) = Pressure_Thermodynamic s"
  "setState_TPX_calls (MassToMoleFractions s vs) = setState_TPX_calls s"
  "massDiffusivity (MassToMoleFractions s vs) = massDiffusivity s"
  "MassDiffusivityPointers (MassToMoleFractions s vs) = MassDiffusivityPointers s"
  by (simp_all add: MassToMoleFractions_def Let_def split: prod.splits)

lemma MassToMoleFractions_calls_irrelevant:
  "MassToMoleFractions (s\<lparr>setState_TPX_calls := c\<rparr>) vs =
     (MassToMoleFractions s vs)\<lparr>setState_TPX_calls := c\<rparr>"
  by (simp add: MassToMoleFractions_def Let_def split: prod.splits)

lemma ComputeGasConstant_calls_irrelevant:
  "fst (ComputeGasConstant base (s\<lparr>setState_TPX_calls := c\<rparr>)) = fst (ComputeGasConstant base s)"
  by (simp add: ComputeGasConstant_def Let_def)

lemma ComputeGasConstant_snd:
  "snd (ComputeGasConstant base s) = s\<lparr>Gas_Constant := fst (ComputeGasConstant base s)\<rparr>"
  by (simp add: ComputeGasConstant_def Let_def)

lemma ComputeMeanSpecificHeatCp_irrelevant:
  "ComputeMeanSpecificHeatCp
     (s\<lparr>setState_TPX_calls := c, Gas_Constant := R, Temperature := T, Density := rho\<rparr>) vs =
   ComputeMeanSpecificHeatCp s vs"
  by (simp add: ComputeMeanSpecificHeatCp_def)

lemma SetTDState_T_thermo_fields:
  "wilke (SetTDState_T_thermo base s T vs) = wilke s"
  "davidson (SetTDState_T_thermo base s T vs) = davidson s"
  "Mu (SetTDState_T_thermo base s T vs) = Mu s"
  "n_species_mixture (SetTDState_T_thermo base s T vs) = n_species_mixture s"
  "massDiffusivity (SetTDState_T_thermo base s T vs) = massDiffusivity s"
  "MassDiffusivityPointers (SetTDState_T_thermo base s T vs) = MassDiffusivityPointers s"
  "Temperature (SetTDState_T_thermo base s T vs) = T"
  "Gas_Constant (SetTDState_T_thermo base s T vs) =
     fst (ComputeGasConstant base (MassToMoleFractions s vs))"
  "Density (SetTDState_T_thermo base s T vs) =
     Pressure_Thermodynamic s / (T * fst (ComputeGasConstant base (MassToMoleFractions s vs)))"
  "Pressure_Thermodynamic (SetTDState_T_thermo base s T vs) = Pressure_Thermodynamic s"
  "Cp (SetTDState_T_thermo base s T vs) = ComputeMeanSpecificHeatCp (MassToMoleFractions s vs) vs"
  "Cv (SetTDState_T_thermo base s T vs) =
     ComputeMeanSpecificHeatCp (MassToMoleFractions s vs) vs -
     fst (ComputeGasConstant base (MassToMoleFractions s vs))"
  "setState_TPX_calls (SetTDState_T_thermo base s T vs) =
     (Temperature s, Pressure_Thermodynamic s, ''H2O:1.0, H2:8.0, AR:1.0'') # setState_TPX_calls s"
  by (simp_all add: SetTDState_T_thermo_def Let_def MassToMoleFractions_frame
        MassToMoleFractions_calls_irrelevant ComputeGasConstant_calls_irrelevant
        ComputeMeanSpecificHeatCp_irrelevant ComputeGasConstant_snd)

lemma SetTDState_T_viscosity_Mu:
  "Mu (SetTDState_T_viscosity s vs) =
     (if wilke s then fst (WilkeViscosity s vs)
      else if davidson s then fst (DavidsonViscosity s vs)
      else Mu s)"
  by (simp add: SetTDState_T_viscosity_def split: prod.splits)

lemma SetTDState_T_viscosity_frame:
  "wilke (SetTDState_T_viscosity s vs) = wilke s"
  "davidson (SetTDState_T_viscosity s vs) = davidson s"
  "setState_TPX_calls (SetTDState_T_viscosity s vs) = setState_TPX_calls s"
  "Pressure_Thermodynamic (SetTDState_T_viscosity s vs) = Pressure_Thermodynamic s"
  by (simp_all add: SetTDState_T_viscosity_def WilkeViscosity_def DavidsonViscosity_def Let_def)

lemma SetTDState_T_viscosity_neither:
  "\<not> wilke s \<Longrightarrow> \<not> davidson s \<Longrightarrow> SetTDState_T_viscosity s vs = s"
  by (simp add: SetTDState_T_viscosity_def)

lemma SetTDState_T_final:
  "SetTDState_T base s T vs =
     (let s7 = SetTDState_T_viscosity (SetTDState_T_thermo base s T vs) vs in
      ComputeMassDiffusivity ((snd (WilkeConductivity s7 vs))\<lparr>Kt := fst (WilkeConductivity s7 vs)\<rparr>))"
  by (simp add: SetTDState_T_def Let_def split: prod.splits)

lemma WilkeConductivity_frame:
  "n_species_mixture (snd (WilkeConductivity s vs)) = n_species_mixture s"
  "Mu (snd (WilkeConductivity s vs)) = Mu s"
  "Temperature (snd (WilkeConductivity s vs)) = Temperature s"
  "Density (snd (WilkeConductivity s vs)) = Density s"
  "Gas_Constant (snd (WilkeConductivity s vs)) = Gas_Constant s"
  "Cp (snd (WilkeConductivity s vs)) = Cp s"
  "Cv (snd (WilkeConductivity s vs)) = Cv s"
  "wilke (snd (WilkeConductivity s vs)) = wilke s"
  "davidson (snd (WilkeConductivity s vs)) = davidson s"
  "massDiffusivity (snd (WilkeConductivity s vs)) = massDiffusivity s"
  "MassDiffusivityPointers (snd (WilkeConductivity s vs)) = MassDiffusivityPointers s"
  "setState_TPX_calls (snd (WilkeConductivity s vs)) = setState_TPX_calls s"
  "Pressure_Thermodynamic (snd (WilkeConductivity s vs)) = Pressure_Thermodynamic s"
  by (simp_all add: WilkeConductivity_def Let_def)

lemma ComputeMassDiffusivity_frame:
  "n_species_mixture (ComputeMassDiffusivity s) = n_species_mixture s"
  "Mu (ComputeMassDiffusivity s) = Mu s"
  "Kt (ComputeMassDiffusivity s) = Kt s"
  "Temperature (ComputeMassDiffusivity s) = Temperature s"
  "Density (ComputeMassDiffusivity s) = Density s"
  "Gas_Constant (ComputeMassDiffusivity s) = Gas_Constant s"
  "Cp (ComputeMassDiffusivity s) = Cp s"
  "Cv (ComputeMassDiffusivity s) = Cv s"
  "wilke (ComputeMassDiffusivity s) = wilke s"
  "davidson (ComputeMassDiffusivity s) = davidson s"
  "setState_TPX_calls (ComputeMassDiffusivity s) = setState_TPX_calls s"
  "Pressure_Thermodynamic (ComputeMassDiffusivity s) = Pressure_Thermodynamic s"
  by (simp_all add: ComputeMassDiffusivity_def)

lemma ComputeMassDiffusivity_nth:
  assumes "n_species_mixture s \<le> length (massDiffusivity s)" "i < n_species_mixture s"
  shows "massDiffusivity (ComputeMassDiffusivity s) ! i =
         MassDiffusivityPointers s i (Density s) (Mu s) (Cp s) (Kt s)"
  using assms by (simp add: ComputeMassDiffusivity_def fold_update_nth)

lemmas SetTDState_T_frames =
  SetTDState_T_final Let_def ComputeMassDiffusivity_frame WilkeConductivity_frame
  SetTDState_T_viscosity_frame SetTDState_T_thermo_fields

lemma SetTDState_T_flags:
  "wilke (SetTDState_T base s T vs) = wilke s"
  "davidson (SetTDState_T base s T vs) = davidson s"
  by (simp_all add: SetTDState_T_frames)

lemma SetTDState_T_backend_call:
  "setState_TPX_calls (SetTDState_T base s T vs) =
     (Temperature s, Pressure_Thermodynamic s, ''H2O:1.0, H2:8.0, AR:1.0'') # setState_TPX_calls s"
  by (simp add: SetTDState_T_frames)

lemma SetTDState_T_Mu:
  "Mu (SetTDState_T base s T vs) = Mu (SetTDState_T_viscosity (SetTDState_T_thermo base s T vs) vs)"
  by (simp add: SetTDState_T_frames)

lemma SetTDState_T_Kt:
  "Kt (SetTDState_T base s T vs) =
     fst (WilkeConductivity (SetTDState_T_viscosity (SetTDState_T_thermo base s T vs) vs) vs)"
  by (simp add: SetTDState_T_frames)

lemma MassToMoleFractions_massFractions_nth:
  assumes "1 \<le> n_species_mixture s" "n_species_mixture s \<le> length (massFractions s)"
    and "i < n_species_mixture s"
  shows "massFractions (MassToMoleFractions s vs) ! i =
         (if i < n_species_mixture s - 1 then vs ! i
          else 1 - (\<Sum>j<n_species_mixture s - 1. vs ! j))"
proof (cases "i < n_species_mixture s - 1")
  case True
  then show ?thesis using assms(2) by (simp add: massFractions_nth_copied)
next
  case False
  with assms(3) have "i = n_species_mixture s - 1" by simp
  then show ?thesis using massFractions_nth_last [OF assms(1,2), of vs] by simp
qed

lemma MassToMoleFractions_frame_more:
  "molarMasses (MassToMoleFractions s vs) = molarMasses s"
  "specificHeat (MassToMoleFractions s vs) = specificHeat s"
  "GasConstant_Ref (MassToMoleFractions s vs) = GasConstant_Ref s"
  by (simp_all add: MassToMoleFractions_def Let_def split: prod.splits)

lemma MassToMoleFractions_moleFractions_nth:
  assumes "1 \<le> n_species_mixture s" "n_species_mixture s \<le> length (massFractions s)"
    and "n_species_mixture s \<le> length (moleFractions s)" and "i < n_species_mixture s"
  shows "moleFractions (MassToMoleFractions s vs) ! i =
         (let n = n_species_mixture s;
              Y = (\<lambda>i. if i < n - 1 then vs ! i else 1 - (\<Sum>j<n - 1. vs ! j))
          in (Y i / molarMasses s ! i) / (\<Sum>j<n. Y j / molarMasses s ! j))"
proof -
  have "(\<Sum>j<n_species_mixture s. massFractions (MassToMoleFractions s vs) ! j / molarMasses s ! j) =
        (\<Sum>j<n_species_mixture s.
           (if j < n_species_mixture s - 1 then vs ! j
            else 1 - (\<Sum>j<n_species_mixture s - 1. vs ! j)) / molarMasses s ! j)"
    using assms(1,2) by (intro sum.cong refl) (simp add: MassToMoleFractions_massFractions_nth)
  then show ?thesis
    using assms
    by (simp add: moleFractions_nth MassToMoleFractions_massFractions_nth Let_def)
qed

lemma ComputeGasConstant_closed:
  "fst (ComputeGasConstant base t) =
     UNIVERSAL_GAS_CONSTANT base /
       (GasConstant_Ref t * (\<Sum>i<n_species_mixture t. moleFractions t ! i * molarMasses t ! i / 1000))"
  by (simp add: ComputeGasConstant_def Let_def fold_add_upt)

lemma ComputeMeanSpecificHeatCp_closed:
  "ComputeMeanSpecificHeatCp t vs =
     (\<Sum>i<n_species_mixture t. specificHeat t ! i * massFractions t ! i)"
  by (simp add: ComputeMeanSpecificHeatCp_def fold_add_upt)

lemma SetTDState_T_thermo_arrays:
  "molarMasses (SetTDState_T_thermo base s T vs) = molarMasses s"
  "specificHeat (SetTDState_T_thermo base s T vs) = specificHeat s"
  "massFractions (SetTDState_T_thermo base s T vs) = massFractions (MassToMoleFractions s vs)"
  "moleFractions (SetTDState_T_thermo base s T vs) = moleFractions (MassToMoleFractions s vs)"
  "laminarViscosity (SetTDState_T_thermo base s T vs) = laminarViscosity s"
  "laminarThermalConductivity (SetTDState_T_thermo base s T vs) = laminarThermalConductivity s"
  "LaminarViscosityPointers (SetTDState_T_thermo base s T vs) = LaminarViscosityPointers s"
  "ThermalConductivityPointers (SetTDState_T_thermo base s T vs) = ThermalConductivityPointers s"
  by (simp_all add: SetTDState_T_thermo_def Let_def ComputeGasConstant_snd
        MassToMoleFractions_calls_irrelevant)
     (simp_all add: MassToMoleFractions_def Let_def split: prod.splits)

lemma DavidsonViscosity_laminarViscosity:
  assumes "n_species_mixture s \<le> length (laminarViscosity s)" "i < n_species_mixture s"
  shows "laminarViscosity (snd (DavidsonViscosity s vs)) ! i =
         LaminarViscosityPointers s i (Temperature s) (Density s)"
  using assms by (simp add: DavidsonViscosity_def Let_def fold_update_nth)

lemma SetTDState_T_viscosity_arrays:
  "n_species_mixture (SetTDState_T_viscosity t vs) = n_species_mixture t"
  "molarMasses (SetTDState_T_viscosity t vs) = molarMasses t"
  "moleFractions (SetTDState_T_viscosity t vs) = moleFractions t"
  "laminarThermalConductivity (SetTDState_T_viscosity t vs) = laminarThermalConductivity t"
  "ThermalConductivityPointers (SetTDState_T_viscosity t vs) = ThermalConductivityPointers t"
  "Temperature (SetTDState_T_viscosity t vs) = Temperature t"
  "Density (SetTDState_T_viscosity t vs) = Density t"
  "Gas_Constant (SetTDState_T_viscosity t vs) = Gas_Constant t"
  "Cp (SetTDState_T_viscosity t vs) = Cp t"
  "Cv (SetTDState_T_viscosity t vs) = Cv t"
  by (simp_all add: SetTDState_T_viscosity_def WilkeViscosity_def DavidsonViscosity_def Let_def)

lemma SetTDState_T_viscosity_laminarViscosity:
  assumes "n_species_mixture t \<le> length (laminarViscosity t)" "i < n_species_mixture t"
  shows "laminarViscosity (SetTDState_T_viscosity t vs) ! i =
         (if wilke t \<or> davidson t
          then LaminarViscosityPointers t i (Temperature t) (Density t)
          else laminarViscosity t ! i)"
  using assms
  by (simp add: SetTDState_T_viscosity_def WilkeViscosity_laminarViscosity
        DavidsonViscosity_laminarViscosity split: prod.splits)
     (auto simp: WilkeViscosity_def DavidsonViscosity_def Let_def fold_update_nth)

lemma SetTDState_T_thermo_closed:
  assumes n: "n = n_species_mixture s" and M: "M = (\<lambda>i. molarMasses s ! i)"
    and Y: "Y = (\<lambda>i. if i < n - 1 then vs ! i else 1 - (\<Sum>j<n - 1. vs ! j))"
    and X: "X = (\<lambda>i. (Y i / M i) / (\<Sum>j<n. Y j / M j))"
    and R: "R = UNIVERSAL_GAS_CONSTANT base / (GasConstant_Ref s * (\<Sum>i<n. X i * M i / 1000))"
    and wf: "1 \<le> n_species_mixture s" "n_species_mixture s \<le> length (massFractions s)"
      "n_species_mixture s \<le> length (moleFractions s)"
  shows "\<forall>i<n. massFractions (SetTDState_T_thermo base s T vs) ! i = Y i"
    and "\<forall>i<n. moleFractions (SetTDState_T_thermo base s T vs) ! i = X i"
    and "Gas_Constant (SetTDState_T_thermo base s T vs) = R"
    and "Density (SetTDState_T_thermo base s T vs) = Pressure_Thermodynamic s / (T * R)"
    and "Cp (SetTDState_T_thermo base s T vs) = (\<Sum>i<n. specificHeat s ! i * Y i)"
    and "Cv (SetTDState_T_thermo base s T vs) = (\<Sum>i<n. specificHeat s ! i * Y i) - R"
proof -
  show y: "\<forall>i<n. massFractions (SetTDState_T_thermo base s T vs) ! i = Y i"
    unfolding n Y using wf
    by (intro allI impI)
       (simp only: SetTDState_T_thermo_arrays MassToMoleFractions_massFractions_nth)
  show x: "\<forall>i<n. moleFractions (SetTDState_T_thermo base s T vs) ! i = X i"
    unfolding n Y X M using wf
    by (intro allI impI)
       (simp only: SetTDState_T_thermo_arrays MassToMoleFractions_moleFractions_nth Let_def)
  have "fst (ComputeGasConstant base (MassToMoleFractions s vs)) =
        UNIVERSAL_GAS_CONSTANT base /
          (GasConstant_Ref s * (\<Sum>i<n. moleFractions (MassToMoleFractions s vs) ! i * M i / 1000))"
    by (simp add: ComputeGasConstant_closed MassToMoleFractions_frame MassToMoleFractions_frame_more n M)
  also have "(\<Sum>i<n. moleFractions (MassToMoleFractions s vs) ! i * M i / 1000) =
             (\<Sum>i<n. X i * M i / 1000)"
    using x by (intro sum.cong refl) (simp add: SetTDState_T_thermo_arrays)
  finally have r: "fst (ComputeGasConstant base (MassToMoleFractions s vs)) = R"
    by (simp add: R)
  show "Gas_Constant (SetTDState_T_thermo base s T vs) = R"
    by (simp add: SetTDState_T_thermo_fields r)
  show "Density (SetTDState_T_thermo base s T vs) = Pressure_Thermodynamic s / (T * R)"
    by (simp add: SetTDState_T_thermo_fields r)
  have "ComputeMeanSpecificHeatCp (MassToMoleFractions s vs) vs =
        (\<Sum>i<n. specificHeat s ! i * massFractions (MassToMoleFractions s vs) ! i)"
    by (simp add: ComputeMeanSpecificHeatCp_closed MassToMoleFractions_frame
          MassToMoleFractions_frame_more n)
  also have "\<dots> = (\<Sum>i<n. specificHeat s ! i * Y i)"
    using y by (intro sum.cong refl) (simp add: SetTDState_T_thermo_arrays)
  finally have c: "ComputeMeanSpecificHeatCp (MassToMoleFractions s vs) vs =
                   (\<Sum>i<n. specificHeat s ! i * Y i)" .
  show "Cp (SetTDState_T_thermo base s T vs) = (\<Sum>i<n. specificHeat s ! i * Y i)"
    by (simp add: SetTDState_T_thermo_fields c)
  show "Cv (SetTDState_T_thermo base s T vs) = (\<Sum>i<n. specificHeat s ! i * Y i) - R"
    by (simp add: SetTDState_T_thermo_fields c r)
qed

lemma WilkeViscosity_closed_funs:
  assumes "n = n_species_mixture t" "n \<le> length (laminarViscosity t)"
    and "\<forall>i<n. molarMasses t ! i = M i" "\<forall>i<n. moleFractions t ! i = X i"
    and "\<forall>i<n. LaminarViscosityPointers t i (Temperature t) (Density t) = mu i"
  shows "fst (WilkeViscosity t vs) =
         (\<Sum>i<n. (X i * mu i) /
            (\<Sum>j<n. X j * (if j \<noteq> i
                            then (1 + sqrt (mu i / mu j) * (M j / M i) powr (1 / 4)) ^ 2 /
                                 sqrt (8 * (1 + M i / M j))
                            else 1)))"
  unfolding WilkeViscosity_closed [OF assms(2) [unfolded assms(1)]] Let_def assms(1) [symmetric]
  using assms(3-)
  by (intro sum.cong refl arg_cong2 [where f = "(/)"]) (simp_all cong: if_cong)

lemma WilkeConductivity_closed_funs:
  assumes "n = n_species_mixture t" "n \<le> length (laminarThermalConductivity t)"
    and "\<forall>i<n. molarMasses t ! i = M i" "\<forall>i<n. moleFractions t ! i = X i"
    and "\<forall>i<n. laminarViscosity t ! i = mu i"
    and "\<forall>i<n. ThermalConductivityPointers t i (Temperature t) (Density t) (Mu t) 0 0 0 0 = k i"
  shows "fst (WilkeConductivity t vs) =
         (\<Sum>i<n. (X i * k i) /
            (\<Sum>j<n. X j * (if j \<noteq> i
                            then (1 + sqrt (mu i / mu j) * (M j / M i) powr (1 / 4)) ^ 2 /
                                 sqrt (8 * (1 + M i / M j))
                            else 1)))"
  unfolding WilkeConductivity_closed [OF assms(2) [unfolded assms(1)]] Let_def assms(1) [symmetric]
  using assms(3-)
  by (intro sum.cong refl arg_cong2 [where f = "(/)"]) (simp_all cong: if_cong)

lemma DavidsonViscosity_closed_funs:
  assumes "n = n_species_mixture t" "n \<le> length (laminarViscosity t)"
    and "\<forall>i<n. molarMasses t ! i = M i" "\<forall>i<n. moleFractions t ! i = X i"
    and "\<forall>i<n. LaminarViscosityPointers t i (Temperature t) (Density t) = mu i"
  shows "fst (DavidsonViscosity t vs) =
         1 / (\<Sum>i<n. \<Sum>j<n.
                ((X i * sqrt (M i) / (\<Sum>l<n. X l * sqrt (M l)) *
                  (X j * sqrt (M j) / (\<Sum>l<n. X l * sqrt (M l)))) /
                 (sqrt (mu i) * sqrt (mu j))) *
                ((2 * sqrt (M i) * sqrt (M j)) / (M i + M j)) powr 0.375)"
proof -
  have S: "(\<Sum>l<n. moleFractions t ! l * sqrt (molarMasses t ! l)) = (\<Sum>l<n. X l * sqrt (M l))"
    using assms(3,4) by (intro sum.cong refl) simp
  show ?thesis
    unfolding DavidsonViscosity_closed [OF assms(2) [unfolded assms(1)]] Let_def
      assms(1) [symmetric] S
    using assms(3-)
    by (intro sum.cong refl arg_cong2 [where f = "(/)"]) simp_all
qed

lemma SetTDState_T_mixing_rule_closed:
  assumes n: "n = n_species_mixture s" and M: "M = (\<lambda>i. molarMasses s ! i)"
    and Y: "Y = (\<lambda>i. if i < n - 1 then vs ! i else 1 - (\<Sum>j<n - 1. vs ! j))"
    and X: "X = (\<lambda>i. (Y i / M i) / (\<Sum>j<n. Y j / M j))"
    and R: "R = UNIVERSAL_GAS_CONSTANT base / (GasConstant_Ref s * (\<Sum>i<n. X i * M i / 1000))"
    and rho: "rho = Pressure_Thermodynamic s / (T * R)"
    and mu: "mu = (\<lambda>i. LaminarViscosityPointers s i T rho)"
    and s': "s' = SetTDState_T base s T vs"
    and k: "k = (\<lambda>i. ThermalConductivityPointers s i T rho (Mu s') 0 0 0 0)"
    and lv: "lv = (\<lambda>i. if wilke s \<or> davidson s then mu i else laminarViscosity s ! i)"
    and wf: "1 \<le> n_species_mixture s" "n_species_mixture s \<le> length (massFractions s)"
      "n_species_mixture s \<le> length (moleFractions s)"
      "n_species_mixture s \<le> length (laminarViscosity s)"
      "n_species_mixture s \<le> length (laminarThermalConductivity s)"
  shows "wilke s \<Longrightarrow> Mu s' =
           (\<Sum>i<n. (X i * mu i) /
              (\<Sum>j<n. X j * (if j \<noteq> i
                              then (1 + sqrt (mu i / mu j) * (M j / M i) powr (1 / 4)) ^ 2 /
                                   sqrt (8 * (1 + M i / M j))
                              else 1)))"
    and "\<not> wilke s \<Longrightarrow> davidson s \<Longrightarrow> Mu s' =
           1 / (\<Sum>i<n. \<Sum>j<n.
                  ((X i * sqrt (M i) / (\<Sum>l<n. X l * sqrt (M l)) *
                    (X j * sqrt (M j) / (\<Sum>l<n. X l * sqrt (M l)))) /
                   (sqrt (mu i) * sqrt (mu j))) *
                  ((2 * sqrt (M i) * sqrt (M j)) / (M i + M j)) powr 0.375)"
    and "\<not> wilke s \<Longrightarrow> \<not> davidson s \<Longrightarrow> Mu s' = Mu s"
    and "Kt s' =
           (\<Sum>i<n. (X i * k i) /
              (\<Sum>j<n. X j * (if j \<noteq> i
                              then (1 + sqrt (lv i / lv j) * (M j / M i) powr (1 / 4)) ^ 2 /
                                   sqrt (8 * (1 + M i / M j))
                              else 1)))"
proof -
  let ?s6 = "SetTDState_T_thermo base s T vs"
  let ?s7 = "SetTDState_T_viscosity ?s6 vs"
  note th = SetTDState_T_thermo_closed [OF n M Y X R wf(1-3), of T]
  have n6: "n = n_species_mixture ?s6" by (simp add: n SetTDState_T_thermo_fields)
  have l6: "n \<le> length (laminarViscosity ?s6)"
    using wf(4) by (simp add: n SetTDState_T_thermo_arrays)
  have M6: "\<forall>i<n. molarMasses ?s6 ! i = M i" by (simp add: M SetTDState_T_thermo_arrays)
  have X6: "\<forall>i<n. moleFractions ?s6 ! i = X i" by (rule th(2))
  have r: "fst (ComputeGasConstant base (MassToMoleFractions s vs)) = R"
    using th(3) by (simp add: SetTDState_T_thermo_fields)
  have mu6: "\<forall>i<n. LaminarViscosityPointers ?s6 i (Temperature ?s6) (Density ?s6) = mu i"
    by (simp add: mu rho r SetTDState_T_thermo_arrays SetTDState_T_thermo_fields)
  have Mu': "Mu s' = Mu ?s7" by (simp add: s' SetTDState_T_Mu)
  show "wilke s \<Longrightarrow> Mu s' =
           (\<Sum>i<n. (X i * mu i) /
              (\<Sum>j<n. X j * (if j \<noteq> i
                              then (1 + sqrt (mu i / mu j) * (M j / M i) powr (1 / 4)) ^ 2 /
                                   sqrt (8 * (1 + M i / M j))
                              else 1)))"
    using WilkeViscosity_closed_funs [OF n6 l6 M6 X6 mu6, of vs]
    by (simp add: Mu' SetTDState_T_viscosity_Mu SetTDState_T_thermo_fields)
  show "\<not> wilke s \<Longrightarrow> davidson s \<Longrightarrow> Mu s' =
           1 / (\<Sum>i<n. \<Sum>j<n.
                  ((X i * sqrt (M i) / (\<Sum>l<n. X l * sqrt (M l)) *
                    (X j * sqrt (M j) / (\<Sum>l<n. X l * sqrt (M l)))) /
                   (sqrt (mu i) * sqrt (mu j))) *
                  ((2 * sqrt (M i) * sqrt (M j)) / (M i + M j)) powr 0.375)"
    using DavidsonViscosity_closed_funs [OF n6 l6 M6 X6 mu6, of vs]
    by (simp add: Mu' SetTDState_T_viscosity_Mu SetTDState_T_thermo_fields)
  show "\<not> wilke s \<Longrightarrow> \<not> davidson s \<Longrightarrow> Mu s' = Mu s"
    by (simp add: Mu' SetTDState_T_viscosity_Mu SetTDState_T_thermo_fields)
  have n7: "n = n_species_mixture ?s7"
    by (simp add: n SetTDState_T_viscosity_arrays SetTDState_T_thermo_fields)
  have l7: "n \<le> length (laminarThermalConductivity ?s7)"
    using wf(5) by (simp add: n SetTDState_T_viscosity_arrays SetTDState_T_thermo_arrays)
  have M7: "\<forall>i<n. molarMasses ?s7 ! i = M i"
    by (simp add: M SetTDState_T_viscosity_arrays SetTDState_T_thermo_arrays)
  have X7: "\<forall>i<n. moleFractions ?s7 ! i = X i"
    using X6 by (simp add: SetTDState_T_viscosity_arrays)
  have lv7: "\<forall>i<n. laminarViscosity ?s7 ! i = lv i"
  proof (intro allI impI)
    fix i assume i: "i < n"
    then have "laminarViscosity ?s7 ! i =
         (if wilke ?s6 \<or> davidson ?s6
          then LaminarViscosityPointers ?s6 i (Temperature ?s6) (Density ?s6)
          else laminarViscosity ?s6 ! i)"
      using l6 n6 by (intro SetTDState_T_viscosity_laminarViscosity) simp_all
    then show "laminarViscosity ?s7 ! i = lv i"
      using mu6 i by (simp add: lv SetTDState_T_thermo_fields SetTDState_T_thermo_arrays)
  qed
  have k7: "\<forall>i<n. ThermalConductivityPointers ?s7 i (Temperature ?s7) (Density ?s7) (Mu ?s7)
                      0 0 0 0 = k i"
    by (simp add: k rho r Mu' SetTDState_T_viscosity_arrays SetTDState_T_thermo_arrays
          SetTDState_T_thermo_fields)
  show "Kt s' =
           (\<Sum>i<n. (X i * k i) /
              (\<Sum>j<n. X j * (if j \<noteq> i
                              then (1 + sqrt (lv i / lv j) * (M j / M i) powr (1 / 4)) ^ 2 /
                                   sqrt (8 * (1 + M i / M j))
                              else 1)))"
    using WilkeConductivity_closed_funs [OF n7 l7 M7 X7 lv7 k7, of vs]
    by (simp add: s' SetTDState_T_Kt)
qed

lemma SetTDState_T_state_closed:
  assumes n: "n = n_species_mixture s" and M: "M = (\<lambda>i. molarMasses s ! i)"
    and Y: "Y = (\<lambda>i. if i < n - 1 then vs ! i else 1 - (\<Sum>j<n - 1. vs ! j))"
    and X: "X = (\<lambda>i. (Y i / M i) / (\<Sum>j<n. Y j / M j))"
    and R: "R = UNIVERSAL_GAS_CONSTANT base / (GasConstant_Ref s * (\<Sum>i<n. X i * M i / 1000))"
    and s': "s' = SetTDState_T base s T vs"
    and wf: "1 \<le> n_species_mixture s" "n_species_mixture s \<le> length (massFractions s)"
      "n_species_mixture s \<le> length (moleFractions s)"
  shows "Temperature s' = T" 
    and "Gas_Constant s' = R"
    and "Density s' = Pressure_Thermodynamic s / (T * R)"
    and "Cp s' = (\<Sum>i<n. specificHeat s ! i * Y i)"
    and "Cv s' = (\<Sum>i<n. specificHeat s ! i * Y i) - R"
  using SetTDState_T_thermo_closed [OF n M Y X R wf, of T]
  by (simp_all add: s' SetTDState_T_frames SetTDState_T_viscosity_arrays)

lemma SetTDState_T_massDiffusivity:
  assumes "n_species_mixture s \<le> length (massDiffusivity s)" "i < n_species_mixture s"
  shows "massDiffusivity (SetTDState_T base s T vs) ! i =
         MassDiffusivityPointers s i (Density (SetTDState_T base s T vs))
           (Mu (SetTDState_T base s T vs)) (Cp (SetTDState_T base s T vs))
           (Kt (SetTDState_T base s T vs))"
proof -
  let ?s7 = "SetTDState_T_viscosity (SetTDState_T_thermo base s T vs) vs"
  let ?s8 = "(snd (WilkeConductivity ?s7 vs))\<lparr>Kt := fst (WilkeConductivity ?s7 vs)\<rparr>"
  have e: "SetTDState_T base s T vs = ComputeMassDiffusivity ?s8"
    by (simp add: SetTDState_T_final Let_def)
  have f: "n_species_mixture ?s8 = n_species_mixture s"
    "massDiffusivity ?s8 = massDiffusivity s"
    "MassDiffusivityPointers ?s8 = MassDiffusivityPointers s"
    by (simp_all add: WilkeConductivity_frame SetTDState_T_viscosity_arrays
          SetTDState_T_thermo_fields SetTDState_T_viscosity_def WilkeViscosity_def
          DavidsonViscosity_def Let_def)
  have "massDiffusivity (ComputeMassDiffusivity ?s8) ! i =
        MassDiffusivityPointers ?s8 i (Density ?s8) (Mu ?s8) (Cp ?s8) (Kt ?s8)"
    using assms by (intro ComputeMassDiffusivity_nth) (simp_all add: f)
  then show ?thesis
    unfolding e by (simp add: f(3) ComputeMassDiffusivity_frame)
qed

text \<open>
  Claim C2, as amended. Every call of \<^verbatim>\<open>SetTDState_T\<close> makes one call of the
  backend's \<^verbatim>\<open>setState_TPX\<close>. The pressure handed over is the operating thermodynamic
  pressure of the object, which the call leaves as it is, and the composition handed over
  is the string "H2O:1.0, H2:8.0, AR:1.0", whatever the scalars are. Nothing is stated
  about the temperature handed over.
\<close>

theorem SetTDState_T_backend_state:
  "map snd (setState_TPX_calls (SetTDState_T base s val_temperature val_scalars)) =
     (Pressure_Thermodynamic s, ''H2O:1.0, H2:8.0, AR:1.0'') # map snd (setState_TPX_calls s) \<and>
   Pressure_Thermodynamic (SetTDState_T base s val_temperature val_scalars) =
     Pressure_Thermodynamic s"
  by (simp add: SetTDState_T_backend_call SetTDState_T_frames)

text \<open>
  The claim as it was stated fails: an object whose stored temperature is 300 is given the
  temperature argument 500, and the backend receives 300; given the scalars \<open>[1/4]\<close>
  or \<open>[1/2]\<close>, the backend receives the same composition.
\<close>

theorem SetTDState_T_backend_state_counterexample:
  "setState_TPX_calls (SetTDState_T (example_base 3) (example_fluid True False [2, 4, 0]) 500 [1 / 4])
     = [(300, 100, ''H2O:1.0, H2:8.0, AR:1.0'')] \<and>
   setState_TPX_calls (SetTDState_T (example_base 3) (example_fluid True False [2, 4, 0]) 500 [1 / 2])
     = [(300, 100, ''H2O:1.0, H2:8.0, AR:1.0'')] \<and>
   fst (hd (setState_TPX_calls
             (SetTDState_T (example_base 3) (example_fluid True False [2, 4, 0]) 500 [1 / 4])))
     \<noteq> 500"
  by (simp add: SetTDState_T_backend_call example_fluid_def)

text \<open>
  Claim C3. \<open>kind\<close> is the configured mixing viscosity model: the constructor sets the
  flag \<^verbatim>\<open>wilke\<close> to \<open>kind = WILKE\<close> and the flag \<^verbatim>\<open>davidson\<close> to
  \<open>kind = DAVIDSON\<close> (\<open>CFluidCantera_ctor_succeeds\<close>), and \<^verbatim>\<open>SetTDState_T\<close> keeps
  both (\<open>SetTDState_T_flags\<close>). The statement gives the new \<^verbatim>\<open>Mu\<close> and \<^verbatim>\<open>Kt\<close> in
  closed form, from the arguments and the object before the call: \<open>Y\<close> are the new mass
  fractions, \<open>X\<close> the new mole fractions, \<open>R\<close> the new gas constant, \<open>rho\<close> the new
  density and \<open>mu i\<close> the viscosity of species \<open>i\<close> at the new temperature and
  density.

  When the model is \<open>WILKE\<close>, \<^verbatim>\<open>Mu\<close> is the Wilke average: the sum over the species
  of \<open>X i * mu i\<close> over the sum of \<open>X j * phi i j\<close>, with
  \<open>phi i j = (1 + sqrt (mu i / mu j) * (M j / M i) powr (1/4))\<^sup>2 / sqrt (8 * (1 + M i / M j))\<close>
  and \<open>phi i i\<close> replaced by 1. When it is \<open>DAVIDSON\<close>, \<^verbatim>\<open>Mu\<close> is the inverse of
  the Davidson fluidity: the double sum of \<open>f i * f j / (sqrt (mu i) * sqrt (mu j))\<close>
  times \<open>(2 * sqrt (M i) * sqrt (M j) / (M i + M j)) powr 0.375\<close>, where \<open>f\<close> are the
  mole fractions weighted by the square roots of the molar masses and normalised. On
  every call \<^verbatim>\<open>Kt\<close> is the Wilke average of the species conductivities \<open>k i\<close>
  (taken at the new \<^verbatim>\<open>Mu\<close>), with \<open>phi\<close> computed from the viscosities in
  \<^verbatim>\<open>laminarViscosity\<close>: the \<open>mu i\<close> when the model is \<open>WILKE\<close> or \<open>DAVIDSON\<close>,
  and the entries the array had before the call otherwise.
\<close>

theorem SetTDState_T_mixing_rule:
  assumes flags: "wilke s = (kind = WILKE)" "davidson s = (kind = DAVIDSON)"
    and wf: "1 \<le> n_species_mixture s"
      "n_species_mixture s \<le> length (massFractions s)"
      "n_species_mixture s \<le> length (moleFractions s)"
      "n_species_mixture s \<le> length (laminarViscosity s)"
      "n_species_mixture s \<le> length (laminarThermalConductivity s)"
  shows
    "let n = n_species_mixture s;
         M = (\<lambda>i. molarMasses s ! i);
         Y = (\<lambda>i. if i < n - 1 then val_scalars ! i else 1 - (\<Sum>j<n - 1. val_scalars ! j));
         X = (\<lambda>i. (Y i / M i) / (\<Sum>j<n. Y j / M j));
         R = UNIVERSAL_GAS_CONSTANT base / (GasConstant_Ref s * (\<Sum>i<n. X i * M i / 1000));
         rho = Pressure_Thermodynamic s / (val_temperature * R);
         mu = (\<lambda>i. LaminarViscosityPointers s i val_temperature rho);
         s' = SetTDState_T base s val_temperature val_scalars;
         k = (\<lambda>i. ThermalConductivityPointers s i val_temperature rho (Mu s') 0 0 0 0);
         lv = (\<lambda>i. if kind = WILKE \<or> kind = DAVIDSON then mu i else laminarViscosity s ! i)
     in (kind = WILKE \<longrightarrow>
           Mu s' =
             (\<Sum>i<n. (X i * mu i) /
                (\<Sum>j<n. X j * (if j \<noteq> i
                                then (1 + sqrt (mu i / mu j) * (M j / M i) powr (1 / 4)) ^ 2 /
                                     sqrt (8 * (1 + M i / M j))
                                else 1)))) \<and>
        (kind = DAVIDSON \<longrightarrow>
           Mu s' =
             1 / (\<Sum>i<n. \<Sum>j<n.
                    ((X i * sqrt (M i) / (\<Sum>l<n. X l * sqrt (M l)) *
                      (X j * sqrt (M j) / (\<Sum>l<n. X l * sqrt (M l)))) /
                     (sqrt (mu i) * sqrt (mu j))) *
                    ((2 * sqrt (M i) * sqrt (M j)) / (M i + M j)) powr 0.375)) \<and>
        Kt s' =
          (\<Sum>i<n. (X i * k i) /
             (\<Sum>j<n. X j * (if j \<noteq> i
                             then (1 + sqrt (lv i / lv j) * (M j / M i) powr (1 / 4)) ^ 2 /
                                  sqrt (8 * (1 + M i / M j))
                             else 1)))"
proof -
  have lv: "(\<lambda>i. if kind = WILKE \<or> kind = DAVIDSON then f i else g i) =
            (\<lambda>i. if wilke s \<or> davidson s then f i else g i)" for f g :: "nat \<Rightarrow> real"
    by (simp add: flags)
  note C = SetTDState_T_mixing_rule_closed [OF refl refl refl refl refl refl refl refl refl refl wf]
  show ?thesis
    unfolding Let_def lv
    using C(1) [where vs = val_scalars and base = base and T = val_temperature] C(2) [where vs = val_scalars and base = base and T = val_temperature]
      C(4) [where vs = val_scalars and base = base and T = val_temperature] flags
    by (cases kind) simp_all
qed

text \<open>
  The theorem for two species of molar mass 2 whose viscosity models yield 3 and whose
  conductivity models yield 5, once with the Wilke and once with the Davidson rule: both
  rules give the viscosity 3, and the conductivity is 5.
\<close>

theorem SetTDState_T_mixing_rule_witness:
  "Mu (SetTDState_T (example_base 3) (example_fluid True False [2, 2, 0]) 500 [1 / 4]) = 3 \<and>
   Kt (SetTDState_T (example_base 3) (example_fluid True False [2, 2, 0]) 500 [1 / 4]) = 5 \<and>
   Mu (SetTDState_T (example_base 3) (example_fluid False True [2, 2, 0]) 500 [1 / 4]) = 3 \<and>
   Kt (SetTDState_T (example_base 3) (example_fluid False True [2, 2, 0]) 500 [1 / 4]) = 5"
proof -
  have ex: "n_species_mixture (example_fluid w d M) = 2"
    "molarMasses (example_fluid w d M) = M"
    "wilke (example_fluid w d M) = w" "davidson (example_fluid w d M) = d"
    "massFractions (example_fluid w d M) = [0, 0, 0]"
    "moleFractions (example_fluid w d M) = [1 / 4, 3 / 4, 0]"
    "laminarViscosity (example_fluid w d M) = [0, 0, 0]"
    "laminarThermalConductivity (example_fluid w d M) = [0, 0, 0]"
    "LaminarViscosityPointers (example_fluid w d M) = (\<lambda>iVar T rho. 3)"
    "ThermalConductivityPointers (example_fluid w d M) = (\<lambda>iVar T rho mu_lam mu_turb cp a b. 5)"
    for w d M
    by (simp_all add: example_fluid_def)
  note W = SetTDState_T_mixing_rule [where s = "example_fluid True False [2, 2, 0]"
      and kind = WILKE and base = "example_base 3" and val_temperature = 500
      and val_scalars = "[1 / 4]", unfolded Let_def ex]
  note D = SetTDState_T_mixing_rule [where s = "example_fluid False True [2, 2, 0]"
      and kind = DAVIDSON and base = "example_base 3" and val_temperature = 500
      and val_scalars = "[1 / 4]", unfolded Let_def ex]
  have w: "Mu (SetTDState_T (example_base 3) (example_fluid True False [2, 2, 0]) 500 [1 / 4]) = 3 \<and>
   Kt (SetTDState_T (example_base 3) (example_fluid True False [2, 2, 0]) 500 [1 / 4]) = 5"
    using W by (simp add: sum_upto_2 sqrt_16)
  have d: "Mu (SetTDState_T (example_base 3) (example_fluid False True [2, 2, 0]) 500 [1 / 4]) = 3 \<and>
   Kt (SetTDState_T (example_base 3) (example_fluid False True [2, 2, 0]) 500 [1 / 4]) = 5"
    using D by (simp add: sum_upto_2 sqrt_16 field_simps)
  from w d show ?thesis by simp
qed

text \<open>
  Claim C10. When neither flag is set, \<^verbatim>\<open>SetTDState_T\<close> leaves \<^verbatim>\<open>Mu\<close> as it was and
  still assigns, in closed form from the arguments and the object before the call: the
  temperature argument to \<^verbatim>\<open>Temperature\<close>; the gas constant \<open>R\<close> of the new mole
  fractions \<open>X\<close>; the density \<open>rho\<close>, pressure over temperature times \<open>R\<close>; to
  \<^verbatim>\<open>Cp\<close> the sum of the specific heats weighted by the new mass fractions \<open>Y\<close>; to
  \<^verbatim>\<open>Cv\<close> that sum minus \<open>R\<close>; to \<^verbatim>\<open>Kt\<close> the Wilke average of the species
  conductivities, with \<open>phi\<close> computed from the entries of \<^verbatim>\<open>laminarViscosity\<close>,
  which nothing has written in this call; and to the mass diffusivity of every species the
  value its model gives for the new density, the old \<^verbatim>\<open>Mu\<close>, the new \<^verbatim>\<open>Cp\<close> and the
  new \<^verbatim>\<open>Kt\<close>.
\<close>

theorem SetTDState_T_no_mixing_rule:
  assumes flags: "\<not> wilke s" "\<not> davidson s"
    and wf: "1 \<le> n_species_mixture s"
      "n_species_mixture s \<le> length (massFractions s)"
      "n_species_mixture s \<le> length (moleFractions s)"
      "n_species_mixture s \<le> length (laminarViscosity s)"
      "n_species_mixture s \<le> length (laminarThermalConductivity s)"
    and wfd: "n_species_mixture s \<le> length (massDiffusivity s)"
  shows
    "let n = n_species_mixture s;
         M = (\<lambda>i. molarMasses s ! i);
         Y = (\<lambda>i. if i < n - 1 then val_scalars ! i else 1 - (\<Sum>j<n - 1. val_scalars ! j));
         X = (\<lambda>i. (Y i / M i) / (\<Sum>j<n. Y j / M j));
         R = UNIVERSAL_GAS_CONSTANT base / (GasConstant_Ref s * (\<Sum>i<n. X i * M i / 1000));
         rho = Pressure_Thermodynamic s / (val_temperature * R);
         cp = (\<Sum>i<n. specificHeat s ! i * Y i);
         k = (\<lambda>i. ThermalConductivityPointers s i val_temperature rho (Mu s) 0 0 0 0);
         lv = (\<lambda>i. laminarViscosity s ! i);
         kt = (\<Sum>i<n. (X i * k i) /
                 (\<Sum>j<n. X j * (if j \<noteq> i
                                 then (1 + sqrt (lv i / lv j) * (M j / M i) powr (1 / 4)) ^ 2 /
                                      sqrt (8 * (1 + M i / M j))
                                 else 1)));
         s' = SetTDState_T base s val_temperature val_scalars
     in Mu s' = Mu s \<and>
        Temperature s' = val_temperature \<and>
        Gas_Constant s' = R \<and>
        Density s' = rho \<and>
        Cp s' = cp \<and>
        Cv s' = cp - R \<and>
        Kt s' = kt \<and>
        (\<forall>iVar < n. massDiffusivity s' ! iVar =
                       MassDiffusivityPointers s iVar rho (Mu s) cp kt)"
proof -
  note C = SetTDState_T_mixing_rule_closed [OF refl refl refl refl refl refl refl refl refl refl wf]
  note D = SetTDState_T_state_closed [OF refl refl refl refl refl refl wf(1-3)]
  have mu: "Mu (SetTDState_T base s val_temperature val_scalars) = Mu s"
    using C(3) [where vs = val_scalars and base = base and T = val_temperature] flags by simp
  have nf: "(wilke s \<or> davidson s) = False" using flags by simp
  note kt = C(4) [where vs = val_scalars and base = base and T = val_temperature,
      unfolded mu nf if_False]
  note d = D [where vs = val_scalars and base = base and T = val_temperature]
  have md: "\<forall>iVar < n_species_mixture s.
         massDiffusivity (SetTDState_T base s val_temperature val_scalars) ! iVar =
         MassDiffusivityPointers s iVar (Density (SetTDState_T base s val_temperature val_scalars))
           (Mu s) (Cp (SetTDState_T base s val_temperature val_scalars))
           (Kt (SetTDState_T base s val_temperature val_scalars))"
    using SetTDState_T_massDiffusivity [OF wfd, where base = base and T = val_temperature
        and vs = val_scalars]
    by (simp only: mu) blast
  show ?thesis
    unfolding Let_def
    using md unfolding kt d(3) d(4)
    using mu kt d by blast
qed

text \<open>
  The theorem for two species of molar mass 2 with the mass fractions 1/4 and 3/4, the
  specific heats 1 and 3 and the stored viscosities 3 and 3, at the temperature 500 and
  the pressure 100.
\<close>

theorem SetTDState_T_no_mixing_rule_witness:
  "Mu (SetTDState_T (example_base 3)
         ((example_fluid False False [2, 2, 0])\<lparr>laminarViscosity := [3, 3, 0]\<rparr>) 500 [1 / 4]) = 1 \<and>
   Temperature (SetTDState_T (example_base 3)
         ((example_fluid False False [2, 2, 0])\<lparr>laminarViscosity := [3, 3, 0]\<rparr>) 500 [1 / 4]) = 500 \<and>
   Gas_Constant (SetTDState_T (example_base 3)
         ((example_fluid False False [2, 2, 0])\<lparr>laminarViscosity := [3, 3, 0]\<rparr>) 500 [1 / 4]) = 4000 \<and>
   Density (SetTDState_T (example_base 3)
         ((example_fluid False False [2, 2, 0])\<lparr>laminarViscosity := [3, 3, 0]\<rparr>) 500 [1 / 4]) = 1 / 20000 \<and>
   Cp (SetTDState_T (example_base 3)
         ((example_fluid False False [2, 2, 0])\<lparr>laminarViscosity := [3, 3, 0]\<rparr>) 500 [1 / 4]) = 5 / 2 \<and>
   Cv (SetTDState_T (example_base 3)
         ((example_fluid False False [2, 2, 0])\<lparr>laminarViscosity := [3, 3, 0]\<rparr>) 500 [1 / 4]) = 5 / 2 - 4000 \<and>
   Kt (SetTDState_T (example_base 3)
         ((example_fluid False False [2, 2, 0])\<lparr>laminarViscosity := [3, 3, 0]\<rparr>) 500 [1 / 4]) = 5 \<and>
   massDiffusivity (SetTDState_T (example_base 3)
         ((example_fluid False False [2, 2, 0])\<lparr>laminarViscosity := [3, 3, 0]\<rparr>) 500 [1 / 4]) ! 0 = 7 \<and>
   massDiffusivity (SetTDState_T (example_base 3)
         ((example_fluid False False [2, 2, 0])\<lparr>laminarViscosity := [3, 3, 0]\<rparr>) 500 [1 / 4]) ! 1 = 7"
proof -
  let ?s = "(example_fluid False False [2, 2, 0])\<lparr>laminarViscosity := [3, 3, 0]\<rparr>"
  have ex: "n_species_mixture ?s = 2" "molarMasses ?s = [2, 2, 0]"
    "wilke ?s = False" "davidson ?s = False"
    "massFractions ?s = [0, 0, 0]" "moleFractions ?s = [1 / 4, 3 / 4, 0]"
    "laminarViscosity ?s = [3, 3, 0]" "laminarThermalConductivity ?s = [0, 0, 0]"
    "massDiffusivity ?s = [0, 0, 0]" "specificHeat ?s = [1, 3, 0]"
    "Mu ?s = 1" "Pressure_Thermodynamic ?s = 100" "GasConstant_Ref ?s = 1"
    "ThermalConductivityPointers ?s = (\<lambda>iVar T rho mu_lam mu_turb cp a b. 5)"
    "MassDiffusivityPointers ?s = (\<lambda>iVar rho mu_lam cp kt. 7)"
    "UNIVERSAL_GAS_CONSTANT (example_base 3) = 8"
    by (simp_all add: example_fluid_def example_base_def)
  note T = SetTDState_T_no_mixing_rule [where s = ?s and base = "example_base 3"
      and val_temperature = 500 and val_scalars = "[1 / 4]", unfolded Let_def ex]
  have "Mu (SetTDState_T (example_base 3) ?s 500 [1 / 4]) = 1 \<and>
    Temperature (SetTDState_T (example_base 3) ?s 500 [1 / 4]) = 500 \<and>
    Gas_Constant (SetTDState_T (example_base 3) ?s 500 [1 / 4]) = 4000 \<and>
    Density (SetTDState_T (example_base 3) ?s 500 [1 / 4]) = 1 / 20000 \<and>
    Cp (SetTDState_T (example_base 3) ?s 500 [1 / 4]) = 5 / 2 \<and>
    Cv (SetTDState_T (example_base 3) ?s 500 [1 / 4]) = 5 / 2 - 4000 \<and>
    Kt (SetTDState_T (example_base 3) ?s 500 [1 / 4]) = 5 \<and>
    (\<forall>iVar<2. massDiffusivity (SetTDState_T (example_base 3) ?s 500 [1 / 4]) ! iVar = 7)"
    using T by (simp add: sum_upto_2 sqrt_16)
  then show ?thesis by simp
qed

section \<open>Failure modes of the fluid model\<close>

text \<open>
  The routines with every array access and every division written out are compared with
  the routines as embedded directly: a loop of the former either ends with the value of the
  latter or stops at an arithmetic operation without a finite value, provided the indices
  stay inside the arrays.
\<close>

lemma and_then_Inl: "and_then (Inl e) f = Inl e"
  by (simp add: and_then_def)

lemma and_then_Inr: "and_then (Inr a) f = f a"
  by (simp add: and_then_def)

lemma and_then_if: "and_then (if c then Inl e else Inr v) f = (if c then Inl e else f v)"
  by (simp add: and_then_def)

lemmas checked_simps =
  and_then_Inl and_then_Inr and_then_if checked_div_def checked_sqrt_def checked_pow_def

lemma and_then_agree:
  assumes "r = Inr a \<or> r = Inl NonFinite" and "f a = Inr b \<or> f a = Inl NonFinite"
  shows "and_then r f = Inr b \<or> and_then r f = Inl NonFinite"
  using assms by (auto simp: and_then_def)

lemma and_then_succeeds:
  assumes "r = Inr a" and "f a = Inr b"
  shows "and_then r f = Inr b"
  using assms by (simp add: and_then_def)

lemma read_at_in_range: "i < length xs \<Longrightarrow> read_at xs i = Inr (xs ! i)"
  by (simp add: read_at_def)

lemma write_at_in_range: "i < length xs \<Longrightarrow> write_at xs i v = Inr (xs[i := v])"
  by (simp add: write_at_def)

lemma for_each_agree:
  assumes "\<And>i a. i \<in> set js \<Longrightarrow> I a \<Longrightarrow> body i a = Inr (step i a) \<or> body i a = Inl NonFinite"
    and "\<And>i a. i \<in> set js \<Longrightarrow> I a \<Longrightarrow> I (step i a)"
    and "I a"
  shows "for_each js body a = Inr (fold step js a) \<or> for_each js body a = Inl NonFinite"
  using assms
proof (induction js arbitrary: a)
  case Nil
  then show ?case by simp
next
  case (Cons j js)
  from Cons.prems(1) [of j a] Cons.prems(3)
  consider "body j a = Inr (step j a)" | "body j a = Inl NonFinite" by auto
  then show ?case
  proof cases
    case 1
    have "for_each js body (step j a) = Inr (fold step js (step j a)) \<or>
          for_each js body (step j a) = Inl NonFinite"
      using Cons.prems by (intro Cons.IH) auto
    with 1 show ?thesis by (simp add: and_then_Inr)
  next
    case 2
    then show ?thesis by (simp add: and_then_Inl)
  qed
qed

lemma for_each_succeeds:
  assumes "\<And>i a. i \<in> set js \<Longrightarrow> I a \<Longrightarrow> body i a = Inr (step i a)"
    and "\<And>i a. i \<in> set js \<Longrightarrow> I a \<Longrightarrow> I (step i a)"
    and "I a"
  shows "for_each js body a = Inr (fold step js a)"
  using assms
proof (induction js arbitrary: a)
  case Nil
  then show ?case by simp
next
  case (Cons j js)
  have "for_each js body (step j a) = Inr (fold step js (step j a))"
    using Cons.prems by (intro Cons.IH) auto
  with Cons.prems(1) [of j a] Cons.prems(3) show ?case by (simp add: and_then_Inr)
qed

lemma fill_checked:
  assumes "n \<le> length xs"
  shows "for_each [0..<n] (\<lambda>i a. write_at a i (f i)) xs = Inr (fold (\<lambda>i a. a[i := f i]) [0..<n] xs)"
  using assms
  by (intro for_each_succeeds [where I = "\<lambda>a. length a = length xs"])
     (simp_all add: write_at_in_range)

lemma copy_scalars_checked:
  assumes "m \<le> length vs" "m \<le> length mf"
  shows "for_each [0..<m]
           (\<lambda>i_scalar (a, val_scalars_sum).
              and_then (read_at vs i_scalar) (\<lambda>v.
              and_then (write_at a i_scalar v) (\<lambda>a'.
              Inr (a', val_scalars_sum + v))))
           (mf, 0) = Inr (copy_scalars m vs mf)"
  unfolding copy_scalars_def
  using assms
  by (intro for_each_succeeds [where I = "\<lambda>(a, b). length a = length mf"])
     (auto simp: read_at_in_range write_at_in_range and_then_Inr)

lemma copy_scalars_length: "length (fst (copy_scalars m vs mf)) = length mf"
  by (simp add: copy_scalars_eq fold_update_length)

lemma mixtureMolarMass_checked:
  assumes "n \<le> length mf" "n \<le> length M"
  shows "for_each [0..<n]
           (\<lambda>iVar acc.
              and_then (read_at mf iVar) (\<lambda>y.
              and_then (read_at M iVar) (\<lambda>m.
              and_then (checked_div y m) (\<lambda>q.
              Inr (acc + q)))))
           0 = Inr (fold (\<lambda>iVar acc. acc + mf ! iVar / M ! iVar) [0..<n] 0) \<or>
         for_each [0..<n]
           (\<lambda>iVar acc.
              and_then (read_at mf iVar) (\<lambda>y.
              and_then (read_at M iVar) (\<lambda>m.
              and_then (checked_div y m) (\<lambda>q.
              Inr (acc + q)))))
           0 = Inl NonFinite"
  using assms
  by (intro for_each_agree [where I = "\<lambda>a. True"])
     (auto simp: read_at_in_range checked_simps)

lemma moleFractions_checked:
  assumes "n \<le> length mf" "n \<le> length M" "n \<le> length xf"
  shows "for_each [0..<n]
           (\<lambda>iVar a.
              and_then (read_at mf iVar) (\<lambda>y.
              and_then (read_at M iVar) (\<lambda>m.
              and_then (checked_div y m) (\<lambda>q.
              and_then (checked_div q mm) (\<lambda>x.
              write_at a iVar x)))))
           xf = Inr (fold (\<lambda>iVar a. a[iVar := (mf ! iVar / M ! iVar) / mm]) [0..<n] xf) \<or>
         for_each [0..<n]
           (\<lambda>iVar a.
              and_then (read_at mf iVar) (\<lambda>y.
              and_then (read_at M iVar) (\<lambda>m.
              and_then (checked_div y m) (\<lambda>q.
              and_then (checked_div q mm) (\<lambda>x.
              write_at a iVar x)))))
           xf = Inl NonFinite"
  using assms
  by (intro for_each_agree [where I = "\<lambda>a. length a = length xf"])
     (auto simp: read_at_in_range write_at_in_range checked_simps)

lemma MassToMoleFractions_checked_agrees:
  assumes "1 \<le> n_species_mixture s"
    and "n_species_mixture s \<le> length (massFractions s)"
    and "n_species_mixture s \<le> length (moleFractions s)"
    and "n_species_mixture s \<le> length (molarMasses s)"
    and "n_species_mixture s - 1 \<le> length vs"
  shows "MassToMoleFractions_checked s vs = Inr (MassToMoleFractions s vs) \<or>
         MassToMoleFractions_checked s vs = Inl NonFinite"
proof -
  define n where "n = n_species_mixture s"
  obtain mf0 S where c: "copy_scalars (n - 1) vs (massFractions s) = (mf0, S)"
    by (cases "copy_scalars (n - 1) vs (massFractions s)")
  have l0: "length mf0 = length (massFractions s)"
    using copy_scalars_length [of "n - 1" vs "massFractions s"] c by simp
  define mf where "mf = mf0[n - 1 := 1 - S]"
  have lmf: "n \<le> length mf" using assms(2) l0 by (simp add: mf_def n_def)
  have w: "write_at mf0 (n - 1) (1 - S) = Inr mf"
    using assms(1,2) l0 by (simp add: write_at_in_range mf_def n_def)
  have loop1: "for_each [0..<n - 1]
           (\<lambda>i_scalar (a, val_scalars_sum).
              and_then (read_at vs i_scalar) (\<lambda>v.
              and_then (write_at a i_scalar v) (\<lambda>a'.
              Inr (a', val_scalars_sum + v))))
           (massFractions s, 0) = Inr (mf0, S)"
    using copy_scalars_checked [of "n - 1" vs "massFractions s"] assms(2,5) c
    by (simp add: n_def)
  define mm where "mm = fold (\<lambda>iVar acc. acc + mf ! iVar / molarMasses s ! iVar) [0..<n] 0"
  define xf where "xf = fold (\<lambda>iVar a. a[iVar := (mf ! iVar / molarMasses s ! iVar) / mm])
                 [0..<n] (moleFractions s)"
  have res: "MassToMoleFractions s vs = s\<lparr>massFractions := mf, moleFractions := xf\<rparr>"
    unfolding MassToMoleFractions_def Let_def n_def [symmetric] c mf_def mm_def xf_def
    by simp
  note l2 = mixtureMolarMass_checked [OF lmf assms(4) [folded n_def]]
  note l3 = moleFractions_checked [OF lmf assms(4) [folded n_def] assms(3) [folded n_def]]
  show ?thesis
    unfolding MassToMoleFractions_checked_def Let_def n_def [symmetric] res xf_def mm_def
    apply (rule and_then_agree)
     apply (rule disjI1, rule loop1)
    apply (simp only: prod.case)
    apply (rule and_then_agree)
     apply (rule disjI1, rule w)
    apply (rule and_then_agree)
     apply (rule l2)
    apply (rule and_then_agree)
     apply (rule l3)
    apply (rule disjI1)
    apply (rule refl)
    done
qed

lemma mixtureMolarMass_succeeds:
  assumes "n \<le> length mf" "n \<le> length M" "\<forall>i<n. M ! i \<noteq> 0"
  shows "for_each [0..<n]
           (\<lambda>iVar acc.
              and_then (read_at mf iVar) (\<lambda>y.
              and_then (read_at M iVar) (\<lambda>m.
              and_then (checked_div y m) (\<lambda>q.
              Inr (acc + q)))))
           0 = Inr (fold (\<lambda>iVar acc. acc + mf ! iVar / M ! iVar) [0..<n] 0)"
  using assms
  by (intro for_each_succeeds [where I = "\<lambda>a. True"])
     (auto simp: read_at_in_range checked_simps)

lemma moleFractions_succeeds:
  assumes "n \<le> length mf" "n \<le> length M" "n \<le> length xf" "\<forall>i<n. M ! i \<noteq> 0" "mm \<noteq> 0"
  shows "for_each [0..<n]
           (\<lambda>iVar a.
              and_then (read_at mf iVar) (\<lambda>y.
              and_then (read_at M iVar) (\<lambda>m.
              and_then (checked_div y m) (\<lambda>q.
              and_then (checked_div q mm) (\<lambda>x.
              write_at a iVar x)))))
           xf = Inr (fold (\<lambda>iVar a. a[iVar := (mf ! iVar / M ! iVar) / mm]) [0..<n] xf)"
  using assms
  by (intro for_each_succeeds [where I = "\<lambda>a. length a = length xf"])
     (auto simp: read_at_in_range write_at_in_range checked_simps)

lemma MassToMoleFractions_checked_succeeds:
  assumes "1 \<le> n_species_mixture s"
    and "n_species_mixture s \<le> length (massFractions s)"
    and "n_species_mixture s \<le> length (moleFractions s)"
    and "n_species_mixture s \<le> length (molarMasses s)"
    and "n_species_mixture s - 1 \<le> length vs"
    and "\<forall>i<n_species_mixture s. molarMasses s ! i \<noteq> 0"
    and "(\<Sum>j<n_species_mixture s.
            massFractions (MassToMoleFractions s vs) ! j / molarMasses s ! j) \<noteq> 0"
  shows "MassToMoleFractions_checked s vs = Inr (MassToMoleFractions s vs)"
proof -
  define n where "n = n_species_mixture s"
  obtain mf0 S where c: "copy_scalars (n - 1) vs (massFractions s) = (mf0, S)"
    by (cases "copy_scalars (n - 1) vs (massFractions s)")
  have l0: "length mf0 = length (massFractions s)"
    using copy_scalars_length [of "n - 1" vs "massFractions s"] c by simp
  define mf where "mf = mf0[n - 1 := 1 - S]"
  have lmf: "n \<le> length mf" using assms(2) l0 by (simp add: mf_def n_def)
  have w: "write_at mf0 (n - 1) (1 - S) = Inr mf"
    using assms(1,2) l0 by (simp add: write_at_in_range mf_def n_def)
  have loop1: "for_each [0..<n - 1]
           (\<lambda>i_scalar (a, val_scalars_sum).
              and_then (read_at vs i_scalar) (\<lambda>v.
              and_then (write_at a i_scalar v) (\<lambda>a'.
              Inr (a', val_scalars_sum + v))))
           (massFractions s, 0) = Inr (mf0, S)"
    using copy_scalars_checked [of "n - 1" vs "massFractions s"] assms(2,5) c
    by (simp add: n_def)
  define mm where "mm = fold (\<lambda>iVar acc. acc + mf ! iVar / molarMasses s ! iVar) [0..<n] 0"
  define xf where "xf = fold (\<lambda>iVar a. a[iVar := (mf ! iVar / molarMasses s ! iVar) / mm])
                 [0..<n] (moleFractions s)"
  have res: "MassToMoleFractions s vs = s\<lparr>massFractions := mf, moleFractions := xf\<rparr>"
    unfolding MassToMoleFractions_def Let_def n_def [symmetric] c mf_def mm_def xf_def
    by simp
  have "mm = (\<Sum>j<n. mf ! j / molarMasses s ! j)"
    by (simp add: mm_def fold_add_upt)
  also have "\<dots> \<noteq> 0" using assms(7) by (simp add: res n_def)
  finally have mm0: "mm \<noteq> 0" .
  note M0 = assms(6) [folded n_def]
  note l2 = mixtureMolarMass_succeeds [OF lmf assms(4) [folded n_def] M0]
  note l3 = moleFractions_succeeds [OF lmf assms(4) [folded n_def] assms(3) [folded n_def] M0
      mm0 [unfolded mm_def]]
  show ?thesis
    unfolding MassToMoleFractions_checked_def Let_def n_def [symmetric] res xf_def mm_def
    apply (rule and_then_succeeds)
     apply (rule loop1)
    apply (simp only: prod.case)
    apply (rule and_then_succeeds)
     apply (rule w)
    apply (rule and_then_succeeds)
     apply (rule l2)
    apply (rule and_then_succeeds)
     apply (rule l3)
    apply (rule refl)
    done
qed

lemma MassToMoleFractions_divisor_pos:
  assumes "1 \<le> n_species_mixture s"
    and "n_species_mixture s \<le> length (massFractions s)"
    and "length vs = n_species_mixture s - 1"
    and "\<forall>y \<in> set vs. 0 \<le> y" and "sum_list vs \<le> 1"
    and "\<forall>i < n_species_mixture s. 0 < molarMasses s ! i"
  shows "0 < (\<Sum>j<n_species_mixture s.
                massFractions (MassToMoleFractions s vs) ! j / molarMasses s ! j)"
proof -
  define n where "n = n_species_mixture s"
  define Y where "Y = massFractions (MassToMoleFractions s vs)"
  have S: "(\<Sum>i<n - 1. vs ! i) = sum_list vs"
    using assms(3) by (simp add: sum_list_sum_nth n_def atLeast0LessThan)
  have Ynonneg: "0 \<le> Y ! i" if "i < n" for i
  proof (cases "i < n - 1")
    case True
    then have "vs ! i \<in> set vs" using assms(3) by (simp add: n_def)
    then show ?thesis
      using True assms(2,4) by (simp add: Y_def n_def massFractions_nth_copied)
  next
    case False
    with that have "i = n - 1" by simp
    then show ?thesis
      using massFractions_nth_last [OF assms(1,2), of vs] S assms(5) by (simp add: Y_def n_def)
  qed
  have sumY: "(\<Sum>i<n. Y ! i) = 1"
    using massFractions_sum_one [OF assms(1,2)] by (simp add: Y_def n_def)
  show ?thesis
    using Ynonneg sumY assms(6)
    unfolding n_def [symmetric] Y_def [symmetric]
    by (intro weighted_sum_pos) simp_all
qed

lemma phi_checked_agrees:
  assumes "i < length lv" "j < length lv" "i < length M" "j < length M"
  shows "phi_checked lv M i j = Inr (phi lv M i j) \<or> phi_checked lv M i j = Inl NonFinite"
  using assms by (simp add: phi_checked_def phi_def read_at_in_range checked_simps)

lemma phi_checked_succeeds:
  assumes "i < length lv" "j < length lv" "i < length M" "j < length M"
    and "0 < lv ! i" "0 < lv ! j" "0 < M ! i" "0 < M ! j"
  shows "phi_checked lv M i j = Inr (phi lv M i j)"
proof -
  have "0 < 1 + M ! i / M ! j" using assms(7,8) by (simp add: add_pos_nonneg)
  then have "\<not> 8 * (1 + M ! i / M ! j) < 0" "sqrt (8 * (1 + M ! i / M ! j)) \<noteq> 0"
    by simp_all
  moreover have "\<not> lv ! i / lv ! j < 0" "\<not> M ! j / M ! i < 0"
    using assms(5-8) by (simp_all add: not_less)
  ultimately show ?thesis
    using assms by (simp add: phi_checked_def phi_def read_at_in_range checked_simps)
qed

lemma phi_pos:
  assumes "0 < lv ! i" "0 < lv ! j" "0 < M ! i" "0 < M ! j"
  shows "0 < phi lv M i j"
proof -
  have "0 \<le> sqrt (lv ! i / lv ! j) * (M ! j / M ! i) powr (1 / 4)"
    using assms by simp
  then have "0 < (1 + sqrt (lv ! i / lv ! j) * (M ! j / M ! i) powr (1 / 4)) ^ 2"
    by (simp add: add_pos_nonneg)
  moreover have "0 < sqrt (8 * (1 + M ! i / M ! j))"
    using assms by (simp add: add_pos_nonneg)
  ultimately show ?thesis unfolding phi_def by (rule divide_pos_pos)
qed

lemma wilkeDenumerator_checked_agrees:
  assumes "n \<le> length lv" "n \<le> length M" "n \<le> length X" "i < n"
  shows "wilkeDenumerator_checked n lv M X i = Inr (wilkeDenumerator n lv M X i) \<or>
         wilkeDenumerator_checked n lv M X i = Inl NonFinite"
  unfolding wilkeDenumerator_checked_def wilkeDenumerator_def
proof (rule for_each_agree [where I = "\<lambda>a. True"])
  fix j :: nat and a :: real
  assume "j \<in> set [0..<n]"
  then have j: "j < n" by simp
  from phi_checked_agrees [of i lv j M] assms j
  have "phi_checked lv M i j = Inr (phi lv M i j) \<or> phi_checked lv M i j = Inl NonFinite"
    by simp
  then show "(if j \<noteq> i
          then and_then (phi_checked lv M i j) (\<lambda>p. and_then (read_at X j) (\<lambda>x. Inr (a + x * p)))
          else and_then (read_at X j) (\<lambda>x. Inr (a + x))) =
         Inr (if j \<noteq> i then a + X ! j * phi lv M i j else a + X ! j) \<or>
         (if j \<noteq> i
          then and_then (phi_checked lv M i j) (\<lambda>p. and_then (read_at X j) (\<lambda>x. Inr (a + x * p)))
          else and_then (read_at X j) (\<lambda>x. Inr (a + x))) = Inl NonFinite"
    using assms(3) j by (auto simp: read_at_in_range and_then_Inr and_then_Inl)
qed simp_all

lemma wilkeDenumerator_checked_succeeds:
  assumes "n \<le> length lv" "n \<le> length M" "n \<le> length X" "i < n"
    and "\<forall>j<n. 0 < lv ! j" "\<forall>j<n. 0 < M ! j"
  shows "wilkeDenumerator_checked n lv M X i = Inr (wilkeDenumerator n lv M X i)"
  unfolding wilkeDenumerator_checked_def wilkeDenumerator_def
proof (rule for_each_succeeds [where I = "\<lambda>a. True"])
  fix j :: nat and a :: real
  assume "j \<in> set [0..<n]"
  then have j: "j < n" by simp
  from phi_checked_succeeds [of i lv j M] assms j
  have "phi_checked lv M i j = Inr (phi lv M i j)" by simp
  then show "(if j \<noteq> i
          then and_then (phi_checked lv M i j) (\<lambda>p. and_then (read_at X j) (\<lambda>x. Inr (a + x * p)))
          else and_then (read_at X j) (\<lambda>x. Inr (a + x))) =
         Inr (if j \<noteq> i then a + X ! j * phi lv M i j else a + X ! j)"
    using assms(3) j by (auto simp: read_at_in_range and_then_Inr)
qed simp_all

lemma weighted_sum_pos_mult:
  fixes y c :: "nat \<Rightarrow> real"
  assumes "\<forall>i<n. 0 \<le> y i" "(\<Sum>i<n. y i) = 1" "\<forall>i<n. 0 < c i"
  shows "0 < (\<Sum>i<n. y i * c i)"
proof -
  have "0 < (\<Sum>i<n. y i / (1 / c i))"
    using assms by (intro weighted_sum_pos) simp_all
  then show ?thesis by simp
qed

lemma wilkeDenumerator_pos:
  assumes "i < n" "\<forall>j<n. 0 < lv ! j" "\<forall>j<n. 0 < M ! j"
    and "\<forall>j<n. 0 \<le> X ! j" "(\<Sum>j<n. X ! j) = 1"
  shows "0 < wilkeDenumerator n lv M X i"
  unfolding wilkeDenumerator_sum
  using assms by (intro weighted_sum_pos_mult) (simp_all add: phi_pos)

lemma wilke_average_checked_agrees:
  assumes "n \<le> length lv" "n \<le> length M" "n \<le> length X" "n \<le> length v"
  shows "for_each [0..<n]
           (\<lambda>i acc.
              and_then (wilkeDenumerator_checked n lv M X i) (\<lambda>den.
              and_then (read_at X i) (\<lambda>x.
              and_then (read_at v i) (\<lambda>m.
              and_then (checked_div (x * m) den) (\<lambda>q.
              Inr (acc + q))))))
           0 =
         Inr (fold (\<lambda>i acc. acc + (X ! i * v ! i) / wilkeDenumerator n lv M X i) [0..<n] 0) \<or>
         for_each [0..<n]
           (\<lambda>i acc.
              and_then (wilkeDenumerator_checked n lv M X i) (\<lambda>den.
              and_then (read_at X i) (\<lambda>x.
              and_then (read_at v i) (\<lambda>m.
              and_then (checked_div (x * m) den) (\<lambda>q.
              Inr (acc + q))))))
           0 = Inl NonFinite"
proof (rule for_each_agree [where I = "\<lambda>a. True"])
  fix i :: nat and a :: real
  assume "i \<in> set [0..<n]"
  then have i: "i < n" by simp
  from wilkeDenumerator_checked_agrees [OF assms(1-3) i]
  show "and_then (wilkeDenumerator_checked n lv M X i) (\<lambda>den.
              and_then (read_at X i) (\<lambda>x.
              and_then (read_at v i) (\<lambda>m.
              and_then (checked_div (x * m) den) (\<lambda>q.
              Inr (a + q))))) = Inr (a + (X ! i * v ! i) / wilkeDenumerator n lv M X i) \<or>
        and_then (wilkeDenumerator_checked n lv M X i) (\<lambda>den.
              and_then (read_at X i) (\<lambda>x.
              and_then (read_at v i) (\<lambda>m.
              and_then (checked_div (x * m) den) (\<lambda>q.
              Inr (a + q))))) = Inl NonFinite"
    using assms(3,4) i by (auto simp: read_at_in_range checked_simps)
qed simp_all

lemma wilke_average_checked_succeeds:
  assumes "n \<le> length lv" "n \<le> length M" "n \<le> length X" "n \<le> length v"
    and "\<forall>j<n. 0 < lv ! j" "\<forall>j<n. 0 < M ! j"
    and "\<forall>j<n. 0 \<le> X ! j" "(\<Sum>j<n. X ! j) = 1"
  shows "for_each [0..<n]
           (\<lambda>i acc.
              and_then (wilkeDenumerator_checked n lv M X i) (\<lambda>den.
              and_then (read_at X i) (\<lambda>x.
              and_then (read_at v i) (\<lambda>m.
              and_then (checked_div (x * m) den) (\<lambda>q.
              Inr (acc + q))))))
           0 =
         Inr (fold (\<lambda>i acc. acc + (X ! i * v ! i) / wilkeDenumerator n lv M X i) [0..<n] 0)"
proof (rule for_each_succeeds [where I = "\<lambda>a. True"])
  fix i :: nat and a :: real
  assume "i \<in> set [0..<n]"
  then have i: "i < n" by simp
  have "wilkeDenumerator n lv M X i \<noteq> 0"
    using wilkeDenumerator_pos [OF i assms(5-8)] by simp
  with wilkeDenumerator_checked_succeeds [OF assms(1-3) i assms(5,6)]
  show "and_then (wilkeDenumerator_checked n lv M X i) (\<lambda>den.
              and_then (read_at X i) (\<lambda>x.
              and_then (read_at v i) (\<lambda>m.
              and_then (checked_div (x * m) den) (\<lambda>q.
              Inr (a + q))))) = Inr (a + (X ! i * v ! i) / wilkeDenumerator n lv M X i)"
    using assms(3,4) i by (simp add: read_at_in_range checked_simps)
qed simp_all

lemma WilkeViscosity_checked_agrees:
  assumes "n_species_mixture s \<le> length (laminarViscosity s)"
    and "n_species_mixture s \<le> length (molarMasses s)"
    and "n_species_mixture s \<le> length (moleFractions s)"
  shows "WilkeViscosity_checked s vs = Inr (WilkeViscosity s vs) \<or>
         WilkeViscosity_checked s vs = Inl NonFinite"
proof -
  define n where "n = n_species_mixture s"
  define lv where "lv = fold (\<lambda>iVar a. a[iVar := LaminarViscosityPointers s iVar (Temperature s) (Density s)])
                 [0..<n] (laminarViscosity s)"
  have llv: "n \<le> length lv" using assms(1) by (simp add: lv_def n_def fold_update_length)
  note fill = fill_checked [OF assms(1) [folded n_def],
      where f = "\<lambda>iVar. LaminarViscosityPointers s iVar (Temperature s) (Density s)",
      folded lv_def]
  note avg = wilke_average_checked_agrees [OF llv assms(2) [folded n_def] assms(3) [folded n_def] llv]
  show ?thesis
    unfolding WilkeViscosity_checked_def WilkeViscosity_def Let_def n_def [symmetric]
      lv_def [symmetric]
    apply (rule and_then_agree)
     apply (rule disjI1, rule fill)
    apply (rule and_then_agree)
     apply (rule avg)
    apply (rule disjI1)
    apply (rule refl)
    done
qed

lemma WilkeViscosity_checked_succeeds:
  assumes "n_species_mixture s \<le> length (laminarViscosity s)"
    and "n_species_mixture s \<le> length (molarMasses s)"
    and "n_species_mixture s \<le> length (moleFractions s)"
    and "\<forall>i<n_species_mixture s. 0 < LaminarViscosityPointers s i (Temperature s) (Density s)"
    and "\<forall>i<n_species_mixture s. 0 < molarMasses s ! i"
    and "\<forall>i<n_species_mixture s. 0 \<le> moleFractions s ! i"
    and "(\<Sum>i<n_species_mixture s. moleFractions s ! i) = 1"
  shows "WilkeViscosity_checked s vs = Inr (WilkeViscosity s vs)"
proof -
  define n where "n = n_species_mixture s"
  define lv where "lv = fold (\<lambda>iVar a. a[iVar := LaminarViscosityPointers s iVar (Temperature s) (Density s)])
                 [0..<n] (laminarViscosity s)"
  have llv: "n \<le> length lv" using assms(1) by (simp add: lv_def n_def fold_update_length)
  have lvpos: "\<forall>i<n. 0 < lv ! i"
    using assms(1,4) by (simp add: lv_def n_def fold_update_nth)
  note fill = fill_checked [OF assms(1) [folded n_def],
      where f = "\<lambda>iVar. LaminarViscosityPointers s iVar (Temperature s) (Density s)",
      folded lv_def]
  note avg = wilke_average_checked_succeeds [OF llv assms(2) [folded n_def]
      assms(3) [folded n_def] llv lvpos assms(5) [folded n_def] assms(6) [folded n_def]
      assms(7) [folded n_def]]
  show ?thesis
    unfolding WilkeViscosity_checked_def WilkeViscosity_def Let_def n_def [symmetric]
      lv_def [symmetric]
    apply (rule and_then_succeeds)
     apply (rule fill)
    apply (rule and_then_succeeds)
     apply (rule avg)
    apply (rule refl)
    done
qed

lemma WilkeConductivity_checked_agrees:
  assumes "n_species_mixture s \<le> length (laminarViscosity s)"
    and "n_species_mixture s \<le> length (molarMasses s)"
    and "n_species_mixture s \<le> length (moleFractions s)"
    and "n_species_mixture s \<le> length (laminarThermalConductivity s)"
  shows "WilkeConductivity_checked s vs = Inr (WilkeConductivity s vs) \<or>
         WilkeConductivity_checked s vs = Inl NonFinite"
proof -
  define n where "n = n_species_mixture s"
  define ltc where "ltc = fold (\<lambda>iVar a. a[iVar := ThermalConductivityPointers s iVar
                                          (Temperature s) (Density s) (Mu s) 0 0 0 0])
                  [0..<n] (laminarThermalConductivity s)"
  have l: "n \<le> length ltc" using assms(4) by (simp add: ltc_def n_def fold_update_length)
  note fill = fill_checked [OF assms(4) [folded n_def],
      where f = "\<lambda>iVar. ThermalConductivityPointers s iVar (Temperature s) (Density s) (Mu s)
                          0 0 0 0",
      folded ltc_def]
  note avg = wilke_average_checked_agrees [OF assms(1) [folded n_def] assms(2) [folded n_def]
      assms(3) [folded n_def] l]
  show ?thesis
    unfolding WilkeConductivity_checked_def WilkeConductivity_def Let_def n_def [symmetric]
      ltc_def [symmetric]
    apply (rule and_then_agree)
     apply (rule disjI1, rule fill)
    apply (rule and_then_agree)
     apply (rule avg)
    apply (rule disjI1)
    apply (rule refl)
    done
qed

lemma WilkeConductivity_checked_succeeds:
  assumes "n_species_mixture s \<le> length (laminarViscosity s)"
    and "n_species_mixture s \<le> length (molarMasses s)"
    and "n_species_mixture s \<le> length (moleFractions s)"
    and "n_species_mixture s \<le> length (laminarThermalConductivity s)"
    and "\<forall>i<n_species_mixture s. 0 < laminarViscosity s ! i"
    and "\<forall>i<n_species_mixture s. 0 < molarMasses s ! i"
    and "\<forall>i<n_species_mixture s. 0 \<le> moleFractions s ! i"
    and "(\<Sum>i<n_species_mixture s. moleFractions s ! i) = 1"
  shows "WilkeConductivity_checked s vs = Inr (WilkeConductivity s vs)"
proof -
  define n where "n = n_species_mixture s"
  define ltc where "ltc = fold (\<lambda>iVar a. a[iVar := ThermalConductivityPointers s iVar
                                          (Temperature s) (Density s) (Mu s) 0 0 0 0])
                  [0..<n] (laminarThermalConductivity s)"
  have l: "n \<le> length ltc" using assms(4) by (simp add: ltc_def n_def fold_update_length)
  note fill = fill_checked [OF assms(4) [folded n_def],
      where f = "\<lambda>iVar. ThermalConductivityPointers s iVar (Temperature s) (Density s) (Mu s)
                          0 0 0 0",
      folded ltc_def]
  note avg = wilke_average_checked_succeeds [OF assms(1) [folded n_def] assms(2) [folded n_def]
      assms(3) [folded n_def] l assms(5) [folded n_def] assms(6) [folded n_def]
      assms(7) [folded n_def] assms(8) [folded n_def]]
  show ?thesis
    unfolding WilkeConductivity_checked_def WilkeConductivity_def Let_def n_def [symmetric]
      ltc_def [symmetric]
    apply (rule and_then_succeeds)
     apply (rule fill)
    apply (rule and_then_succeeds)
     apply (rule avg)
    apply (rule refl)
    done
qed

lemma davidson_denominator_checked_agrees:
  assumes "n \<le> length X" "n \<le> length M"
  shows "for_each [0..<n]
           (\<lambda>i acc.
              and_then (read_at X i) (\<lambda>x.
              and_then (read_at M i) (\<lambda>m.
              and_then (checked_sqrt m) (\<lambda>r.
              Inr (acc + x * r)))))
           0 = Inr (fold (\<lambda>i acc. acc + X ! i * sqrt (M ! i)) [0..<n] 0) \<or>
         for_each [0..<n]
           (\<lambda>i acc.
              and_then (read_at X i) (\<lambda>x.
              and_then (read_at M i) (\<lambda>m.
              and_then (checked_sqrt m) (\<lambda>r.
              Inr (acc + x * r)))))
           0 = Inl NonFinite"
  using assms
  by (intro for_each_agree [where I = "\<lambda>a. True"])
     (auto simp: read_at_in_range checked_simps)

lemma davidson_denominator_checked_succeeds:
  assumes "n \<le> length X" "n \<le> length M" "\<forall>i<n. 0 < M ! i"
  shows "for_each [0..<n]
           (\<lambda>i acc.
              and_then (read_at X i) (\<lambda>x.
              and_then (read_at M i) (\<lambda>m.
              and_then (checked_sqrt m) (\<lambda>r.
              Inr (acc + x * r)))))
           0 = Inr (fold (\<lambda>i acc. acc + X ! i * sqrt (M ! i)) [0..<n] 0)"
  using assms
  by (intro for_each_succeeds [where I = "\<lambda>a. True"])
     (auto simp: read_at_in_range checked_simps not_less less_imp_le)

lemma davidson_fractions_checked_agrees:
  assumes "n \<le> length X" "n \<le> length M" "n \<le> length a0"
  shows "for_each [0..<n]
           (\<lambda>j a.
              and_then (read_at X j) (\<lambda>x.
              and_then (read_at M j) (\<lambda>m.
              and_then (checked_sqrt m) (\<lambda>r.
              and_then (checked_div (x * r) S) (\<lambda>f.
              write_at a j f)))))
           a0 = Inr (fold (\<lambda>j a. a[j := (X ! j * sqrt (M ! j)) / S]) [0..<n] a0) \<or>
         for_each [0..<n]
           (\<lambda>j a.
              and_then (read_at X j) (\<lambda>x.
              and_then (read_at M j) (\<lambda>m.
              and_then (checked_sqrt m) (\<lambda>r.
              and_then (checked_div (x * r) S) (\<lambda>f.
              write_at a j f)))))
           a0 = Inl NonFinite"
  using assms
  by (intro for_each_agree [where I = "\<lambda>a. length a = length a0"])
     (auto simp: read_at_in_range write_at_in_range checked_simps)

lemma davidson_fractions_checked_succeeds:
  assumes "n \<le> length X" "n \<le> length M" "n \<le> length a0" "\<forall>i<n. 0 < M ! i" "S \<noteq> 0"
  shows "for_each [0..<n]
           (\<lambda>j a.
              and_then (read_at X j) (\<lambda>x.
              and_then (read_at M j) (\<lambda>m.
              and_then (checked_sqrt m) (\<lambda>r.
              and_then (checked_div (x * r) S) (\<lambda>f.
              write_at a j f)))))
           a0 = Inr (fold (\<lambda>j a. a[j := (X ! j * sqrt (M ! j)) / S]) [0..<n] a0)"
  using assms
  by (intro for_each_succeeds [where I = "\<lambda>a. length a = length a0"])
     (auto simp: read_at_in_range write_at_in_range checked_simps not_less less_imp_le)

lemma davidson_inner_checked_agrees:
  assumes "n \<le> length M" "n \<le> length mf" "n \<le> length lv" "i < n"
  shows "for_each [0..<n]
                (\<lambda>j acc.
                   and_then (read_at M i) (\<lambda>M_i.
                   and_then (read_at M j) (\<lambda>M_j.
                   and_then (checked_sqrt M_i) (\<lambda>r_i.
                   and_then (checked_sqrt M_j) (\<lambda>r_j.
                   and_then (checked_div (2 * r_i * r_j) (M_i + M_j)) (\<lambda>E.
                   and_then (read_at mf i) (\<lambda>f_i.
                   and_then (read_at mf j) (\<lambda>f_j.
                   and_then (read_at lv i) (\<lambda>mu_i.
                   and_then (read_at lv j) (\<lambda>mu_j.
                   and_then (checked_sqrt mu_i) (\<lambda>s_i.
                   and_then (checked_sqrt mu_j) (\<lambda>s_j.
                   and_then (checked_div (f_i * f_j) (s_i * s_j)) (\<lambda>t.
                   and_then (checked_pow E A) (\<lambda>p.
                   Inr (acc + t * p)))))))))))))))
                acc0 =
         Inr (fold (\<lambda>j acc. acc + ((mf ! i * mf ! j) / (sqrt (lv ! i) * sqrt (lv ! j))) *
                                 ((2 * sqrt (M ! i) * sqrt (M ! j)) / (M ! i + M ! j)) powr A)
                [0..<n] acc0) \<or>
         for_each [0..<n]
                (\<lambda>j acc.
                   and_then (read_at M i) (\<lambda>M_i.
                   and_then (read_at M j) (\<lambda>M_j.
                   and_then (checked_sqrt M_i) (\<lambda>r_i.
                   and_then (checked_sqrt M_j) (\<lambda>r_j.
                   and_then (checked_div (2 * r_i * r_j) (M_i + M_j)) (\<lambda>E.
                   and_then (read_at mf i) (\<lambda>f_i.
                   and_then (read_at mf j) (\<lambda>f_j.
                   and_then (read_at lv i) (\<lambda>mu_i.
                   and_then (read_at lv j) (\<lambda>mu_j.
                   and_then (checked_sqrt mu_i) (\<lambda>s_i.
                   and_then (checked_sqrt mu_j) (\<lambda>s_j.
                   and_then (checked_div (f_i * f_j) (s_i * s_j)) (\<lambda>t.
                   and_then (checked_pow E A) (\<lambda>p.
                   Inr (acc + t * p)))))))))))))))
                acc0 = Inl NonFinite"
  using assms
  by (intro for_each_agree [where I = "\<lambda>a. True"])
     (simp_all add: read_at_in_range checked_simps)

lemma davidson_inner_checked_succeeds:
  assumes "n \<le> length M" "n \<le> length mf" "n \<le> length lv" "i < n"
    and "\<forall>j<n. 0 < M ! j" "\<forall>j<n. 0 < lv ! j"
  shows "for_each [0..<n]
                (\<lambda>j acc.
                   and_then (read_at M i) (\<lambda>M_i.
                   and_then (read_at M j) (\<lambda>M_j.
                   and_then (checked_sqrt M_i) (\<lambda>r_i.
                   and_then (checked_sqrt M_j) (\<lambda>r_j.
                   and_then (checked_div (2 * r_i * r_j) (M_i + M_j)) (\<lambda>E.
                   and_then (read_at mf i) (\<lambda>f_i.
                   and_then (read_at mf j) (\<lambda>f_j.
                   and_then (read_at lv i) (\<lambda>mu_i.
                   and_then (read_at lv j) (\<lambda>mu_j.
                   and_then (checked_sqrt mu_i) (\<lambda>s_i.
                   and_then (checked_sqrt mu_j) (\<lambda>s_j.
                   and_then (checked_div (f_i * f_j) (s_i * s_j)) (\<lambda>t.
                   and_then (checked_pow E A) (\<lambda>p.
                   Inr (acc + t * p)))))))))))))))
                acc0 =
         Inr (fold (\<lambda>j acc. acc + ((mf ! i * mf ! j) / (sqrt (lv ! i) * sqrt (lv ! j))) *
                                 ((2 * sqrt (M ! i) * sqrt (M ! j)) / (M ! i + M ! j)) powr A)
                [0..<n] acc0)"
proof (rule for_each_succeeds [where I = "\<lambda>a. True"])
  fix j :: nat and a :: real
  assume "j \<in> set [0..<n]"
  then have j: "j < n" by simp
  have p: "0 < M ! i" "0 < M ! j" "0 < lv ! i" "0 < lv ! j"
    using assms(4-6) j by simp_all
  then have "M ! i + M ! j \<noteq> 0" "\<not> M ! i < 0" "\<not> M ! j < 0" "\<not> lv ! i < 0" "\<not> lv ! j < 0"
    "sqrt (lv ! i) \<noteq> 0" "sqrt (lv ! j) \<noteq> 0"
    by simp_all
  moreover have "0 \<le> 2 * sqrt (M ! i) * sqrt (M ! j) / (M ! i + M ! j)"
    using p by (intro divide_nonneg_nonneg mult_nonneg_nonneg) simp_all
  then have "\<not> 2 * sqrt (M ! i) * sqrt (M ! j) / (M ! i + M ! j) < 0" by simp
  ultimately show "and_then (read_at M i) (\<lambda>M_i.
                   and_then (read_at M j) (\<lambda>M_j.
                   and_then (checked_sqrt M_i) (\<lambda>r_i.
                   and_then (checked_sqrt M_j) (\<lambda>r_j.
                   and_then (checked_div (2 * r_i * r_j) (M_i + M_j)) (\<lambda>E.
                   and_then (read_at mf i) (\<lambda>f_i.
                   and_then (read_at mf j) (\<lambda>f_j.
                   and_then (read_at lv i) (\<lambda>mu_i.
                   and_then (read_at lv j) (\<lambda>mu_j.
                   and_then (checked_sqrt mu_i) (\<lambda>s_i.
                   and_then (checked_sqrt mu_j) (\<lambda>s_j.
                   and_then (checked_div (f_i * f_j) (s_i * s_j)) (\<lambda>t.
                   and_then (checked_pow E A) (\<lambda>p.
                   Inr (a + t * p)))))))))))))) =
         Inr (a + ((mf ! i * mf ! j) / (sqrt (lv ! i) * sqrt (lv ! j))) *
                                 ((2 * sqrt (M ! i) * sqrt (M ! j)) / (M ! i + M ! j)) powr A)"
    using assms(1-4) j by (simp add: read_at_in_range checked_simps)
qed simp_all

lemma davidson_outer_checked_agrees:
  assumes "n \<le> length M" "n \<le> length mf" "n \<le> length lv"
  shows "for_each [0..<n]
           (\<lambda>i acc0.
              for_each [0..<n]
                (\<lambda>j acc.
                   and_then (read_at M i) (\<lambda>M_i.
                   and_then (read_at M j) (\<lambda>M_j.
                   and_then (checked_sqrt M_i) (\<lambda>r_i.
                   and_then (checked_sqrt M_j) (\<lambda>r_j.
                   and_then (checked_div (2 * r_i * r_j) (M_i + M_j)) (\<lambda>E.
                   and_then (read_at mf i) (\<lambda>f_i.
                   and_then (read_at mf j) (\<lambda>f_j.
                   and_then (read_at lv i) (\<lambda>mu_i.
                   and_then (read_at lv j) (\<lambda>mu_j.
                   and_then (checked_sqrt mu_i) (\<lambda>s_i.
                   and_then (checked_sqrt mu_j) (\<lambda>s_j.
                   and_then (checked_div (f_i * f_j) (s_i * s_j)) (\<lambda>t.
                   and_then (checked_pow E A) (\<lambda>p.
                   Inr (acc + t * p)))))))))))))))
                acc0)
           0 =
         Inr (fold (\<lambda>i acc0.
                fold (\<lambda>j acc. acc + ((mf ! i * mf ! j) / (sqrt (lv ! i) * sqrt (lv ! j))) *
                                   ((2 * sqrt (M ! i) * sqrt (M ! j)) / (M ! i + M ! j)) powr A)
                  [0..<n] acc0) [0..<n] 0) \<or>
         for_each [0..<n]
           (\<lambda>i acc0.
              for_each [0..<n]
                (\<lambda>j acc.
                   and_then (read_at M i) (\<lambda>M_i.
                   and_then (read_at M j) (\<lambda>M_j.
                   and_then (checked_sqrt M_i) (\<lambda>r_i.
                   and_then (checked_sqrt M_j) (\<lambda>r_j.
                   and_then (checked_div (2 * r_i * r_j) (M_i + M_j)) (\<lambda>E.
                   and_then (read_at mf i) (\<lambda>f_i.
                   and_then (read_at mf j) (\<lambda>f_j.
                   and_then (read_at lv i) (\<lambda>mu_i.
                   and_then (read_at lv j) (\<lambda>mu_j.
                   and_then (checked_sqrt mu_i) (\<lambda>s_i.
                   and_then (checked_sqrt mu_j) (\<lambda>s_j.
                   and_then (checked_div (f_i * f_j) (s_i * s_j)) (\<lambda>t.
                   and_then (checked_pow E A) (\<lambda>p.
                   Inr (acc + t * p)))))))))))))))
                acc0)
           0 = Inl NonFinite"
proof (rule for_each_agree [where I = "\<lambda>a. True"])
  fix i :: nat and a :: real
  assume "i \<in> set [0..<n]"
  then have i: "i < n" by simp
  show "for_each [0..<n]
                (\<lambda>j acc.
                   and_then (read_at M i) (\<lambda>M_i.
                   and_then (read_at M j) (\<lambda>M_j.
                   and_then (checked_sqrt M_i) (\<lambda>r_i.
                   and_then (checked_sqrt M_j) (\<lambda>r_j.
                   and_then (checked_div (2 * r_i * r_j) (M_i + M_j)) (\<lambda>E.
                   and_then (read_at mf i) (\<lambda>f_i.
                   and_then (read_at mf j) (\<lambda>f_j.
                   and_then (read_at lv i) (\<lambda>mu_i.
                   and_then (read_at lv j) (\<lambda>mu_j.
                   and_then (checked_sqrt mu_i) (\<lambda>s_i.
                   and_then (checked_sqrt mu_j) (\<lambda>s_j.
                   and_then (checked_div (f_i * f_j) (s_i * s_j)) (\<lambda>t.
                   and_then (checked_pow E A) (\<lambda>p.
                   Inr (acc + t * p)))))))))))))))
                a =
        Inr (fold (\<lambda>j acc. acc + ((mf ! i * mf ! j) / (sqrt (lv ! i) * sqrt (lv ! j))) *
                                   ((2 * sqrt (M ! i) * sqrt (M ! j)) / (M ! i + M ! j)) powr A)
                  [0..<n] a) \<or>
        for_each [0..<n]
                (\<lambda>j acc.
                   and_then (read_at M i) (\<lambda>M_i.
                   and_then (read_at M j) (\<lambda>M_j.
                   and_then (checked_sqrt M_i) (\<lambda>r_i.
                   and_then (checked_sqrt M_j) (\<lambda>r_j.
                   and_then (checked_div (2 * r_i * r_j) (M_i + M_j)) (\<lambda>E.
                   and_then (read_at mf i) (\<lambda>f_i.
                   and_then (read_at mf j) (\<lambda>f_j.
                   and_then (read_at lv i) (\<lambda>mu_i.
                   and_then (read_at lv j) (\<lambda>mu_j.
                   and_then (checked_sqrt mu_i) (\<lambda>s_i.
                   and_then (checked_sqrt mu_j) (\<lambda>s_j.
                   and_then (checked_div (f_i * f_j) (s_i * s_j)) (\<lambda>t.
                   and_then (checked_pow E A) (\<lambda>p.
                   Inr (acc + t * p)))))))))))))))
                a = Inl NonFinite"
    by (rule davidson_inner_checked_agrees [OF assms i])
qed simp_all

lemma davidson_outer_checked_succeeds:
  assumes "n \<le> length M" "n \<le> length mf" "n \<le> length lv"
    and "\<forall>j<n. 0 < M ! j" "\<forall>j<n. 0 < lv ! j"
  shows "for_each [0..<n]
           (\<lambda>i acc0.
              for_each [0..<n]
                (\<lambda>j acc.
                   and_then (read_at M i) (\<lambda>M_i.
                   and_then (read_at M j) (\<lambda>M_j.
                   and_then (checked_sqrt M_i) (\<lambda>r_i.
                   and_then (checked_sqrt M_j) (\<lambda>r_j.
                   and_then (checked_div (2 * r_i * r_j) (M_i + M_j)) (\<lambda>E.
                   and_then (read_at mf i) (\<lambda>f_i.
                   and_then (read_at mf j) (\<lambda>f_j.
                   and_then (read_at lv i) (\<lambda>mu_i.
                   and_then (read_at lv j) (\<lambda>mu_j.
                   and_then (checked_sqrt mu_i) (\<lambda>s_i.
                   and_then (checked_sqrt mu_j) (\<lambda>s_j.
                   and_then (checked_div (f_i * f_j) (s_i * s_j)) (\<lambda>t.
                   and_then (checked_pow E A) (\<lambda>p.
                   Inr (acc + t * p)))))))))))))))
                acc0)
           0 =
         Inr (fold (\<lambda>i acc0.
                fold (\<lambda>j acc. acc + ((mf ! i * mf ! j) / (sqrt (lv ! i) * sqrt (lv ! j))) *
                                   ((2 * sqrt (M ! i) * sqrt (M ! j)) / (M ! i + M ! j)) powr A)
                  [0..<n] acc0) [0..<n] 0)"
proof (rule for_each_succeeds [where I = "\<lambda>a. True"])
  fix i :: nat and a :: real
  assume "i \<in> set [0..<n]"
  then have i: "i < n" by simp
  show "for_each [0..<n]
                (\<lambda>j acc.
                   and_then (read_at M i) (\<lambda>M_i.
                   and_then (read_at M j) (\<lambda>M_j.
                   and_then (checked_sqrt M_i) (\<lambda>r_i.
                   and_then (checked_sqrt M_j) (\<lambda>r_j.
                   and_then (checked_div (2 * r_i * r_j) (M_i + M_j)) (\<lambda>E.
                   and_then (read_at mf i) (\<lambda>f_i.
                   and_then (read_at mf j) (\<lambda>f_j.
                   and_then (read_at lv i) (\<lambda>mu_i.
                   and_then (read_at lv j) (\<lambda>mu_j.
                   and_then (checked_sqrt mu_i) (\<lambda>s_i.
                   and_then (checked_sqrt mu_j) (\<lambda>s_j.
                   and_then (checked_div (f_i * f_j) (s_i * s_j)) (\<lambda>t.
                   and_then (checked_pow E A) (\<lambda>p.
                   Inr (acc + t * p)))))))))))))))
                a =
        Inr (fold (\<lambda>j acc. acc + ((mf ! i * mf ! j) / (sqrt (lv ! i) * sqrt (lv ! j))) *
                                   ((2 * sqrt (M ! i) * sqrt (M ! j)) / (M ! i + M ! j)) powr A)
                  [0..<n] a)"
    by (rule davidson_inner_checked_succeeds [OF assms(1-3) i assms(4,5)])
qed simp_all

lemma checked_div_agrees: "checked_div a b = Inr (a / b) \<or> checked_div a b = Inl NonFinite"
  by (simp add: checked_div_def)

lemma checked_div_succeeds: "b \<noteq> 0 \<Longrightarrow> checked_div a b = Inr (a / b)"
  by (simp add: checked_div_def)

lemma DavidsonViscosity_fluidity:
  assumes "n_species_mixture s \<le> N"
  shows "DavidsonViscosity s vs =
     (let n = n_species_mixture s;
          M = molarMasses s;
          X = moleFractions s;
          lv = fold (\<lambda>iVar a. a[iVar := LaminarViscosityPointers s iVar (Temperature s) (Density s)])
                 [0..<n] (laminarViscosity s);
          S = fold (\<lambda>i acc. acc + X ! i * sqrt (M ! i)) [0..<n] 0;
          mf = fold (\<lambda>j a. a[j := (X ! j * sqrt (M ! j)) / S]) [0..<n] (replicate N 0)
      in (1 / fold (\<lambda>i acc0.
                fold (\<lambda>j acc. acc + ((mf ! i * mf ! j) / (sqrt (lv ! i) * sqrt (lv ! j))) *
                                   ((2 * sqrt (M ! i) * sqrt (M ! j)) / (M ! i + M ! j)) powr 0.375)
                  [0..<n] acc0) [0..<n] 0,
          s\<lparr>laminarViscosity := lv\<rparr>))"
proof -
  define n where "n = n_species_mixture s"
  define S where "S = fold (\<lambda>i acc. acc + moleFractions s ! i * sqrt (molarMasses s ! i)) [0..<n] 0"
  define mfu where "mfu = map (\<lambda>j. (moleFractions s ! j * sqrt (molarMasses s ! j)) / S) [0..<n]"
  define mfc where "mfc = fold (\<lambda>j a. a[j := (moleFractions s ! j * sqrt (molarMasses s ! j)) / S])
                            [0..<n] (replicate N 0)"
  have e: "mfc ! i = mfu ! i" if "i < n" for i
    using that assms by (simp add: mfc_def mfu_def n_def fold_update_nth)
  show ?thesis
    unfolding DavidsonViscosity_def Let_def n_def [symmetric] S_def [symmetric]
      mfu_def [symmetric] mfc_def [symmetric] fold_fold_add_upt
    apply (simp only: prod.inject simp_thms)
    apply (intro arg_cong2 [where f = "(+)"] arg_cong2 [where f = "(/)"] sum.cong refl)
    apply (simp_all add: e)
    done
qed

lemma DavidsonViscosity_checked_agrees:
  assumes "n_species_mixture s \<le> length (laminarViscosity s)"
    and "n_species_mixture s \<le> length (molarMasses s)"
    and "n_species_mixture s \<le> length (moleFractions s)"
    and "n_species_mixture s \<le> ARRAYSIZE base"
  shows "DavidsonViscosity_checked base s vs = Inr (DavidsonViscosity s vs) \<or>
         DavidsonViscosity_checked base s vs = Inl NonFinite"
proof -
  define n where "n = n_species_mixture s"
  define lv where "lv = fold (\<lambda>iVar a. a[iVar := LaminarViscosityPointers s iVar (Temperature s) (Density s)])
                 [0..<n] (laminarViscosity s)"
  define S where "S = fold (\<lambda>i acc. acc + moleFractions s ! i * sqrt (molarMasses s ! i)) [0..<n] 0"
  define mf where "mf = fold (\<lambda>j a. a[j := (moleFractions s ! j * sqrt (molarMasses s ! j)) / S])
                          [0..<n] (replicate (ARRAYSIZE base) 0)"
  define FL where "FL = fold (\<lambda>i acc0.
                fold (\<lambda>j acc. acc + ((mf ! i * mf ! j) / (sqrt (lv ! i) * sqrt (lv ! j))) *
                                   ((2 * sqrt (molarMasses s ! i) * sqrt (molarMasses s ! j)) /
                                    (molarMasses s ! i + molarMasses s ! j)) powr 0.375)
                  [0..<n] acc0) [0..<n] 0"
  have llv: "n \<le> length lv" using assms(1) by (simp add: lv_def n_def fold_update_length)
  have lrep: "n \<le> length (replicate (ARRAYSIZE base) (0::real))"
    using assms(4) by (simp add: n_def)
  have lmf: "n \<le> length mf" using assms(4) by (simp add: mf_def n_def fold_update_length)
  note fill = fill_checked [OF assms(1) [folded n_def],
      where f = "\<lambda>iVar. LaminarViscosityPointers s iVar (Temperature s) (Density s)",
      folded lv_def]
  note sl = davidson_denominator_checked_agrees [OF assms(3) [folded n_def] assms(2) [folded n_def],
      folded S_def]
  note fr = davidson_fractions_checked_agrees [OF assms(3) [folded n_def] assms(2) [folded n_def] lrep,
      where S = S, folded mf_def]
  note ol = davidson_outer_checked_agrees [OF assms(2) [folded n_def] lmf llv,
      where A = "0.375", folded FL_def]
  note dv = checked_div_agrees [where a = 1 and b = FL]
  note res = DavidsonViscosity_fluidity [OF assms(4), where vs = vs, unfolded Let_def,
      folded n_def, folded lv_def S_def, folded mf_def, folded FL_def]
  show ?thesis
    unfolding DavidsonViscosity_checked_def Let_def n_def [symmetric] res
    apply (rule and_then_agree)
     apply (rule disjI1, rule fill)
    apply (rule and_then_agree)
     apply (rule sl)
    apply (rule and_then_agree)
     apply (rule fr)
    apply (rule and_then_agree)
     apply (rule ol)
    apply (rule and_then_agree)
     apply (rule dv)
    apply (rule disjI1)
    apply (rule refl)
    done
qed

lemma DavidsonViscosity_checked_succeeds:
  assumes "n_species_mixture s \<le> length (laminarViscosity s)"
    and "n_species_mixture s \<le> length (molarMasses s)"
    and "n_species_mixture s \<le> length (moleFractions s)"
    and "n_species_mixture s \<le> ARRAYSIZE base"
    and "\<forall>i<n_species_mixture s. 0 < LaminarViscosityPointers s i (Temperature s) (Density s)"
    and "\<forall>i<n_species_mixture s. 0 < molarMasses s ! i"
    and "\<forall>i<n_species_mixture s. 0 \<le> moleFractions s ! i"
    and "(\<Sum>i<n_species_mixture s. moleFractions s ! i) = 1"
  shows "DavidsonViscosity_checked base s vs = Inr (DavidsonViscosity s vs)"
proof -
  define n where "n = n_species_mixture s"
  define lv where "lv = fold (\<lambda>iVar a. a[iVar := LaminarViscosityPointers s iVar (Temperature s) (Density s)])
                 [0..<n] (laminarViscosity s)"
  define S where "S = fold (\<lambda>i acc. acc + moleFractions s ! i * sqrt (molarMasses s ! i)) [0..<n] 0"
  define mf where "mf = fold (\<lambda>j a. a[j := (moleFractions s ! j * sqrt (molarMasses s ! j)) / S])
                          [0..<n] (replicate (ARRAYSIZE base) 0)"
  define FL where "FL = fold (\<lambda>i acc0.
                fold (\<lambda>j acc. acc + ((mf ! i * mf ! j) / (sqrt (lv ! i) * sqrt (lv ! j))) *
                                   ((2 * sqrt (molarMasses s ! i) * sqrt (molarMasses s ! j)) /
                                    (molarMasses s ! i + molarMasses s ! j)) powr 0.375)
                  [0..<n] acc0) [0..<n] 0"
  have llv: "n \<le> length lv" using assms(1) by (simp add: lv_def n_def fold_update_length)
  have lrep: "n \<le> length (replicate (ARRAYSIZE base) (0::real))"
    using assms(4) by (simp add: n_def)
  have lmf: "n \<le> length mf" using assms(4) by (simp add: mf_def n_def fold_update_length)
  have lvpos: "\<forall>i<n. 0 < lv ! i"
    using assms(1,5) by (simp add: lv_def n_def fold_update_nth)
  have Mpos: "\<forall>i<n. 0 < molarMasses s ! i" using assms(6) by (simp add: n_def)
  have Xnn: "\<forall>i<n. 0 \<le> moleFractions s ! i" using assms(7) by (simp add: n_def)
  have Xsum: "(\<Sum>i<n. moleFractions s ! i) = 1" using assms(8) by (simp add: n_def)
  have Ssum: "S = (\<Sum>i<n. moleFractions s ! i * sqrt (molarMasses s ! i))"
    by (simp add: S_def fold_add_upt)
  have Spos: "0 < S"
    unfolding Ssum using Xnn Xsum Mpos by (intro weighted_sum_pos_mult) simp_all
  have mfn: "mf ! i = moleFractions s ! i * sqrt (molarMasses s ! i) / S" if "i < n" for i
    using that lrep by (simp add: mf_def fold_update_nth)
  have mfnn: "\<forall>i<n. 0 \<le> mf ! i"
    using Xnn Mpos Spos by (simp add: mfn less_imp_le)
  have "(\<Sum>i<n. mf ! i) = (\<Sum>i<n. moleFractions s ! i * sqrt (molarMasses s ! i) / S)"
    by (intro sum.cong refl) (simp add: mfn)
  also have "\<dots> = (\<Sum>i<n. moleFractions s ! i * sqrt (molarMasses s ! i)) / S"
    by (simp only: sum_divide_distrib)
  also have "\<dots> = S / S" by (simp only: Ssum [symmetric])
  finally have mfsum: "(\<Sum>i<n. mf ! i) = 1" using Spos by simp
  define c where "c = (\<lambda>i j. ((2 * sqrt (molarMasses s ! i) * sqrt (molarMasses s ! j)) /
                                    (molarMasses s ! i + molarMasses s ! j)) powr 0.375 /
                               (sqrt (lv ! i) * sqrt (lv ! j)))"
  have cpos: "0 < c i j" if "i < n" "j < n" for i j
  proof -
    have "0 < molarMasses s ! i" "0 < molarMasses s ! j" "0 < lv ! i" "0 < lv ! j"
      using that Mpos lvpos by simp_all
    then show ?thesis by (simp add: c_def)
  qed
  have inner: "0 < (\<Sum>j<n. mf ! j * c i j)" if "i < n" for i
    using mfnn mfsum cpos that by (intro weighted_sum_pos_mult) simp_all
  have "FL = (\<Sum>i<n. \<Sum>j<n. mf ! i * (mf ! j * c i j))"
    unfolding FL_def fold_fold_add_upt c_def
    by (simp add: mult.assoc)
  also have "\<dots> = (\<Sum>i<n. mf ! i * (\<Sum>j<n. mf ! j * c i j))"
    by (simp add: sum_distrib_left)
  finally have "FL = (\<Sum>i<n. mf ! i * (\<Sum>j<n. mf ! j * c i j))" .
  moreover have "0 < (\<Sum>i<n. mf ! i * (\<Sum>j<n. mf ! j * c i j))"
    using mfnn mfsum inner by (intro weighted_sum_pos_mult) simp_all
  ultimately have FLne: "FL \<noteq> 0" by simp
  note fill = fill_checked [OF assms(1) [folded n_def],
      where f = "\<lambda>iVar. LaminarViscosityPointers s iVar (Temperature s) (Density s)",
      folded lv_def]
  note sl = davidson_denominator_checked_succeeds [OF assms(3) [folded n_def]
      assms(2) [folded n_def] Mpos, folded S_def]
  have Sne: "S \<noteq> 0" using Spos by simp
  note fr = davidson_fractions_checked_succeeds [OF assms(3) [folded n_def]
      assms(2) [folded n_def] lrep Mpos Sne, folded mf_def]
  note ol = davidson_outer_checked_succeeds [OF assms(2) [folded n_def] lmf llv Mpos lvpos,
      where A = "0.375", folded FL_def]
  note dv = checked_div_succeeds [OF FLne, where a = 1]
  note res = DavidsonViscosity_fluidity [OF assms(4), where vs = vs, unfolded Let_def,
      folded n_def, folded lv_def S_def, folded mf_def, folded FL_def]
  show ?thesis
    unfolding DavidsonViscosity_checked_def Let_def n_def [symmetric] res
    apply (rule and_then_succeeds)
     apply (rule fill)
    apply (rule and_then_succeeds)
     apply (rule sl)
    apply (rule and_then_succeeds)
     apply (rule fr)
    apply (rule and_then_succeeds)
     apply (rule ol)
    apply (rule and_then_succeeds)
     apply (rule dv)
    apply (rule refl)
    done
qed

lemma CFluidCantera_ctor_species:
  assumes "length (molarMasses raw) = ARRAYSIZE base"
    and "length (specificHeat raw) = ARRAYSIZE base"
    and "GetnSpecies config + 1 \<le> ARRAYSIZE base"
  shows "\<exists>s. CFluidCantera_ctor base raw val_Cp R p config = Inr s \<and>
             n_species_mixture s = GetnSpecies config + 1 \<and>
             length (molarMasses s) = ARRAYSIZE base \<and>
             (\<forall>iVar < GetnSpecies config + 1.
                molarMasses s ! iVar = GetMolecular_Weight config iVar \<and>
                specificHeat s ! iVar = GetSpecific_Heat_CpND config iVar)"
proof -
  from CFluidCantera_ctor_succeeds [OF assms(3), of raw val_Cp R p]
  obtain s where s: "CFluidCantera_ctor base raw val_Cp R p config = Inr s"
    and n: "n_species_mixture s = GetnSpecies config + 1"
    and mm: "molarMasses s =
               fold (\<lambda>i a. a[i := GetMolecular_Weight config i]) [0..<GetnSpecies config + 1]
                 (molarMasses raw)"
    and sh: "specificHeat s =
               fold (\<lambda>i a. a[i := GetSpecific_Heat_CpND config i]) [0..<GetnSpecies config + 1]
                 (specificHeat raw)"
    by blast
  have "\<forall>iVar < GetnSpecies config + 1.
          molarMasses s ! iVar = GetMolecular_Weight config iVar \<and>
          specificHeat s ! iVar = GetSpecific_Heat_CpND config iVar"
    using assms unfolding mm sh by (simp add: fold_update_nth del: upt_Suc)
  moreover have "length (molarMasses s) = ARRAYSIZE base"
    unfolding mm using assms(1) by (simp only: fold_update_length)
  ultimately show ?thesis using s n by blast
qed

text \<open>
  Claim C7, as amended. The constructor fails exactly when the number of species of the
  mixture, \<^verbatim>\<open>GetnSpecies() + 1\<close>, exceeds \<^verbatim>\<open>ARRAYSIZE\<close>, and then with the error
  "Too many species, increase ARRAYSIZE". Otherwise it returns an object with that number
  of species whose molar masses and specific heats are those of the configuration, species
  by species. The arrays of an object have \<^verbatim>\<open>ARRAYSIZE\<close> entries, which is their type
  in the source.

  On any object with at least one and at most \<^verbatim>\<open>ARRAYSIZE\<close> species, and scalars for
  all species but the last, each mixing-rule routine (\<open>MassToMoleFractions\<close>,
  \<open>WilkeViscosity\<close>, \<open>DavidsonViscosity\<close>, \<open>WilkeConductivity\<close>) raises no
  error and reads and writes its arrays inside their bounds: it either returns what the
  routine as embedded above returns, or it stops at an arithmetic operation without a finite
  value (a division by zero, the square root or a fractional power of a negative number),
  which the source does not guard against and answers with an infinity or a NaN. That
  second outcome is excluded when the molar masses are positive and, for
  \<open>MassToMoleFractions\<close>, the scalars are non-negative with a sum of at most 1; for the
  two viscosity rules, the stored mole fractions are non-negative with sum 1 and every
  species viscosity model yields a positive viscosity; for \<open>WilkeConductivity\<close>, the
  same with the viscosities stored in \<^verbatim>\<open>laminarViscosity\<close> positive.
\<close>

theorem CFluidCantera_failure_modes:
  assumes raw: "length (molarMasses raw) = ARRAYSIZE base"
      "length (specificHeat raw) = ARRAYSIZE base"
    and n: "1 \<le> n_species_mixture s" "n_species_mixture s \<le> ARRAYSIZE base"
    and sized: "length (massFractions s) = ARRAYSIZE base"
      "length (moleFractions s) = ARRAYSIZE base"
      "length (molarMasses s) = ARRAYSIZE base"
      "length (laminarViscosity s) = ARRAYSIZE base"
      "length (laminarThermalConductivity s) = ARRAYSIZE base"
    and scalars: "n_species_mixture s - 1 \<le> length val_scalars"
  shows "(isl (CFluidCantera_ctor base raw val_Cp val_gas_constant value_pressure_operating config)
            \<longleftrightarrow> ARRAYSIZE base < GetnSpecies config + 1) \<and>
         (ARRAYSIZE base < GetnSpecies config + 1 \<longrightarrow>
            CFluidCantera_ctor base raw val_Cp val_gas_constant value_pressure_operating config =
              Inl (SU2_MPI_Error ''Too many species, increase ARRAYSIZE'')) \<and>
         (GetnSpecies config + 1 \<le> ARRAYSIZE base \<longrightarrow>
            (\<exists>s'. CFluidCantera_ctor base raw val_Cp val_gas_constant value_pressure_operating config
                   = Inr s' \<and>
                 n_species_mixture s' = GetnSpecies config + 1 \<and>
                 length (molarMasses s') = ARRAYSIZE base \<and>
                 (\<forall>iVar < GetnSpecies config + 1.
                    molarMasses s' ! iVar = GetMolecular_Weight config iVar \<and>
                    specificHeat s' ! iVar = GetSpecific_Heat_CpND config iVar))) \<and>
         (MassToMoleFractions_checked s val_scalars = Inr (MassToMoleFractions s val_scalars) \<or>
          MassToMoleFractions_checked s val_scalars = Inl NonFinite) \<and>
         (WilkeViscosity_checked s val_scalars = Inr (WilkeViscosity s val_scalars) \<or>
          WilkeViscosity_checked s val_scalars = Inl NonFinite) \<and>
         (DavidsonViscosity_checked base s val_scalars = Inr (DavidsonViscosity s val_scalars) \<or>
          DavidsonViscosity_checked base s val_scalars = Inl NonFinite) \<and>
         (WilkeConductivity_checked s val_scalars = Inr (WilkeConductivity s val_scalars) \<or>
          WilkeConductivity_checked s val_scalars = Inl NonFinite) \<and>
         ((\<forall>i < n_species_mixture s. 0 < molarMasses s ! i) \<and>
          length val_scalars = n_species_mixture s - 1 \<and>
          (\<forall>y \<in> set val_scalars. 0 \<le> y) \<and> sum_list val_scalars \<le> 1 \<longrightarrow>
            MassToMoleFractions_checked s val_scalars = Inr (MassToMoleFractions s val_scalars)) \<and>
         ((\<forall>i < n_species_mixture s. 0 < molarMasses s ! i) \<and>
          (\<forall>i < n_species_mixture s. 0 \<le> moleFractions s ! i) \<and>
          (\<Sum>i < n_species_mixture s. moleFractions s ! i) = 1 \<and>
          (\<forall>i < n_species_mixture s.
             0 < LaminarViscosityPointers s i (Temperature s) (Density s)) \<longrightarrow>
            WilkeViscosity_checked s val_scalars = Inr (WilkeViscosity s val_scalars) \<and>
            DavidsonViscosity_checked base s val_scalars = Inr (DavidsonViscosity s val_scalars)) \<and>
         ((\<forall>i < n_species_mixture s. 0 < molarMasses s ! i) \<and>
          (\<forall>i < n_species_mixture s. 0 \<le> moleFractions s ! i) \<and>
          (\<Sum>i < n_species_mixture s. moleFractions s ! i) = 1 \<and>
          (\<forall>i < n_species_mixture s. 0 < laminarViscosity s ! i) \<longrightarrow>
            WilkeConductivity_checked s val_scalars = Inr (WilkeConductivity s val_scalars))"
proof -
  have mf: "n_species_mixture s \<le> length (massFractions s)"
    and xf: "n_species_mixture s \<le> length (moleFractions s)"
    and mm: "n_species_mixture s \<le> length (molarMasses s)"
    and lv: "n_species_mixture s \<le> length (laminarViscosity s)"
    and lc: "n_species_mixture s \<le> length (laminarThermalConductivity s)"
    using n(2) sized by simp_all
  have c1: "isl (CFluidCantera_ctor base raw val_Cp val_gas_constant value_pressure_operating config)
            \<longleftrightarrow> ARRAYSIZE base < GetnSpecies config + 1"
  proof (cases "ARRAYSIZE base < GetnSpecies config + 1")
    case True
    then show ?thesis by (simp add: CFluidCantera_ctor_fails)
  next
    case False
    then have "GetnSpecies config + 1 \<le> ARRAYSIZE base" by simp
    from CFluidCantera_ctor_species [OF raw this, of val_Cp val_gas_constant value_pressure_operating]
    obtain s' where
      "CFluidCantera_ctor base raw val_Cp val_gas_constant value_pressure_operating config = Inr s'"
      by blast
    with False show ?thesis by simp
  qed
  have c2: "ARRAYSIZE base < GetnSpecies config + 1 \<longrightarrow>
            CFluidCantera_ctor base raw val_Cp val_gas_constant value_pressure_operating config =
              Inl (SU2_MPI_Error ''Too many species, increase ARRAYSIZE'')"
    by (simp add: CFluidCantera_ctor_fails)
  have c3: "GetnSpecies config + 1 \<le> ARRAYSIZE base \<longrightarrow>
            (\<exists>s'. CFluidCantera_ctor base raw val_Cp val_gas_constant value_pressure_operating config
                   = Inr s' \<and>
                 n_species_mixture s' = GetnSpecies config + 1 \<and>
                 length (molarMasses s') = ARRAYSIZE base \<and>
                 (\<forall>iVar < GetnSpecies config + 1.
                    molarMasses s' ! iVar = GetMolecular_Weight config iVar \<and>
                    specificHeat s' ! iVar = GetSpecific_Heat_CpND config iVar))"
    using CFluidCantera_ctor_species [OF raw] by blast
  note a1 = MassToMoleFractions_checked_agrees [OF n(1) mf xf mm scalars]
  note a2 = WilkeViscosity_checked_agrees [OF lv mm xf, of val_scalars]
  note a3 = DavidsonViscosity_checked_agrees [OF lv mm xf n(2), of val_scalars]
  note a4 = WilkeConductivity_checked_agrees [OF lv mm xf lc, of val_scalars]
  have s1: "(\<forall>i < n_species_mixture s. 0 < molarMasses s ! i) \<and>
          length val_scalars = n_species_mixture s - 1 \<and>
          (\<forall>y \<in> set val_scalars. 0 \<le> y) \<and> sum_list val_scalars \<le> 1 \<longrightarrow>
            MassToMoleFractions_checked s val_scalars = Inr (MassToMoleFractions s val_scalars)"
  proof (intro impI, elim conjE)
    assume M: "\<forall>i < n_species_mixture s. 0 < molarMasses s ! i"
      and l: "length val_scalars = n_species_mixture s - 1"
      and nn: "\<forall>y \<in> set val_scalars. 0 \<le> y" and le: "sum_list val_scalars \<le> 1"
    have M0: "\<forall>i < n_species_mixture s. molarMasses s ! i \<noteq> 0"
      using M by fastforce
    have "0 < (\<Sum>j<n_species_mixture s.
                massFractions (MassToMoleFractions s val_scalars) ! j / molarMasses s ! j)"
      by (rule MassToMoleFractions_divisor_pos [OF n(1) mf l nn le M])
    then have d: "(\<Sum>j<n_species_mixture s.
                massFractions (MassToMoleFractions s val_scalars) ! j / molarMasses s ! j) \<noteq> 0"
      by simp
    show "MassToMoleFractions_checked s val_scalars = Inr (MassToMoleFractions s val_scalars)"
      by (rule MassToMoleFractions_checked_succeeds [OF n(1) mf xf mm scalars M0 d])
  qed
  have s2: "(\<forall>i < n_species_mixture s. 0 < molarMasses s ! i) \<and>
          (\<forall>i < n_species_mixture s. 0 \<le> moleFractions s ! i) \<and>
          (\<Sum>i < n_species_mixture s. moleFractions s ! i) = 1 \<and>
          (\<forall>i < n_species_mixture s.
             0 < LaminarViscosityPointers s i (Temperature s) (Density s)) \<longrightarrow>
            WilkeViscosity_checked s val_scalars = Inr (WilkeViscosity s val_scalars) \<and>
            DavidsonViscosity_checked base s val_scalars = Inr (DavidsonViscosity s val_scalars)"
  proof (intro impI, elim conjE)
    assume M: "\<forall>i < n_species_mixture s. 0 < molarMasses s ! i"
      and X: "\<forall>i < n_species_mixture s. 0 \<le> moleFractions s ! i"
      and S: "(\<Sum>i < n_species_mixture s. moleFractions s ! i) = 1"
      and V: "\<forall>i < n_species_mixture s.
                0 < LaminarViscosityPointers s i (Temperature s) (Density s)"
    have "WilkeViscosity_checked s val_scalars = Inr (WilkeViscosity s val_scalars)"
      by (rule WilkeViscosity_checked_succeeds [OF lv mm xf V M X S])
    moreover
    have "DavidsonViscosity_checked base s val_scalars = Inr (DavidsonViscosity s val_scalars)"
      by (rule DavidsonViscosity_checked_succeeds [OF lv mm xf n(2) V M X S])
    ultimately show "WilkeViscosity_checked s val_scalars = Inr (WilkeViscosity s val_scalars) \<and>
            DavidsonViscosity_checked base s val_scalars = Inr (DavidsonViscosity s val_scalars)"
      by (rule conjI)
  qed
  have s3: "(\<forall>i < n_species_mixture s. 0 < molarMasses s ! i) \<and>
          (\<forall>i < n_species_mixture s. 0 \<le> moleFractions s ! i) \<and>
          (\<Sum>i < n_species_mixture s. moleFractions s ! i) = 1 \<and>
          (\<forall>i < n_species_mixture s. 0 < laminarViscosity s ! i) \<longrightarrow>
            WilkeConductivity_checked s val_scalars = Inr (WilkeConductivity s val_scalars)"
  proof (intro impI, elim conjE)
    assume M: "\<forall>i < n_species_mixture s. 0 < molarMasses s ! i"
      and X: "\<forall>i < n_species_mixture s. 0 \<le> moleFractions s ! i"
      and S: "(\<Sum>i < n_species_mixture s. moleFractions s ! i) = 1"
      and V: "\<forall>i < n_species_mixture s. 0 < laminarViscosity s ! i"
    show "WilkeConductivity_checked s val_scalars = Inr (WilkeConductivity s val_scalars)"
      by (rule WilkeConductivity_checked_succeeds [OF lv mm xf lc V M X S])
  qed
  from c1 c2 c3 a1 a2 a3 a4 s1 s2 s3 show ?thesis
    by (intro conjI)
qed

text \<open>
  The theorem at \<^verbatim>\<open>ARRAYSIZE = 3\<close>: four species are one too many, two species are
  constructed with the molar masses 2 and 4 and the specific heats 1 and 3. On an object of
  two species of molar mass 2 with the mole fractions 1/4 and 3/4, whose viscosity models
  yield 3 and whose conductivity models yield 5, every routine returns: both viscosity
  rules give 3 and the conductivity rule gives 5.
\<close>

theorem CFluidCantera_failure_modes_witness:
  "CFluidCantera_ctor (example_base 3) (raw_object 3) 1 1 100
       ((example_config WILKE True)\<lparr>GetnSpecies := 3\<rparr>) =
     Inl (SU2_MPI_Error ''Too many species, increase ARRAYSIZE'') \<and>
   (\<exists>s'. CFluidCantera_ctor (example_base 3) (raw_object 3) 1 1 100 (example_config WILKE True)
            = Inr s' \<and>
        n_species_mixture s' = 2 \<and>
        molarMasses s' ! 0 = 2 \<and> molarMasses s' ! 1 = 4 \<and>
        specificHeat s' ! 0 = 1 \<and> specificHeat s' ! 1 = 3) \<and>
   MassToMoleFractions_checked
       ((example_fluid True False [2, 2, 0])\<lparr>laminarViscosity := [3, 3, 0]\<rparr>) [1 / 4] =
     Inr (MassToMoleFractions
       ((example_fluid True False [2, 2, 0])\<lparr>laminarViscosity := [3, 3, 0]\<rparr>) [1 / 4]) \<and>
   WilkeViscosity_checked
       ((example_fluid True False [2, 2, 0])\<lparr>laminarViscosity := [3, 3, 0]\<rparr>) [1 / 4] =
     Inr (WilkeViscosity
       ((example_fluid True False [2, 2, 0])\<lparr>laminarViscosity := [3, 3, 0]\<rparr>) [1 / 4]) \<and>
   DavidsonViscosity_checked (example_base 3)
       ((example_fluid True False [2, 2, 0])\<lparr>laminarViscosity := [3, 3, 0]\<rparr>) [1 / 4] =
     Inr (DavidsonViscosity
       ((example_fluid True False [2, 2, 0])\<lparr>laminarViscosity := [3, 3, 0]\<rparr>) [1 / 4]) \<and>
   WilkeConductivity_checked
       ((example_fluid True False [2, 2, 0])\<lparr>laminarViscosity := [3, 3, 0]\<rparr>) [1 / 4] =
     Inr (WilkeConductivity
       ((example_fluid True False [2, 2, 0])\<lparr>laminarViscosity := [3, 3, 0]\<rparr>) [1 / 4]) \<and>
   fst (WilkeViscosity
       ((example_fluid True False [2, 2, 0])\<lparr>laminarViscosity := [3, 3, 0]\<rparr>) [1 / 4]) = 3 \<and>
   fst (DavidsonViscosity
       ((example_fluid True False [2, 2, 0])\<lparr>laminarViscosity := [3, 3, 0]\<rparr>) [1 / 4]) = 3 \<and>
   fst (WilkeConductivity
       ((example_fluid True False [2, 2, 0])\<lparr>laminarViscosity := [3, 3, 0]\<rparr>) [1 / 4]) = 5"
proof -
  let ?s = "(example_fluid True False [2, 2, 0])\<lparr>laminarViscosity := [3, 3, 0]\<rparr>"
  let ?few = "example_config WILKE True"
  let ?many = "(example_config WILKE True)\<lparr>GetnSpecies := 3\<rparr>"
  have ex: "n_species_mixture ?s = 2" "molarMasses ?s = [2, 2, 0]"
    "massFractions ?s = [0, 0, 0]" "moleFractions ?s = [1 / 4, 3 / 4, 0]"
    "laminarViscosity ?s = [3, 3, 0]" "laminarThermalConductivity ?s = [0, 0, 0]"
    "LaminarViscosityPointers ?s = (\<lambda>iVar T rho. 3)"
    "ThermalConductivityPointers ?s = (\<lambda>iVar T rho mu_lam mu_turb cp a b. 5)"
    by (simp_all add: example_fluid_def)
  have raw: "length (molarMasses (raw_object 3)) = ARRAYSIZE (example_base 3)"
    "length (specificHeat (raw_object 3)) = ARRAYSIZE (example_base 3)"
    by (simp_all add: raw_object_def example_fluid_def example_base_def)
  have n: "1 \<le> n_species_mixture ?s" "n_species_mixture ?s \<le> ARRAYSIZE (example_base 3)"
    by (simp_all add: ex example_base_def)
  have sized: "length (massFractions ?s) = ARRAYSIZE (example_base 3)"
      "length (moleFractions ?s) = ARRAYSIZE (example_base 3)"
      "length (molarMasses ?s) = ARRAYSIZE (example_base 3)"
      "length (laminarViscosity ?s) = ARRAYSIZE (example_base 3)"
      "length (laminarThermalConductivity ?s) = ARRAYSIZE (example_base 3)"
    by (simp_all add: ex example_base_def)
  have scalars: "n_species_mixture ?s - 1 \<le> length [1 / 4 :: real]"
    by (simp add: ex)
  note few = CFluidCantera_failure_modes [OF raw n sized scalars,
      where val_Cp = 1 and val_gas_constant = 1 and value_pressure_operating = 100
        and config = ?few]
  note many = CFluidCantera_failure_modes [OF raw n sized scalars,
      where val_Cp = 1 and val_gas_constant = 1 and value_pressure_operating = 100
        and config = ?many]
  have too_many: "ARRAYSIZE (example_base 3) < GetnSpecies ?many + 1"
    by (simp add: example_base_def example_config_def)
  have fits: "GetnSpecies ?few + 1 \<le> ARRAYSIZE (example_base 3)"
    by (simp add: example_base_def example_config_def)
  have M: "\<forall>i < n_species_mixture ?s. 0 < molarMasses ?s ! i"
    by (simp add: ex less_Suc_eq numeral_2_eq_2)
  have X: "\<forall>i < n_species_mixture ?s. 0 \<le> moleFractions ?s ! i"
    by (simp add: ex less_Suc_eq numeral_2_eq_2)
  have S: "(\<Sum>i < n_species_mixture ?s. moleFractions ?s ! i) = 1"
    by (simp add: ex numeral_2_eq_2)
  have V: "\<forall>i < n_species_mixture ?s.
             0 < LaminarViscosityPointers ?s i (Temperature ?s) (Density ?s)"
    by (simp add: ex)
  have L: "\<forall>i < n_species_mixture ?s. 0 < laminarViscosity ?s ! i"
    by (simp add: ex less_Suc_eq numeral_2_eq_2)
  have Y: "length [1 / 4 :: real] = n_species_mixture ?s - 1"
    "\<forall>y \<in> set [1 / 4 :: real]. 0 \<le> y" "sum_list [1 / 4 :: real] \<le> 1"
    by (simp_all add: ex)
  have w1: "CFluidCantera_ctor (example_base 3) (raw_object 3) 1 1 100 ?many =
     Inl (SU2_MPI_Error ''Too many species, increase ARRAYSIZE'')"
    using many [THEN conjunct2, THEN conjunct1] too_many by blast
  have "\<exists>s'. CFluidCantera_ctor (example_base 3) (raw_object 3) 1 1 100 ?few = Inr s' \<and>
        n_species_mixture s' = GetnSpecies ?few + 1 \<and>
        length (molarMasses s') = ARRAYSIZE (example_base 3) \<and>
        (\<forall>iVar < GetnSpecies ?few + 1.
           molarMasses s' ! iVar = GetMolecular_Weight ?few iVar \<and>
           specificHeat s' ! iVar = GetSpecific_Heat_CpND ?few iVar)"
    using few [THEN conjunct2, THEN conjunct2, THEN conjunct1] fits by blast
  then obtain s' where s': "CFluidCantera_ctor (example_base 3) (raw_object 3) 1 1 100 ?few = Inr s'"
    and ns: "n_species_mixture s' = GetnSpecies ?few + 1"
    and each: "\<forall>iVar < GetnSpecies ?few + 1.
           molarMasses s' ! iVar = GetMolecular_Weight ?few iVar \<and>
           specificHeat s' ! iVar = GetSpecific_Heat_CpND ?few iVar"
    by blast
  have "n_species_mixture s' = 2 \<and>
        molarMasses s' ! 0 = 2 \<and> molarMasses s' ! 1 = 4 \<and>
        specificHeat s' ! 0 = 1 \<and> specificHeat s' ! 1 = 3"
    using ns each [rule_format, of 0] each [rule_format, of 1]
    by (simp add: example_config_def)
  with s' have w2: "\<exists>s'. CFluidCantera_ctor (example_base 3) (raw_object 3) 1 1 100 ?few = Inr s' \<and>
        n_species_mixture s' = 2 \<and>
        molarMasses s' ! 0 = 2 \<and> molarMasses s' ! 1 = 4 \<and>
        specificHeat s' ! 0 = 1 \<and> specificHeat s' ! 1 = 3"
    by blast
  note rest = few [THEN conjunct2, THEN conjunct2, THEN conjunct2, THEN conjunct2,
      THEN conjunct2, THEN conjunct2, THEN conjunct2]
  have w3: "MassToMoleFractions_checked ?s [1 / 4] = Inr (MassToMoleFractions ?s [1 / 4])"
    using rest [THEN conjunct1] M Y by blast
  have w45: "WilkeViscosity_checked ?s [1 / 4] = Inr (WilkeViscosity ?s [1 / 4]) \<and>
     DavidsonViscosity_checked (example_base 3) ?s [1 / 4] = Inr (DavidsonViscosity ?s [1 / 4])"
    using rest [THEN conjunct2, THEN conjunct1] M X S V by blast
  have w6: "WilkeConductivity_checked ?s [1 / 4] = Inr (WilkeConductivity ?s [1 / 4])"
    using rest [THEN conjunct2, THEN conjunct2] M X S L by blast
  have M2: "\<forall>i < n_species_mixture ?s. molarMasses ?s ! i = 2"
    by (simp add: ex less_Suc_eq numeral_2_eq_2)
  have v1: "fst (WilkeViscosity ?s [1 / 4]) = 3"
    by (rule WilkeViscosity_identical [OF _ M2 _ _ _ S]) (simp_all add: ex)
  have L3: "\<forall>i < n_species_mixture ?s. laminarViscosity ?s ! i = 3"
    by (simp add: ex less_Suc_eq numeral_2_eq_2)
  have v3: "fst (WilkeConductivity ?s [1 / 4]) = 5"
    by (rule WilkeConductivity_identical [OF _ M2 _ L3 _ _ S]) (simp_all add: ex)
  have lv: "n_species_mixture ?s \<le> length (laminarViscosity ?s)"
    by (simp add: ex)
  have v2: "fst (DavidsonViscosity ?s [1 / 4]) = 3"
    unfolding DavidsonViscosity_closed [OF lv] Let_def ex
    by (simp add: sum_upto_2 field_simps)
  from w1 w2 w3 w45 w6 v1 v2 v3 show ?thesis by (intro conjI) blast+
qed

text \<open>
  The claim as it was stated fails: the array-size guard is passed and a mixing-rule routine
  still has no finite result. A configuration of two species whose molecular weights are 0
  is constructed without error, and \<open>MassToMoleFractions\<close> on the constructed object
  divides a mass fraction by the molar mass 0. On an object of two species whose array
  \<^verbatim>\<open>laminarViscosity\<close> holds zeros (only the two viscosity rules write that array),
  \<open>WilkeConductivity\<close> divides a viscosity 0 by a viscosity 0.
\<close>

theorem CFluidCantera_failure_modes_counterexample:
  "GetnSpecies ((example_config WILKE True)\<lparr>GetMolecular_Weight := (\<lambda>iVar. 0)\<rparr>) + 1
     \<le> ARRAYSIZE (example_base 3) \<and>
   \<not> isl (CFluidCantera_ctor (example_base 3) (raw_object 3) 1 1 100
            ((example_config WILKE True)\<lparr>GetMolecular_Weight := (\<lambda>iVar. 0)\<rparr>)) \<and>
   MassToMoleFractions_checked
     (projr (CFluidCantera_ctor (example_base 3) (raw_object 3) 1 1 100
               ((example_config WILKE True)\<lparr>GetMolecular_Weight := (\<lambda>iVar. 0)\<rparr>)))
     [1 / 4] = Inl NonFinite \<and>
   WilkeConductivity_checked (example_fluid False False [2, 2, 0]) [1 / 4] = Inl NonFinite"
proof -
  have a: "GetnSpecies ((example_config WILKE True)\<lparr>GetMolecular_Weight := (\<lambda>iVar. 0)\<rparr>) + 1
     \<le> ARRAYSIZE (example_base 3)"
    by (simp add: example_config_def example_base_def)
  have b: "MassToMoleFractions_checked
     (projr (CFluidCantera_ctor (example_base 3) (raw_object 3) 1 1 100
               ((example_config WILKE True)\<lparr>GetMolecular_Weight := (\<lambda>iVar. 0)\<rparr>)))
     [1 / 4] = Inl NonFinite"
    by (simp add: CFluidCantera_ctor_def MassToMoleFractions_checked_def Let_def
        example_config_def example_base_def raw_object_def example_fluid_def
        read_at_def write_at_def checked_div_def and_then_def numeral_2_eq_2)
  have c: "\<not> isl (CFluidCantera_ctor (example_base 3) (raw_object 3) 1 1 100
            ((example_config WILKE True)\<lparr>GetMolecular_Weight := (\<lambda>iVar. 0)\<rparr>))"
    by (simp add: CFluidCantera_ctor_def Let_def example_config_def example_base_def)
  have d: "WilkeConductivity_checked (example_fluid False False [2, 2, 0]) [1 / 4] = Inl NonFinite"
    by (simp add: WilkeConductivity_checked_def wilkeDenumerator_checked_def phi_checked_def
        Let_def example_fluid_def read_at_def write_at_def checked_div_def and_then_def
        numeral_2_eq_2)
  from a b c d show ?thesis by blast
qed

section \<open>The accessors by point\<close>

lemma fill_values_map: "fill_values n f = map f [0..<n]"
  by (rule nth_equalityI) (simp_all add: fill_values_def fold_update_length fold_update_nth)

lemmas per_point_defs = GetSpeedOfSound_point_def GetLaminarViscosities_point_def GetEddyViscosities_point_def GetThermalConductivities_point_def GetHeatFluxes_point_def GetCoordinatesCoordinatesSensitivities_point_def GetObjectiveStatesSensitivities_point_def GetResidualsStatesSensitivities_point_def GetForcesStatesSensitivities_point_def GetObjectiveCoordinatesSensitivities_point_def GetResidualsCoordinatesSensitivities_point_def GetForcesCoordinatesSensitivities_point_def

lemma per_point_out_of_range:
  assumes "GetNumberVertices d \<le> iPoint"
  shows "isl (GetSpeedOfSound_point d iPoint) \<and>
         isl (GetLaminarViscosities_point d iPoint) \<and>
         isl (GetEddyViscosities_point d iPoint) \<and>
         isl (GetThermalConductivities_point d iPoint) \<and>
         isl (GetHeatFluxes_point d iPoint) \<and>
         isl (GetCoordinatesCoordinatesSensitivities_point d iPoint) \<and>
         isl (GetObjectiveStatesSensitivities_point d iPoint) \<and>
         isl (GetResidualsStatesSensitivities_point d iPoint) \<and>
         isl (GetForcesStatesSensitivities_point d iPoint) \<and>
         isl (GetObjectiveCoordinatesSensitivities_point d iPoint) \<and>
         isl (GetResidualsCoordinatesSensitivities_point d iPoint) \<and>
         isl (GetForcesCoordinatesSensitivities_point d iPoint)"
  using assms by (simp add: per_point_defs)

lemma flow_in_range:
  assumes "iPoint < GetNumberVertices d" "GetFluidProblem (main_config d)"
  shows "GetLaminarViscosities_point d iPoint = Inr (GetLaminarViscosity d iPoint)"
    and "GetEddyViscosities_point d iPoint = Inr (GetEddyViscosity d iPoint)"
    and "GetThermalConductivities_point d iPoint =
           Inr ((GetGamma (main_config d) / (GetGamma (main_config d) - 1)) *
                  GetGas_ConstantND (main_config d) *
                (GetLaminarViscosity d iPoint / GetPrandtl_Lam (main_config d)))"
    and "GetHeatFluxes_point d iPoint =
           Inr (if GetKind_Regime (main_config d) = COMPRESSIBLE
                then map (\<lambda>iDim. - ((GetGamma (main_config d) / (GetGamma (main_config d) - 1)) *
                                      GetGas_ConstantND (main_config d) *
                                    (GetLaminarViscosity d iPoint / GetPrandtl_Lam (main_config d))) *
                                  GetGradient_Primitive d iPoint 0 iDim) [0..<nDim d]
                else replicate (nDim d) 0)"
  using assms by (simp_all add: per_point_defs Let_def fill_values_map)

lemma adjoint_in_range:
  assumes "iPoint < GetNumberVertices d" "GetFluidProblem (main_config d)"
    "GetDiscrete_Adjoint (main_config d)" "GetKind_DiscreteAdjoint (main_config d) = RESIDUALS"
  shows "GetCoordinatesCoordinatesSensitivities_point d iPoint =
           Inr (map (\<lambda>iDim. GetProd_dCoordinates_dCoordinates d iPoint iDim) [0..<nDim d]) \<and>
         GetObjectiveStatesSensitivities_point d iPoint =
           Inr (map (\<lambda>iVar. GetSens_dObjective_dStates d iPoint iVar) [0..<GetnVar d]) \<and>
         GetResidualsStatesSensitivities_point d iPoint =
           Inr (map (\<lambda>iVar. GetProd_dResiduals_dStates d iPoint iVar) [0..<GetnVar d]) \<and>
         GetForcesStatesSensitivities_point d iPoint =
           Inr (map (\<lambda>iVar. GetProd_dTractions_dStates d iPoint iVar) [0..<GetnVar d]) \<and>
         GetObjectiveCoordinatesSensitivities_point d iPoint =
           Inr (map (\<lambda>iDim. GetSens_dObjective_dCoordinates d iPoint iDim) [0..<nDim d]) \<and>
         GetResidualsCoordinatesSensitivities_point d iPoint =
           Inr (map (\<lambda>iDim. GetProd_dResiduals_dCoordinates d iPoint iDim) [0..<nDim d]) \<and>
         GetForcesCoordinatesSensitivities_point d iPoint =
           Inr (map (\<lambda>iDim. GetProd_dTractions_dCoordinates d iPoint iDim) [0..<nDim d])"
  using assms by (simp add: per_point_defs GetNumberStateVariables_def fill_values_map)

lemma GetSpeedOfSound_point_value:
  "GetSpeedOfSound_point d iPoint = Inr v \<Longrightarrow> v = GetSoundSpeed d iPoint"
  by (simp add: GetSpeedOfSound_point_def split: if_splits)

lemma example_driver_simps:
  "GetFluidProblem (main_config (example_driver fluid)) = fluid"
  "GetDiscrete_Adjoint (main_config (example_driver fluid)) = True"
  "GetKind_DiscreteAdjoint (main_config (example_driver fluid)) = RESIDUALS"
  "GetKind_Regime (main_config (example_driver fluid)) = COMPRESSIBLE"
  "GetGamma (main_config (example_driver fluid)) = 7 / 5"
  "GetGas_ConstantND (main_config (example_driver fluid)) = 2"
  "GetPrandtl_Lam (main_config (example_driver fluid)) = 7 / 10"
  "nDim (example_driver fluid) = 2"
  "GetNumberVertices (example_driver fluid) = 3"
  "GetNumberMarkerVertices (example_driver fluid) iMarker = (if iMarker = 0 then 2 else 0)"
  "GetMarkerVertexIndices (example_driver fluid) iMarker iVertex = iVertex + 1"
  "GetnVar (example_driver fluid) = 4"
  "GetSoundSpeed (example_driver fluid) iPoint = 340 + real iPoint"
  "GetLaminarViscosity (example_driver fluid) iPoint = 1 + real iPoint"
  "GetEddyViscosity (example_driver fluid) iPoint = 10 + real iPoint"
  "GetGradient_Primitive (example_driver fluid) iPoint iVar iDim = real iDim + 1"
  "GetAdjointVertexTractions (example_driver fluid) iMarker iVertex iDim = 0"
  "GetSens_dObjective_dStates (example_driver fluid) iPoint iVar = real (10 * iPoint + iVar)"
  "GetProd_dCoordinates_dCoordinates (example_driver fluid) iPoint iDim = real (10 * iPoint + iDim)"
  by (simp_all add: example_driver_def example_config_def)

lemma upt_2: "[0..<2] = [0, 1]"
  by (simp add: numeral_2_eq_2)

lemma upt_4: "[0..<4] = [0, 1, 2, 3]"
  by (simp add: upt_rec)

lemma push_back_each_two:
  "push_back_each f [0..<2] [] =
     (case f 0 of Inl e \<Rightarrow> Inl e
      | Inr a \<Rightarrow> (case f 1 of Inl e \<Rightarrow> Inl e | Inr b \<Rightarrow> Inr [a, b]))"
  by (simp add: upt_2 split: sum.splits)

lemma StoreVertexTractionsAdjoint_simps:
  "nDim (StoreVertexTractionsAdjoint d m v k x) = nDim d"
  "main_config (StoreVertexTractionsAdjoint d m v k x) = main_config d"
  "GetNumberMarkerVertices (StoreVertexTractionsAdjoint d m v k x) = GetNumberMarkerVertices d"
  "GetAdjointVertexTractions (StoreVertexTractionsAdjoint d m v k x) m' v' k' =
     (if m' = m \<and> v' = v \<and> k' = k then x else GetAdjointVertexTractions d m' v' k')"
  by (simp_all add: StoreVertexTractionsAdjoint_def)

text \<open>
  Claim C4, as amended. Called with a point index at or beyond the number of vertices,
  each of \<^verbatim>\<open>GetSpeedOfSound\<close>, \<^verbatim>\<open>GetLaminarViscosities\<close>, \<^verbatim>\<open>GetEddyViscosities\<close>,
  \<^verbatim>\<open>GetThermalConductivities\<close>, \<^verbatim>\<open>GetHeatFluxes\<close> and the seven sensitivity getters
  fails with an error. Called with an index in range, \<^verbatim>\<open>GetSpeedOfSound\<close> returns
  nothing but the sound speed of the point. When a fluid problem is configured,
  \<^verbatim>\<open>GetLaminarViscosities\<close> and \<^verbatim>\<open>GetEddyViscosities\<close> return the flow solver's entry
  of the point, \<^verbatim>\<open>GetThermalConductivities\<close> returns
  \<open>Gamma / (Gamma - 1) * Gas_ConstantND\<close> times the laminar viscosity of the point over
  the laminar Prandtl number, and \<^verbatim>\<open>GetHeatFluxes\<close> returns, in the compressible
  regime, minus that conductivity times the temperature gradient in every dimension, and
  \<^verbatim>\<open>nDim\<close> zeros in any other regime. When moreover the discrete adjoint is
  configured in its residual-based formulation, each sensitivity getter returns the
  adjoint solver's entries of the point, one for each dimension or state variable.
\<close>

theorem per_point_accessors:
  "(GetNumberVertices d \<le> iPoint \<longrightarrow>
      isl (GetSpeedOfSound_point d iPoint) \<and>
      isl (GetLaminarViscosities_point d iPoint) \<and>
      isl (GetEddyViscosities_point d iPoint) \<and>
      isl (GetThermalConductivities_point d iPoint) \<and>
      isl (GetHeatFluxes_point d iPoint) \<and>
      isl (GetCoordinatesCoordinatesSensitivities_point d iPoint) \<and>
      isl (GetObjectiveStatesSensitivities_point d iPoint) \<and>
      isl (GetResidualsStatesSensitivities_point d iPoint) \<and>
      isl (GetForcesStatesSensitivities_point d iPoint) \<and>
      isl (GetObjectiveCoordinatesSensitivities_point d iPoint) \<and>
      isl (GetResidualsCoordinatesSensitivities_point d iPoint) \<and>
      isl (GetForcesCoordinatesSensitivities_point d iPoint)) \<and>
   (iPoint < GetNumberVertices d \<longrightarrow>
      (\<forall>v. GetSpeedOfSound_point d iPoint = Inr v \<longrightarrow> v = GetSoundSpeed d iPoint) \<and>
      (GetFluidProblem (main_config d) \<longrightarrow>
         GetLaminarViscosities_point d iPoint = Inr (GetLaminarViscosity d iPoint) \<and>
         GetEddyViscosities_point d iPoint = Inr (GetEddyViscosity d iPoint) \<and>
         GetThermalConductivities_point d iPoint =
           Inr ((GetGamma (main_config d) / (GetGamma (main_config d) - 1)) *
                  GetGas_ConstantND (main_config d) *
                (GetLaminarViscosity d iPoint / GetPrandtl_Lam (main_config d))) \<and>
         GetHeatFluxes_point d iPoint =
           Inr (if GetKind_Regime (main_config d) = COMPRESSIBLE
                then map (\<lambda>iDim. - ((GetGamma (main_config d) / (GetGamma (main_config d) - 1)) *
                                      GetGas_ConstantND (main_config d) *
                                    (GetLaminarViscosity d iPoint / GetPrandtl_Lam (main_config d))) *
                                  GetGradient_Primitive d iPoint 0 iDim) [0..<nDim d]
                else replicate (nDim d) 0)) \<and>
      (GetFluidProblem (main_config d) \<and> GetDiscrete_Adjoint (main_config d) \<and>
       GetKind_DiscreteAdjoint (main_config d) = RESIDUALS \<longrightarrow>
         GetCoordinatesCoordinatesSensitivities_point d iPoint =
           Inr (map (\<lambda>iDim. GetProd_dCoordinates_dCoordinates d iPoint iDim) [0..<nDim d]) \<and>
         GetObjectiveStatesSensitivities_point d iPoint =
           Inr (map (\<lambda>iVar. GetSens_dObjective_dStates d iPoint iVar) [0..<GetnVar d]) \<and>
         GetResidualsStatesSensitivities_point d iPoint =
           Inr (map (\<lambda>iVar. GetProd_dResiduals_dStates d iPoint iVar) [0..<GetnVar d]) \<and>
         GetForcesStatesSensitivities_point d iPoint =
           Inr (map (\<lambda>iVar. GetProd_dTractions_dStates d iPoint iVar) [0..<GetnVar d]) \<and>
         GetObjectiveCoordinatesSensitivities_point d iPoint =
           Inr (map (\<lambda>iDim. GetSens_dObjective_dCoordinates d iPoint iDim) [0..<nDim d]) \<and>
         GetResidualsCoordinatesSensitivities_point d iPoint =
           Inr (map (\<lambda>iDim. GetProd_dResiduals_dCoordinates d iPoint iDim) [0..<nDim d]) \<and>
         GetForcesCoordinatesSensitivities_point d iPoint =
           Inr (map (\<lambda>iDim. GetProd_dTractions_dCoordinates d iPoint iDim) [0..<nDim d])))"
proof (intro conjI impI allI)
  assume "GetNumberVertices d \<le> iPoint"
  note o = per_point_out_of_range [OF this]
  show "isl (GetSpeedOfSound_point d iPoint)"
    "isl (GetLaminarViscosities_point d iPoint)"
    "isl (GetEddyViscosities_point d iPoint)"
    "isl (GetThermalConductivities_point d iPoint)"
    "isl (GetHeatFluxes_point d iPoint)"
    "isl (GetCoordinatesCoordinatesSensitivities_point d iPoint)"
    "isl (GetObjectiveStatesSensitivities_point d iPoint)"
    "isl (GetResidualsStatesSensitivities_point d iPoint)"
    "isl (GetForcesStatesSensitivities_point d iPoint)"
    "isl (GetObjectiveCoordinatesSensitivities_point d iPoint)"
    "isl (GetResidualsCoordinatesSensitivities_point d iPoint)"
    "isl (GetForcesCoordinatesSensitivities_point d iPoint)"
    using o by blast+
next
  fix v assume "GetSpeedOfSound_point d iPoint = Inr v"
  then show "v = GetSoundSpeed d iPoint" by (rule GetSpeedOfSound_point_value)
next
  assume a: "iPoint < GetNumberVertices d" "GetFluidProblem (main_config d)"
  show "GetLaminarViscosities_point d iPoint = Inr (GetLaminarViscosity d iPoint)"
    "GetEddyViscosities_point d iPoint = Inr (GetEddyViscosity d iPoint)"
    by (rule flow_in_range [OF a])+
  show "GetThermalConductivities_point d iPoint =
           Inr ((GetGamma (main_config d) / (GetGamma (main_config d) - 1)) *
                  GetGas_ConstantND (main_config d) *
                (GetLaminarViscosity d iPoint / GetPrandtl_Lam (main_config d)))"
    by (rule flow_in_range [OF a])
  show "GetHeatFluxes_point d iPoint =
           Inr (if GetKind_Regime (main_config d) = COMPRESSIBLE
                then map (\<lambda>iDim. - ((GetGamma (main_config d) / (GetGamma (main_config d) - 1)) *
                                      GetGas_ConstantND (main_config d) *
                                    (GetLaminarViscosity d iPoint / GetPrandtl_Lam (main_config d))) *
                                  GetGradient_Primitive d iPoint 0 iDim) [0..<nDim d]
                else replicate (nDim d) 0)"
    by (rule flow_in_range [OF a])
next
  assume a: "iPoint < GetNumberVertices d"
    and b: "GetFluidProblem (main_config d) \<and> GetDiscrete_Adjoint (main_config d) \<and>
       GetKind_DiscreteAdjoint (main_config d) = RESIDUALS"
  from b have b1: "GetFluidProblem (main_config d)" and b2: "GetDiscrete_Adjoint (main_config d)"
    and b3: "GetKind_DiscreteAdjoint (main_config d) = RESIDUALS" by simp_all
  note r = adjoint_in_range [OF a b1 b2 b3]
  show "GetCoordinatesCoordinatesSensitivities_point d iPoint =
           Inr (map (\<lambda>iDim. GetProd_dCoordinates_dCoordinates d iPoint iDim) [0..<nDim d])"
    "GetObjectiveStatesSensitivities_point d iPoint =
           Inr (map (\<lambda>iVar. GetSens_dObjective_dStates d iPoint iVar) [0..<GetnVar d])"
    "GetResidualsStatesSensitivities_point d iPoint =
           Inr (map (\<lambda>iVar. GetProd_dResiduals_dStates d iPoint iVar) [0..<GetnVar d])"
    "GetForcesStatesSensitivities_point d iPoint =
           Inr (map (\<lambda>iVar. GetProd_dTractions_dStates d iPoint iVar) [0..<GetnVar d])"
    "GetObjectiveCoordinatesSensitivities_point d iPoint =
           Inr (map (\<lambda>iDim. GetSens_dObjective_dCoordinates d iPoint iDim) [0..<nDim d])"
    "GetResidualsCoordinatesSensitivities_point d iPoint =
           Inr (map (\<lambda>iDim. GetProd_dResiduals_dCoordinates d iPoint iDim) [0..<nDim d])"
    "GetForcesCoordinatesSensitivities_point d iPoint =
           Inr (map (\<lambda>iDim. GetProd_dTractions_dCoordinates d iPoint iDim) [0..<nDim d])"
    using r by blast+
qed

text \<open>
  The theorem at the index 3 of a mesh of three points and at the index 2.
\<close>

theorem per_point_accessors_witness:
  "isl (GetSpeedOfSound_point (example_driver True) 3) \<and>
   isl (GetLaminarViscosities_point (example_driver True) 3) \<and>
   isl (GetHeatFluxes_point (example_driver True) 3) \<and>
   isl (GetObjectiveStatesSensitivities_point (example_driver True) 3) \<and>
   GetLaminarViscosities_point (example_driver True) 2 = Inr 3 \<and>
   GetEddyViscosities_point (example_driver True) 2 = Inr 12 \<and>
   GetThermalConductivities_point (example_driver True) 2 = Inr 30 \<and>
   GetHeatFluxes_point (example_driver True) 2 = Inr [- 30, - 60] \<and>
   GetCoordinatesCoordinatesSensitivities_point (example_driver True) 2 = Inr [20, 21] \<and>
   GetObjectiveStatesSensitivities_point (example_driver True) 2 = Inr [20, 21, 22, 23]"
proof -
  have out: "GetNumberVertices (example_driver True) \<le> 3"
    and inr: "2 < GetNumberVertices (example_driver True)"
    by (simp_all add: example_driver_simps)
  note A = per_point_accessors [of "example_driver True" 3, THEN conjunct1, rule_format, OF out]
  note B = per_point_accessors [of "example_driver True" 2, THEN conjunct2, rule_format, OF inr]
  note B1 = B [THEN conjunct2, THEN conjunct1, rule_format]
  note B2 = B [THEN conjunct2, THEN conjunct2, rule_format]
  have "GetLaminarViscosities_point (example_driver True) 2 = Inr 3"
    "GetEddyViscosities_point (example_driver True) 2 = Inr 12"
    "GetThermalConductivities_point (example_driver True) 2 = Inr 30"
    "GetHeatFluxes_point (example_driver True) 2 = Inr [- 30, - 60]"
    using B1 by (simp_all add: example_driver_simps upt_2)
  moreover have
    "GetCoordinatesCoordinatesSensitivities_point (example_driver True) 2 = Inr [20, 21]"
    "GetObjectiveStatesSensitivities_point (example_driver True) 2 = Inr [20, 21, 22, 23]"
    using B2 by (simp_all add: example_driver_simps upt_2 upt_4)
  ultimately show ?thesis using A by simp
qed

text \<open>
  The claim as it was stated fails: with an index in range and no fluid problem
  configured, \<^verbatim>\<open>GetLaminarViscosities\<close> returns no entry, it fails.
\<close>

theorem per_point_accessors_counterexample:
  "0 < GetNumberVertices (example_driver False) \<and>
   GetLaminarViscosities_point (example_driver False) 0 =
     Inl (SU2_MPI_Error ''Flow solver is not defined!'')"
  by (simp add: GetLaminarViscosities_point_def example_driver_simps)

section \<open>Where the accessors miss what the specification says\<close>

lemma GetSpeedOfSound_point_flow_error:
  "GetSpeedOfSound_point d iPoint = Inl (SU2_MPI_Error ''Flow solver is not defined!'')
     \<longleftrightarrow> GetFluidProblem (main_config d)"
  by (simp add: GetSpeedOfSound_point_def)

lemma GetLaminarViscosities_point_flow_error:
  "GetLaminarViscosities_point d iPoint = Inl (SU2_MPI_Error ''Flow solver is not defined!'')
     \<longleftrightarrow> \<not> GetFluidProblem (main_config d)"
  by (simp add: GetLaminarViscosities_point_def)

lemma GetMarkerEddyViscosities_is_laminar:
  "GetMarkerEddyViscosities d iMarker = GetMarkerLaminarViscosities d iMarker"
  by (simp add: GetMarkerEddyViscosities_def GetMarkerLaminarViscosities_def)

lemma SetMarkerAdjointForces_vertex_out_of_range:
  assumes "GetFluidProblem (main_config d)" "GetDiscrete_Adjoint (main_config d)"
    and "iVertex < GetNumberMarkerVertices d iMarker"
    and "length values = nDim d" "0 < nDim d" "0 < iVertex"
  shows "SetMarkerAdjointForces_vertex d iMarker iVertex values =
           Inl (OutOfRange (iVertex * nDim d) (nDim d))"
proof -
  have "[0..<nDim d] = 0 # [Suc 0..<nDim d]"
    using assms(5) by (simp add: upt_conv_Cons)
  moreover have "\<not> iVertex * nDim d < nDim d"
    using assms(6) by simp
  ultimately show ?thesis
    using assms by (simp add: SetMarkerAdjointForces_vertex_def Let_def)
qed

text \<open>
  Claim C5. The guard of \<^verbatim>\<open>GetSpeedOfSound(iPoint)\<close> lacks the negation that the guard
  of \<^verbatim>\<open>GetLaminarViscosities(iPoint)\<close> has. With a fluid problem configured and the
  index 0 in range, \<^verbatim>\<open>GetSpeedOfSound\<close> fails with "Flow solver is not defined!" where
  \<^verbatim>\<open>GetLaminarViscosities\<close> returns its entry; with no fluid problem configured,
  \<^verbatim>\<open>GetSpeedOfSound\<close> returns a value where \<^verbatim>\<open>GetLaminarViscosities\<close> fails.
\<close>

theorem GetSpeedOfSound_point_guard:
  "GetFluidProblem (main_config (example_driver True)) \<and>
   0 < GetNumberVertices (example_driver True) \<and>
   GetSpeedOfSound_point (example_driver True) 0 =
     Inl (SU2_MPI_Error ''Flow solver is not defined!'') \<and>
   GetLaminarViscosities_point (example_driver True) 0 = Inr 1 \<and>
   \<not> GetFluidProblem (main_config (example_driver False)) \<and>
   GetSpeedOfSound_point (example_driver False) 0 = Inr 340 \<and>
   GetLaminarViscosities_point (example_driver False) 0 =
     Inl (SU2_MPI_Error ''Flow solver is not defined!'')"
  by (simp add: GetSpeedOfSound_point_def GetLaminarViscosities_point_def example_driver_simps)

text \<open>
  Claim C6. The whole-marker \<^verbatim>\<open>GetMarkerEddyViscosities\<close> pushes back the values of
  \<^verbatim>\<open>GetMarkerLaminarViscosities(iMarker, iVertex)\<close>, and the whole-marker
  \<^verbatim>\<open>GetMarkerSpeedOfSound\<close> pushes back the values of \<^verbatim>\<open>GetSpeedOfSound(iVertex)\<close>,
  which takes the vertex index of the marker for a point index of the mesh. On the marker
  whose two vertices are the points 1 and 2, the first returns the laminar viscosities
  \<open>[2, 3]\<close> where its own element-wise overload gives the eddy viscosities
  \<open>[11, 12]\<close>, and the second returns the sound speeds \<open>[340, 341]\<close> of the points 0
  and 1 where its own element-wise overload gives \<open>[341, 342]\<close>.
\<close>

theorem marker_batch_getters_differ:
  "GetMarkerEddyViscosities (example_driver True) 0 = Inr [2, 3] \<and>
   GetMarkerEddyViscosities_spec (example_driver True) 0 = Inr [11, 12] \<and>
   GetMarkerLaminarViscosities (example_driver True) 0 = Inr [2, 3] \<and>
   GetMarkerSpeedOfSound (example_driver False) 0 = Inr [340, 341] \<and>
   GetMarkerSpeedOfSound_spec (example_driver False) 0 = Inr [341, 342]"
  by (simp add: GetMarkerEddyViscosities_def GetMarkerEddyViscosities_spec_def
        GetMarkerLaminarViscosities_def GetMarkerSpeedOfSound_def GetMarkerSpeedOfSound_spec_def
        GetMarkerLaminarViscosities_vertex_def GetMarkerEddyViscosities_vertex_def
        GetMarkerSpeedOfSound_vertex_def GetSpeedOfSound_point_def
        push_back_each_two example_driver_simps)

text \<open>
  Claim C9. The element-wise \<^verbatim>\<open>SetMarkerAdjointForces\<close> reads
  \<^verbatim>\<open>values[iVertex * nDim + iDim]\<close>. With two dimensions, the vertex 1 of a marker of
  two vertices and a vector of two values, the first read is at the index 2, beyond the
  end of the vector; the whole-marker overload reaches this call with its second row.
  Only for the vertex 0 are the reads in range and the stored tractions the given values.
\<close>

theorem SetMarkerAdjointForces_vertex_reads:
  "length [5, 7 :: real] = nDim (example_driver True) \<and>
   1 < GetNumberMarkerVertices (example_driver True) 0 \<and>
   SetMarkerAdjointForces_vertex (example_driver True) 0 1 [5, 7] = Inl (OutOfRange 2 2) \<and>
   SetMarkerAdjointForces (example_driver True) 0 ([1, 2] # [5, 7] # []) = Inl (OutOfRange 2 2) \<and>
   (\<exists>d'. SetMarkerAdjointForces_vertex (example_driver True) 0 0 [1, 2] = Inr d' \<and>
         GetAdjointVertexTractions d' 0 0 0 = 1 \<and> GetAdjointVertexTractions d' 0 0 1 = 2)"
  by (simp add: SetMarkerAdjointForces_vertex_def SetMarkerAdjointForces_def upt_2
        StoreVertexTractionsAdjoint_simps example_driver_simps)

text \<open>
  The same evaluation, read off the theorem: the call for the vertex 1 returns no driver.
\<close>

theorem SetMarkerAdjointForces_vertex_reads_witness:
  "isl (SetMarkerAdjointForces_vertex (example_driver True) 0 1 [5, 7]) \<and>
   isl (SetMarkerAdjointForces (example_driver True) 0 ([1, 2] # [5, 7] # [])) \<and>
   \<not> isl (SetMarkerAdjointForces_vertex (example_driver True) 0 0 [1, 2])"
proof -
  from SetMarkerAdjointForces_vertex_reads
  obtain d' where "SetMarkerAdjointForces_vertex (example_driver True) 0 1 [5, 7] = Inl (OutOfRange 2 2)"
    and "SetMarkerAdjointForces (example_driver True) 0 ([1, 2] # [5, 7] # []) = Inl (OutOfRange 2 2)"
    and "SetMarkerAdjointForces_vertex (example_driver True) 0 0 [1, 2] = Inr d'"
    by blast
  then show ?thesis by simp
qed

end
